theory Spec2Isabelle
  imports Complex_Main "HOL-Library.AList" "HOL-Library.Sublist" "HOL-Library.Multiset"
begin

section \<open>JavaScript values and strings\<close>

text \<open>
  Modelling conventions.
  \<^item> A JavaScript string is a \<^typ>\<open>string\<close> holding its UTF-8 bytes (substring search is
    the same on bytes and on code points). \<open>toLowerCase\<close> maps A-Z to a-z and leaves every
    other byte alone: case mapping outside ASCII is not modelled. White space is the set
    of code points that \<open>String.prototype.trim\<close> strips, each as its UTF-8 encoding.
  \<^item> A JavaScript number is an exact rational: rounding of IEEE doubles, NaN and the
    infinities are outside the model. Counters that only grow by one are natural numbers.
    Clock readings (\<open>Date.now()\<close>) are integers and are passed to every operation that
    reads the clock; \<open>Math.random()\<close> is passed in as the text it contributes.
  \<^item> A \<open>Map\<close> is an association list in insertion order or, where the order is never
    observed, a map \<open>string \<rightharpoonup> T\<close>. A plain object used as a dictionary
    (\<open>Record<string, T>\<close>) is an association list of its own properties in insertion
    order; a read \<open>obj[key]\<close> also finds the members that every plain object inherits from
    \<open>Object.prototype\<close>, and each definition that embeds such a read says how it treats
    them. Keys are not integer-like (JavaScript would enumerate those first).
  \<^item> An absent property and \<open>undefined\<close> are \<open>None\<close>; \<open>null\<close> is \<open>JNull\<close>.
  \<^item> A function stored in props is an opaque token (\<open>callback\<close>): a registered handler
    \<open>Fn f\<close>, or one of the closures that \<open>attachHandlers\<close> builds around a handler.
  \<^item> Every exception of the source is a value of type \<open>error\<close> returned on the left of a
    sum.
\<close>

datatype callback =
    Fn nat
  | ConfirmClosure nat string
  | CancelClosure nat string
  | ExportClosure nat

datatype jsval =
    JNull
  | JBool bool
  | JNum rat
  | JStr string
  | JArr "jsval list"
  | JObj "(string \<times> jsval) list"
  | JFun callback

definition lower_char :: "char \<Rightarrow> char" where
  "lower_char c =
     (case map_of (zip ''ABCDEFGHIJKLMNOPQRSTUVWXYZ'' ''abcdefghijklmnopqrstuvwxyz'') c of
        Some d \<Rightarrow> d
      | None \<Rightarrow> c)"

definition toLowerCase :: "string \<Rightarrow> string" where
  "toLowerCase s = map lower_char s"

text \<open>\<open>s.includes(p)\<close>: \<open>p\<close> occurs in \<open>s\<close> as a contiguous run.\<close>

definition includes_str :: "string \<Rightarrow> string \<Rightarrow> bool" where
  "includes_str s p = sublist p s"

definition startsWith :: "string \<Rightarrow> string \<Rightarrow> bool" where
  "startsWith s p = prefix p s"

text \<open>
  The code points that \<open>trim\<close> removes (the productions WhiteSpace and LineTerminator of
  the language standard), in UTF-8: U+0009 to U+000D, U+0020, U+00A0, U+1680, U+2000 to
  U+200A, U+2028, U+2029, U+202F, U+205F, U+3000 and U+FEFF.
\<close>

definition white_space :: "string list" where
  "white_space =
     [[CHR 0x09], [CHR 0x0A], [CHR 0x0B], [CHR 0x0C], [CHR 0x0D], [CHR 0x20],
      [CHR 0xC2, CHR 0xA0],
      [CHR 0xE1, CHR 0x9A, CHR 0x80],
      [CHR 0xE2, CHR 0x80, CHR 0x80], [CHR 0xE2, CHR 0x80, CHR 0x81],
      [CHR 0xE2, CHR 0x80, CHR 0x82], [CHR 0xE2, CHR 0x80, CHR 0x83],
      [CHR 0xE2, CHR 0x80, CHR 0x84], [CHR 0xE2, CHR 0x80, CHR 0x85],
      [CHR 0xE2, CHR 0x80, CHR 0x86], [CHR 0xE2, CHR 0x80, CHR 0x87],
      [CHR 0xE2, CHR 0x80, CHR 0x88], [CHR 0xE2, CHR 0x80, CHR 0x89],
      [CHR 0xE2, CHR 0x80, CHR 0x8A],
      [CHR 0xE2, CHR 0x80, CHR 0xA8], [CHR 0xE2, CHR 0x80, CHR 0xA9],
      [CHR 0xE2, CHR 0x80, CHR 0xAF],
      [CHR 0xE2, CHR 0x81, CHR 0x9F],
      [CHR 0xE3, CHR 0x80, CHR 0x80],
      [CHR 0xEF, CHR 0xBB, CHR 0xBF]]"

text \<open>
  \<open>strip_leading ws s\<close> removes from the front of \<open>s\<close> every run of byte sequences of
  \<open>ws\<close>. \<open>trim\<close> strips white space from the front and, on the reversed text with the
  reversed encodings, from the end. (UTF-8 is prefix-free and a continuation byte is
  never a first byte, so a match of an encoding at either end of well-formed text is
  that code point.)
\<close>

function strip_leading :: "string list \<Rightarrow> string \<Rightarrow> string" where
  "strip_leading ws s =
     (case find (\<lambda>w. w \<noteq> [] \<and> prefix w s) ws of
        None \<Rightarrow> s
      | Some w \<Rightarrow> strip_leading ws (drop (length w) s))"
  by pat_completeness auto

termination
proof (relation "measure (\<lambda>(ws, s). length s)")
  show "wf (measure (\<lambda>(ws, s). length s))" by simp
next
  fix ws :: "string list" and s w :: string
  assume "find (\<lambda>w. w \<noteq> [] \<and> prefix w s) ws = Some w"
  then have "w \<noteq> []" and "prefix w s" by (auto simp add: find_Some_iff)
  then obtain a w' where "w = a # w'" and "length w \<le> length s"
    by (cases w) (auto simp add: prefix_def)
  then show "((ws, drop (length w) s), (ws, s)) \<in> measure (\<lambda>(ws, s). length s)" by simp
qed

declare strip_leading.simps [simp del]

definition trim :: "string \<Rightarrow> string" where
  "trim s = rev (strip_leading (map rev white_space) (rev (strip_leading white_space s)))"

text \<open>\<open>[...new Set(xs)]\<close>: duplicates dropped, the first occurrence of each element kept.\<close>

definition uniq :: "'a list \<Rightarrow> 'a list" where
  "uniq xs = rev (remdups (rev xs))"

text \<open>A non-empty string is truthy, the empty string is falsy.\<close>

definition truthy_str :: "string option \<Rightarrow> bool" where
  "truthy_str r = (case r of None \<Rightarrow> False | Some s \<Rightarrow> s \<noteq> [])"

text \<open>
  The members that a plain object inherits from \<open>Object.prototype\<close>: eleven functions and
  the accessor \<open>__proto__\<close>, whose getter returns the prototype. All of them are truthy.
  Where one is used as a property key or in a template it is converted to text:
  \<open>[object Object]\<close> for the prototype, and the source text of a built-in function, which
  is \<open>function f() { [native code] }\<close> with its name (\<open>constructor\<close> is the function \<open>Object\<close>).
\<close>

definition Object_prototype_functions :: "string list" where
  "Object_prototype_functions =
     [''constructor'', ''__defineGetter__'', ''__defineSetter__'', ''hasOwnProperty'',
      ''__lookupGetter__'', ''__lookupSetter__'', ''isPrototypeOf'', ''propertyIsEnumerable'',
      ''toString'', ''valueOf'', ''toLocaleString'']"

definition inherited :: "string \<Rightarrow> bool" where
  "inherited k = (k = ''__proto__'' \<or> k \<in> set Object_prototype_functions)"

definition inherited_text :: "string \<Rightarrow> string" where
  "inherited_text k =
     (if k = ''__proto__'' then ''[object Object]''
      else ''function '' @ (if k = ''constructor'' then ''Object'' else k) @ ''() { [native code] }'')"

text \<open>The exceptions of the source: every one that the model meets is a \<open>TypeError\<close>.\<close>

datatype error = TypeError string

section \<open>UI state engine (\<open>src/lib/ui-state-engine.ts\<close>)\<close>

text \<open>
  A descriptor, as callers write it (\<open>UIComponent\<close>): \<open>order\<close> is optional, \<open>None\<close> is a
  descriptor without that property; \<open>visible\<close> is a required boolean, so \<open>visible ?? true\<close>
  is \<open>visible\<close>.
\<close>

record UIComponent =
  c_id :: string
  c_type :: string
  c_props :: "string \<rightharpoonup> jsval"
  c_visible :: bool
  c_order :: "rat option"

text \<open>
  An object held in the tree. The reducer builds these objects by spreading what a lookup
  found, and a lookup can find a function of \<open>Object.prototype\<close>, so an object of the tree
  may lack any of the five properties.
\<close>

record StoredComponent =
  s_id :: "string option"
  s_type :: "string option"
  s_props :: "(string \<rightharpoonup> jsval) option"
  s_visible :: "bool option"
  s_order :: "rat option"

definition as_stored :: "UIComponent \<Rightarrow> StoredComponent" where
  "as_stored cm =
     \<lparr>s_id = Some (c_id cm), s_type = Some (c_type cm), s_props = Some (c_props cm),
      s_visible = Some (c_visible cm), s_order = c_order cm\<rparr>"

definition no_fields :: StoredComponent where
  "no_fields = \<lparr>s_id = None, s_type = None, s_props = None, s_visible = None, s_order = None\<rparr>"

text \<open>
  The tree is a plain object: its own properties in insertion order and its prototype,
  \<open>None\<close> for \<open>Object.prototype\<close>. An assignment to the key \<open>__proto__\<close> of an object that
  has no own property of that name replaces the prototype instead of adding a property,
  and a spread copy \<open>{ ...state }\<close> has the prototype \<open>Object.prototype\<close> again.
\<close>

record UIState =
  t_own :: "(string \<times> StoredComponent) list"
  t_proto :: "StoredComponent option"

definition empty_tree :: UIState where
  "empty_tree = \<lparr>t_own = [], t_proto = None\<rparr>"

definition copy_of :: "UIState \<Rightarrow> UIState" where
  "copy_of st = \<lparr>t_own = t_own st, t_proto = None\<rparr>"

text \<open>
  \<open>state[id]\<close>. \<open>Stored c\<close> is an object of the tree (an own property, or the replaced
  prototype read through \<open>__proto__\<close>); \<open>Inherited\<close> is a function of \<open>Object.prototype\<close> or
  \<open>Object.prototype\<close> itself: truthy, with none of the five properties, and nothing to
  spread; \<open>Missing\<close> is \<open>undefined\<close>. Not modelled: after the prototype has been replaced,
  the ids \<open>id\<close>, \<open>type\<close>, \<open>props\<close>, \<open>visible\<close> and \<open>order\<close> find the properties of the new
  prototype (a string, a boolean, a number or the props object); here they are \<open>Missing\<close>
  unless they are own properties.
\<close>

datatype property = Stored StoredComponent | Inherited | Missing

definition lookup :: "UIState \<Rightarrow> string \<Rightarrow> property" where
  "lookup st i =
     (case map_of (t_own st) i of
        Some c \<Rightarrow> Stored c
      | None \<Rightarrow>
          if i = ''__proto__'' then (case t_proto st of Some p \<Rightarrow> Stored p | None \<Rightarrow> Inherited)
          else if i \<in> set Object_prototype_functions then Inherited
          else Missing)"

text \<open>\<open>state[id] = c\<close>\<close>

definition assign :: "UIState \<Rightarrow> string \<Rightarrow> StoredComponent \<Rightarrow> UIState" where
  "assign st i c =
     (if i = ''__proto__'' \<and> map_of (t_own st) i = None then st\<lparr>t_proto := Some c\<rparr>
      else st\<lparr>t_own := AList.update i c (t_own st)\<rparr>)"

datatype UIAction =
    Render UIComponent
  | Remove string
  | Update string "string \<rightharpoonup> jsval"
  | Show string
  | Hide string
  | SetOrder string rat
  | Batch "UIAction list"

record UIStateResult =
  r_state :: UIState
  added :: "string list"
  removed :: "string list"
  updated :: "string list"
  visibilityChanged :: "string list"

text \<open>The result that \<open>reduce\<close> starts from: a spread copy of the tree and four empty lists.\<close>

definition empty_result :: "UIState \<Rightarrow> UIStateResult" where
  "empty_result st =
     \<lparr>r_state = copy_of st, added = [], removed = [], updated = [], visibilityChanged = []\<rparr>"

text \<open>
  \<open>reduce\<close> is the private reducer. It is pure except for \<open>this.nextOrder++\<close> in the render
  case, so the counter is threaded through. \<open>reduce_batch\<close> is the loop of the batch case:
  \<open>cur\<close> is \<open>currentState\<close>, \<open>acc\<close> the result under construction. The tests are on
  \<open>state[action.id]\<close>, so every case tells the three outcomes of the lookup apart. In the
  update case the test reads \<open>state\<close> and the object that is spread is read from the copy.
\<close>

fun reduce :: "nat \<Rightarrow> UIState \<Rightarrow> UIAction \<Rightarrow> UIStateResult \<times> nat"
  and reduce_batch :: "nat \<Rightarrow> UIState \<Rightarrow> UIStateResult \<Rightarrow> UIAction list \<Rightarrow> UIStateResult \<times> nat"
where
  "reduce n st (Batch acts) = reduce_batch n st (empty_result st) acts"
| "reduce n st (Render cm) =
     (case lookup st (c_id cm) of
        Stored existing \<Rightarrow>
          ((empty_result st)
             \<lparr>r_state := assign (copy_of st) (c_id cm)
                  ((as_stored cm)
                     \<lparr>s_id := s_id existing,
                      s_order := (case c_order cm of None \<Rightarrow> s_order existing | Some k \<Rightarrow> Some k)\<rparr>),
              updated := [c_id cm]\<rparr>, n)
      | Inherited \<Rightarrow>
          ((empty_result st)
             \<lparr>r_state := assign (copy_of st) (c_id cm) ((as_stored cm)\<lparr>s_id := None\<rparr>),
              updated := [c_id cm]\<rparr>, n)
      | Missing \<Rightarrow>
          (case c_order cm of
             Some k \<Rightarrow>
               ((empty_result st)
                  \<lparr>r_state := assign (copy_of st) (c_id cm) (as_stored cm), added := [c_id cm]\<rparr>, n)
           | None \<Rightarrow>
               ((empty_result st)
                  \<lparr>r_state := assign (copy_of st) (c_id cm) ((as_stored cm)\<lparr>s_order := Some (of_nat n)\<rparr>),
                   added := [c_id cm]\<rparr>, Suc n)))"
| "reduce n st (Remove i) =
     (case lookup st i of
        Missing \<Rightarrow> (empty_result st, n)
      | _ \<Rightarrow>
          ((empty_result st)
             \<lparr>r_state := (copy_of st)\<lparr>t_own := AList.delete i (t_own st)\<rparr>, removed := [i]\<rparr>, n))"
| "reduce n st (Update i p) =
     (case lookup st i of
        Missing \<Rightarrow> (empty_result st, n)
      | _ \<Rightarrow>
          ((empty_result st)
             \<lparr>r_state := assign (copy_of st) i
                  (case lookup (copy_of st) i of
                     Stored existing \<Rightarrow>
                       existing\<lparr>s_props :=
                         Some ((case s_props existing of None \<Rightarrow> Map.empty | Some q \<Rightarrow> q) ++ p)\<rparr>
                   | _ \<Rightarrow> no_fields\<lparr>s_props := Some p\<rparr>),
              updated := [i]\<rparr>, n))"
| "reduce n st (Show i) =
     (case lookup st i of
        Stored existing \<Rightarrow>
          (if s_visible existing \<noteq> Some True
           then ((empty_result st)
                   \<lparr>r_state := assign (copy_of st) i (existing\<lparr>s_visible := Some True\<rparr>),
                    visibilityChanged := [i]\<rparr>, n)
           else (empty_result st, n))
      | Inherited \<Rightarrow>
          ((empty_result st)
             \<lparr>r_state := assign (copy_of st) i (no_fields\<lparr>s_visible := Some True\<rparr>),
              visibilityChanged := [i]\<rparr>, n)
      | Missing \<Rightarrow> (empty_result st, n))"
| "reduce n st (Hide i) =
     (case lookup st i of
        Stored existing \<Rightarrow>
          (if s_visible existing = Some True
           then ((empty_result st)
                   \<lparr>r_state := assign (copy_of st) i (existing\<lparr>s_visible := Some False\<rparr>),
                    visibilityChanged := [i]\<rparr>, n)
           else (empty_result st, n))
      | _ \<Rightarrow> (empty_result st, n))"
| "reduce n st (SetOrder i k) =
     (case lookup st i of
        Stored existing \<Rightarrow>
          ((empty_result st)
             \<lparr>r_state := assign (copy_of st) i (existing\<lparr>s_order := Some k\<rparr>), updated := [i]\<rparr>, n)
      | Inherited \<Rightarrow>
          ((empty_result st)
             \<lparr>r_state := assign (copy_of st) i (no_fields\<lparr>s_order := Some k\<rparr>), updated := [i]\<rparr>, n)
      | Missing \<Rightarrow> (empty_result st, n))"
| "reduce_batch n cur acc [] = (acc\<lparr>r_state := cur\<rparr>, n)"
| "reduce_batch n cur acc (a # acts) =
     (case reduce n cur a of
        (sub, n') \<Rightarrow>
          reduce_batch n' (r_state sub)
            (acc\<lparr>added := added acc @ added sub,
                 removed := removed acc @ removed sub,
                 updated := updated acc @ updated sub,
                 visibilityChanged := visibilityChanged acc @ visibilityChanged sub\<rparr>)
            acts)"

text \<open>
  The engine object. Listeners are observers: \<open>notify\<close> hands them the result inside a
  \<open>try\<close>/\<open>catch\<close> and the engine reads nothing back, so they are not part of the state
  (a listener that re-enters \<open>dispatch\<close> is excluded, as the one-in-flight rule demands).
\<close>

record UIStateEngine =
  e_state :: UIState
  nextOrder :: nat
  version :: nat

definition new_UIStateEngine :: UIStateEngine where
  "new_UIStateEngine = \<lparr>e_state = empty_tree, nextOrder = 0, version = 0\<rparr>"

definition dispatch :: "UIStateEngine \<Rightarrow> UIAction \<Rightarrow> UIStateResult \<times> UIStateEngine" where
  "dispatch e a =
     (case reduce (nextOrder e) (e_state e) a of
        (res, n') \<Rightarrow> (res, e\<lparr>e_state := r_state res, nextOrder := n', version := version e + 1\<rparr>))"


text \<open>A run of separate \<open>dispatch\<close> calls, one per action, as the orchestrator's loops make.\<close>

fun dispatch_each :: "UIStateEngine \<Rightarrow> UIAction list \<Rightarrow> UIStateEngine" where
  "dispatch_each e [] = e"
| "dispatch_each e (a # acts) = dispatch_each (snd (dispatch e a)) acts"

definition reset :: "UIStateEngine \<Rightarrow> UIStateResult \<times> UIStateEngine" where
  "reset e =
     (\<lparr>r_state = empty_tree, added = [], removed = map fst (t_own (e_state e)), updated = [],
       visibilityChanged = []\<rparr>,
      e\<lparr>e_state := empty_tree, version := version e + 1\<rparr>)"

text \<open>
  \<open>getState()\<close> returns a spread copy; its callers read the own properties
  (\<open>Object.keys\<close>, \<open>Object.values\<close>, \<open>Object.entries\<close>) or look an id up in the copy.
\<close>

definition getState :: "UIStateEngine \<Rightarrow> UIState" where
  "getState e = copy_of (e_state e)"

text \<open>\<open>this.state[id] ? { ...this.state[id] } : undefined\<close>\<close>

definition getComponent :: "UIStateEngine \<Rightarrow> string \<Rightarrow> StoredComponent option" where
  "getComponent e i =
     (case lookup (e_state e) i of
        Stored c \<Rightarrow> Some c
      | Inherited \<Rightarrow> Some no_fields
      | Missing \<Rightarrow> None)"

definition order_key :: "StoredComponent \<Rightarrow> rat" where
  "order_key c = (case s_order c of None \<Rightarrow> 0 | Some k \<Rightarrow> k)"

text \<open>\<open>visible\<close> is a boolean or \<open>undefined\<close>, so \<open>c.visible\<close> is truthy when it is \<open>true\<close>.\<close>

definition is_visible :: "StoredComponent \<Rightarrow> bool" where
  "is_visible c = (s_visible c = Some True)"

definition getVisibleComponents :: "UIStateEngine \<Rightarrow> StoredComponent list" where
  "getVisibleComponents e = sort_key order_key (filter is_visible (map snd (t_own (e_state e))))"

section \<open>Intent memory (\<open>src/unnamed/part_004\<close>)\<close>

text \<open>Decimal rendering of an integer, as \<open>String(n)\<close> and template literals give it.\<close>

definition digit_char :: "nat \<Rightarrow> char" where
  "digit_char n = ''0123456789'' ! (n mod 10)"

fun decimal_of_nat :: "nat \<Rightarrow> string" where
  "decimal_of_nat n =
     (if 10 \<le> n then decimal_of_nat (n div 10) @ [digit_char n] else [digit_char n])"

declare decimal_of_nat.simps [simp del]

definition decimal_of_int :: "int \<Rightarrow> string" where
  "decimal_of_int i =
     (if 0 \<le> i then decimal_of_nat (nat i) else CHR ''-'' # decimal_of_nat (nat (- i)))"

text \<open>
  The payload \<open>data\<close> of an intent is never read by the engine; its type is a parameter.
\<close>

record 'd Intent =
  i_id :: string
  i_timestamp :: int
  i_input :: string
  i_type :: string
  componentIds :: "string list"
  i_data :: "'d option"

record ComponentReference =
  r_key :: string
  componentId :: "string option"
  r_timestamp :: int
  description :: "string option"

record 'd IntentMemoryEngine =
  intents :: "'d Intent list"
  references :: "string \<rightharpoonup> ComponentReference"
  currentIntentId :: "string option"
  maxIntents :: int
  maxAge :: int

text \<open>The constructor: \<open>maxIntents ?? 50\<close>, \<open>maxAge ?? 60 * 60 * 1000\<close>.\<close>

definition new_IntentMemoryEngine :: "int option \<Rightarrow> int option \<Rightarrow> 'd IntentMemoryEngine" where
  "new_IntentMemoryEngine mi ma =
     \<lparr>intents = [], references = Map.empty, currentIntentId = None,
      maxIntents = (case mi of None \<Rightarrow> 50 | Some k \<Rightarrow> k),
      maxAge = (case ma of None \<Rightarrow> 60 * 60 * 1000 | Some k \<Rightarrow> k)\<rparr>"

text \<open>
  \<open>setReference(key, componentId, timestamp?, description?)\<close>; \<open>now\<close> is \<open>Date.now()\<close>.
  \<open>indexComponents\<close> passes the id of an object of the tree, which may be \<open>undefined\<close>, so
  the id of a reference is optional; \<open>resolveReference\<close> returns it as it is stored.
\<close>

definition setReference ::
  "'d IntentMemoryEngine \<Rightarrow> string \<Rightarrow> string option \<Rightarrow> int option \<Rightarrow> string option \<Rightarrow> int
     \<Rightarrow> 'd IntentMemoryEngine" where
  "setReference m key cid ts desc now =
     m\<lparr>references := (references m)(toLowerCase key \<mapsto>
          \<lparr>r_key = toLowerCase key, componentId = cid,
           r_timestamp = (case ts of None \<Rightarrow> now | Some t \<Rightarrow> t), description = desc\<rparr>)\<rparr>"

definition resolveReference :: "'d IntentMemoryEngine \<Rightarrow> string \<Rightarrow> string option" where
  "resolveReference m key =
     (case references m (toLowerCase key) of
        Some ref \<Rightarrow> componentId ref
      | None \<Rightarrow>
          (case find (\<lambda>intent. list_ex (\<lambda>i. includes_str (toLowerCase i) (toLowerCase key))
                                  (componentIds intent)) (intents m) of
             Some matchingIntent \<Rightarrow>
               (case componentIds matchingIntent of [] \<Rightarrow> None | x # _ \<Rightarrow> Some x)
           | None \<Rightarrow> None))"

text \<open>\<open>xs.slice(start)\<close> for an integer \<open>start\<close>; \<open>slice(-0)\<close> is \<open>slice(0)\<close>.\<close>

definition slice_from :: "int \<Rightarrow> 'a list \<Rightarrow> 'a list" where
  "slice_from start xs =
     (if start < 0 then drop (nat (max (int (length xs) + start) 0)) xs else drop (nat start) xs)"

definition cleanup :: "int \<Rightarrow> 'd IntentMemoryEngine \<Rightarrow> 'd IntentMemoryEngine" where
  "cleanup now m =
     (let kept = filter (\<lambda>intent. now - i_timestamp intent < maxAge m) (intents m);
          trimmed = (if int (length kept) > maxIntents m then slice_from (- maxIntents m) kept
                     else kept)
      in m\<lparr>intents := trimmed,
           references := (\<lambda>k. case references m k of
                                 None \<Rightarrow> None
                               | Some ref \<Rightarrow> if now - r_timestamp ref > maxAge m then None
                                             else Some ref)\<rparr>)"

text \<open>
  \<open>recordIntent\<close>: \<open>now\<close> is the clock read at its first line, \<open>rnd\<close> the random suffix of
  the id, \<open>nowc\<close> the clock read inside \<open>cleanup\<close>.
\<close>

definition recordIntent ::
  "'d IntentMemoryEngine \<Rightarrow> int \<Rightarrow> string \<Rightarrow> int \<Rightarrow> string \<Rightarrow> string \<Rightarrow> string list \<Rightarrow> 'd option
     \<Rightarrow> 'd Intent \<times> 'd IntentMemoryEngine" where
  "recordIntent m now rnd nowc inp ty ids dat =
     (let newIntent = \<lparr>i_id = ''intent_'' @ decimal_of_int now @ ''_'' @ rnd, i_timestamp = now,
                       i_input = inp, i_type = ty, componentIds = ids, i_data = dat\<rparr>;
          m1 = cleanup nowc m;
          m2 = m1\<lparr>intents := intents m1 @ [newIntent], currentIntentId := Some (i_id newIntent)\<rparr>;
          m3 = (case ids of [] \<Rightarrow> m2 | x # _ \<Rightarrow> setReference m2 ''this'' (Some x) (Some now) None now);
          prevIntent = (if 2 \<le> length (intents m3)
                        then Some (intents m3 ! (length (intents m3) - 2)) else None);
          m4 = (case prevIntent of
                  None \<Rightarrow> m3
                | Some p \<Rightarrow>
                    (case componentIds p of
                       [] \<Rightarrow> m3
                     | y # _ \<Rightarrow> setReference m3 ''that'' (Some y) (Some (i_timestamp p)) None now))
      in (newIntent, m4))"

subsection \<open>Reference extraction: the four regular expressions\<close>

definition isWordChar :: "char \<Rightarrow> bool" where
  "isWordChar c =
     (c \<in> set ''ABCDEFGHIJKLMNOPQRSTUVWXYZabcdefghijklmnopqrstuvwxyz0123456789_'')"

text \<open>
  \<open>text.match(/.../g)\<close>: all matches, left to right, without overlap. A matcher is tried at
  the current position, knowing the character before it (for \<open>\b\<close>), and returns the
  length of its match; \<open>k\<close> characters of a match found earlier are still to be skipped.
\<close>

fun scan :: "(char option \<Rightarrow> string \<Rightarrow> nat option) \<Rightarrow> nat \<Rightarrow> char option \<Rightarrow> string \<Rightarrow> string list"
where
  "scan m k prev [] = []"
| "scan m k prev (c # cs) =
     (if 0 < k then scan m (k - 1) (Some c) cs
      else (case m prev (c # cs) of
              Some len \<Rightarrow> take len (c # cs) # scan m (len - 1) (Some c) cs
            | None \<Rightarrow> scan m 0 (Some c) cs))"

definition prevIsWord :: "char option \<Rightarrow> bool" where
  "prevIsWord prev = (case prev of None \<Rightarrow> False | Some p \<Rightarrow> isWordChar p)"

definition endBoundary :: "string \<Rightarrow> bool" where
  "endBoundary rest = (case rest of [] \<Rightarrow> True | c # _ \<Rightarrow> \<not> isWordChar c)"

text \<open>\<open>/\bthis\b/\<close> and \<open>/\bthat\b/\<close>.\<close>

definition match_word :: "string \<Rightarrow> char option \<Rightarrow> string \<Rightarrow> nat option" where
  "match_word w prev s =
     (if \<not> prevIsWord prev \<and> prefix w s \<and> endBoundary (drop (length w) s)
      then Some (length w) else None)"

text \<open>
  \<open>/\bthe (above )?(\w+)\b/\<close>: the optional group is tried first; the greedy \<open>\w+\<close> ends
  at a word boundary by itself.
\<close>

definition match_the :: "char option \<Rightarrow> string \<Rightarrow> nat option" where
  "match_the prev s =
     (if \<not> prevIsWord prev \<and> prefix ''the '' s then
        (let rest = drop 4 s in
         if prefix ''above '' rest \<and> takeWhile isWordChar (drop 6 rest) \<noteq> []
         then Some (10 + length (takeWhile isWordChar (drop 6 rest)))
         else if takeWhile isWordChar rest \<noteq> []
         then Some (4 + length (takeWhile isWordChar rest))
         else None)
      else None)"

text \<open>\<open>/\b(\w+) (above|below)\b/\<close>: a shorter \<open>\w+\<close> is followed by a word character, never a space.\<close>

definition match_position :: "char option \<Rightarrow> string \<Rightarrow> nat option" where
  "match_position prev s =
     (let w = takeWhile isWordChar s; rest = drop (length w) s in
      if \<not> prevIsWord prev \<and> w \<noteq> []
         \<and> (prefix '' above'' rest \<or> prefix '' below'' rest) \<and> endBoundary (drop 6 rest)
      then Some (length w + 6) else None)"

definition extractReferences :: "string \<Rightarrow> string list" where
  "extractReferences text =
     uniq (scan (match_word ''this'') 0 None text @ scan (match_word ''that'') 0 None text
           @ scan match_the 0 None text @ scan match_position 0 None text)"

text \<open>\<open>ref.toLowerCase().replace(/^(the |above |below )/i, "").trim()\<close>\<close>

definition cleanRef :: "string \<Rightarrow> string" where
  "cleanRef ref =
     (let l = toLowerCase ref in
      trim (if prefix ''the '' l then drop 4 l
            else if prefix ''above '' l then drop 6 l
            else if prefix ''below '' l then drop 6 l
            else l))"

definition resolveReferencesInText ::
  "'d IntentMemoryEngine \<Rightarrow> string \<Rightarrow> (string \<rightharpoonup> string) \<Rightarrow> string list" where
  "resolveReferencesInText m text componentMap =
     uniq (concat (map (\<lambda>ref.
        (case resolveReference m (cleanRef ref) of
           Some cid \<Rightarrow>
             if cid \<noteq> [] then [cid]
             else if truthy_str (componentMap (cleanRef ref)) then [the (componentMap (cleanRef ref))]
             else []
         | None \<Rightarrow>
             if truthy_str (componentMap (cleanRef ref)) then [the (componentMap (cleanRef ref))]
             else []))
        (extractReferences text)))"

text \<open>
  The module-level helper \<open>indexComponents(components)\<close> on the singleton memory; every
  \<open>setReference\<close> in it reads the clock, here \<open>now\<close>. It is given the objects of the tree:
  \<open>comp.type.toLowerCase()\<close> throws on an object without a type, after the objects before
  it have been indexed, and an object without an id is indexed under the id \<open>undefined\<close>.
  (The map \<open>typeGroups\<close> is filled and never read.)
\<close>

fun index_by_type ::
  "'d IntentMemoryEngine \<Rightarrow> int \<Rightarrow> StoredComponent list \<Rightarrow> error option \<times> 'd IntentMemoryEngine"
where
  "index_by_type m now [] = (None, m)"
| "index_by_type m now (c # cs) =
     (case s_type c of
        None \<Rightarrow> (Some (TypeError ''comp.type is undefined''), m)
      | Some t \<Rightarrow>
          index_by_type
            (if truthy_str (resolveReference m (toLowerCase t)) then m
             else setReference m (toLowerCase t) (s_id c) None None now)
            now cs)"

definition indexComponents ::
  "'d IntentMemoryEngine \<Rightarrow> int \<Rightarrow> StoredComponent list \<Rightarrow> error option \<times> 'd IntentMemoryEngine"
where
  "indexComponents m now components =
     (case index_by_type m now components of
        (Some e, m1) \<Rightarrow> (Some e, m1)
      | (None, m1) \<Rightarrow>
          (let sortedComps = sort_key order_key components
           in (None,
               case sortedComps of
                 [] \<Rightarrow> m1
               | _ # _ \<Rightarrow> setReference (setReference m1 ''first'' (s_id (hd sortedComps)) None None now)
                            ''last'' (s_id (last sortedComps)) None None now)))"

section \<open>Hybrid data store (\<open>src/unnamed/part_003\<close>)\<close>

datatype DataSource = Mock | User | Computed

record DataEntry =
  d_value :: jsval
  d_source :: DataSource
  d_timestamp :: int

text \<open>
  \<open>MOCK_DATA\<close> is a module constant; two of its values are ISO month strings computed
  from the clock when the module loads, here the parameters \<open>cm\<close> and \<open>lm\<close>.
\<close>

definition MOCK_DATA :: "string \<Rightarrow> string \<Rightarrow> (string \<times> jsval) list" where
  "MOCK_DATA cm lm =
     [(''salary.lastMonth'', JNum 5000),
      (''salary.currentMonth'', JNum 5500),
      (''salary.previousMonth'', JNum 4800),
      (''income.baseSalary'', JNum 4500),
      (''income.bonuses'', JNum 500),
      (''income.overtime'', JNum 500),
      (''income.other'', JNum 0),
      (''expenses.rent'', JNum 1500),
      (''expenses.utilities'', JNum 200),
      (''expenses.groceries'', JNum 400),
      (''expenses.transport'', JNum 150),
      (''expenses.entertainment'', JNum 200),
      (''expenses.savings'', JNum 1000),
      (''expenses.other'', JNum 300),
      (''budget.total'', JNum 5000),
      (''budget.remaining'', JNum 750),
      (''budget.spent'', JNum 4250),
      (''accounts.checking'', JNum 2500),
      (''accounts.savings'', JNum 15000),
      (''accounts.investments'', JNum 35000),
      (''accounts.retirement'', JNum 25000),
      (''debt.creditCard'', JNum 800),
      (''debt.studentLoan'', JNum 12000),
      (''debt.carLoan'', JNum 8000),
      (''debt.mortgage'', JNum 180000),
      (''goals.emergencyFund'', JObj [(''target'', JNum 15000), (''current'', JNum 12000)]),
      (''goals.vacation'', JObj [(''target'', JNum 3000), (''current'', JNum 800)]),
      (''goals.newCar'', JObj [(''target'', JNum 20000), (''current'', JNum 5000)]),
      (''time.currentMonth'', JStr cm),
      (''time.lastMonth'', JStr lm)]"

definition USER_REQUIRED_FIELDS :: "string list" where
  "USER_REQUIRED_FIELDS =
     [''salary.lastMonth'', ''salary.currentMonth'', ''salary.previousMonth'',
      ''user.firstName'', ''user.lastName'', ''user.email'', ''user.phone'']"

record DataStore =
  d_data :: "(string \<times> DataEntry) list"
  userProvidedKeys :: "string set"

text \<open>
  The constant tables \<open>MOCK_DATA\<close> and \<open>COMPUTABLE_FIELDS\<close> are plain objects read with
  \<open>TABLE[key]\<close>. The keys given to the methods of the store are taken not to be names of
  members of \<open>Object.prototype\<close> (for such a key the read finds the inherited function);
  the orchestrator never passes one, see \<open>mapFormFieldToDataKey\<close>.
\<close>

text \<open>
  The methods of \<open>DataStore\<close> carry the prefix \<open>ds_\<close> (\<open>get\<close>, \<open>set\<close>, \<open>has\<close>, \<open>exists\<close>,
  \<open>delete\<close>, \<open>clear\<close> and \<open>import\<close> are shared with other classes or reserved). \<open>M\<close> is the
  table \<open>MOCK_DATA\<close>; \<open>now\<close> is \<open>Date.now()\<close>.
\<close>

definition initializeMockData :: "(string \<times> jsval) list \<Rightarrow> DataStore \<Rightarrow> int \<Rightarrow> DataStore" where
  "initializeMockData M ds now =
     fold (\<lambda>(key, v) d.
             if key \<notin> set USER_REQUIRED_FIELDS
             then d\<lparr>d_data := AList.update key \<lparr>d_value = v, d_source = Mock, d_timestamp = now\<rparr>
                                 (d_data d)\<rparr>
             else d)
          M ds"

definition new_DataStore :: "(string \<times> jsval) list \<Rightarrow> int \<Rightarrow> DataStore" where
  "new_DataStore M now = initializeMockData M \<lparr>d_data = [], userProvidedKeys = {}\<rparr> now"

text \<open>The stored value of a key, \<open>this.data.get(key)?.value ?? null\<close>.\<close>

definition getStored :: "DataStore \<Rightarrow> string \<Rightarrow> jsval" where
  "getStored ds key = (case map_of (d_data ds) key of None \<Rightarrow> JNull | Some e \<Rightarrow> d_value e)"

definition numOf :: "jsval \<Rightarrow> rat option" where
  "numOf v = (case v of JNum k \<Rightarrow> Some k | _ \<Rightarrow> None)"

definition orZero :: "rat option \<Rightarrow> rat" where
  "orZero r = (case r of None \<Rightarrow> 0 | Some k \<Rightarrow> k)"

text \<open>
  The functions of \<open>COMPUTABLE_FIELDS\<close>. They call \<open>store.getNumber\<close> on keys that are not
  computable themselves, which is \<open>numOf (getStored ds key)\<close>; only \<open>salary.trend\<close> reads
  another computed field, \<open>salary.change\<close>.
\<close>

definition salary_change :: "DataStore \<Rightarrow> jsval" where
  "salary_change ds =
     (case (numOf (getStored ds ''salary.currentMonth''), numOf (getStored ds ''salary.lastMonth'')) of
        (Some current, Some lst) \<Rightarrow> JNum (current - lst)
      | _ \<Rightarrow> JNull)"

definition salary_changePercent :: "DataStore \<Rightarrow> jsval" where
  "salary_changePercent ds =
     (case (numOf (getStored ds ''salary.currentMonth''), numOf (getStored ds ''salary.lastMonth'')) of
        (Some current, Some lst) \<Rightarrow>
          if lst \<noteq> 0 then JNum (((current - lst) / lst) * 100) else JNull
      | _ \<Rightarrow> JNull)"

definition salary_trend :: "DataStore \<Rightarrow> jsval" where
  "salary_trend ds =
     (case numOf (salary_change ds) of
        Some change \<Rightarrow> JStr (if change \<ge> 0 then ''up'' else ''down'')
      | None \<Rightarrow> JStr ''neutral'')"

definition stored0 :: "DataStore \<Rightarrow> string \<Rightarrow> rat" where
  "stored0 ds key = orZero (numOf (getStored ds key))"

definition expenses_total :: "DataStore \<Rightarrow> jsval" where
  "expenses_total ds =
     JNum (stored0 ds ''expenses.rent'' + stored0 ds ''expenses.utilities''
           + stored0 ds ''expenses.groceries'' + stored0 ds ''expenses.transport''
           + stored0 ds ''expenses.entertainment'' + stored0 ds ''expenses.savings''
           + stored0 ds ''expenses.other'')"

definition income_total :: "DataStore \<Rightarrow> jsval" where
  "income_total ds =
     JNum (stored0 ds ''income.baseSalary'' + stored0 ds ''income.bonuses''
           + stored0 ds ''income.overtime'' + stored0 ds ''income.other'')"

definition accounts_netWorth :: "DataStore \<Rightarrow> jsval" where
  "accounts_netWorth ds =
     JNum ((stored0 ds ''accounts.checking'' + stored0 ds ''accounts.savings''
            + stored0 ds ''accounts.investments'' + stored0 ds ''accounts.retirement'')
           - (stored0 ds ''debt.creditCard'' + stored0 ds ''debt.studentLoan''
              + stored0 ds ''debt.carLoan'' + stored0 ds ''debt.mortgage''))"

definition COMPUTABLE_FIELDS :: "(string \<times> (DataStore \<Rightarrow> jsval)) list" where
  "COMPUTABLE_FIELDS =
     [(''salary.change'', salary_change),
      (''salary.changePercent'', salary_changePercent),
      (''salary.trend'', salary_trend),
      (''expenses.total'', expenses_total),
      (''income.total'', income_total),
      (''accounts.netWorth'', accounts_netWorth)]"

definition ds_get :: "DataStore \<Rightarrow> string \<Rightarrow> jsval" where
  "ds_get ds key =
     (case map_of COMPUTABLE_FIELDS key of Some f \<Rightarrow> f ds | None \<Rightarrow> getStored ds key)"

definition getNumber :: "DataStore \<Rightarrow> string \<Rightarrow> rat option" where
  "getNumber ds key = numOf (ds_get ds key)"

definition ds_has :: "DataStore \<Rightarrow> string \<Rightarrow> bool" where
  "ds_has ds key = (map_of (d_data ds) key \<noteq> None \<or> map_of COMPUTABLE_FIELDS key \<noteq> None)"

definition isUserProvided :: "DataStore \<Rightarrow> string \<Rightarrow> bool" where
  "isUserProvided ds key = (key \<in> userProvidedKeys ds)"

definition ds_exists :: "DataStore \<Rightarrow> string \<Rightarrow> bool" where
  "ds_exists ds key = (ds_has ds key \<and> ds_get ds key \<noteq> JNull)"

definition hasSalaryData :: "DataStore \<Rightarrow> bool" where
  "hasSalaryData ds =
     (getNumber ds ''salary.lastMonth'' \<noteq> None \<and> getNumber ds ''salary.currentMonth'' \<noteq> None)"

definition ds_set :: "DataStore \<Rightarrow> int \<Rightarrow> string \<Rightarrow> jsval \<Rightarrow> DataStore" where
  "ds_set ds now key v =
     ds\<lparr>d_data := AList.update key \<lparr>d_value = v, d_source = User, d_timestamp = now\<rparr> (d_data ds),
        userProvidedKeys := insert key (userProvidedKeys ds)\<rparr>"

definition setMany :: "DataStore \<Rightarrow> int \<Rightarrow> (string \<times> jsval) list \<Rightarrow> DataStore" where
  "setMany ds now entries = fold (\<lambda>(key, v) d. ds_set d now key v) entries ds"

definition ds_delete :: "DataStore \<Rightarrow> string \<Rightarrow> DataStore" where
  "ds_delete ds key =
     ds\<lparr>d_data := AList.delete key (d_data ds), userProvidedKeys := userProvidedKeys ds - {key}\<rparr>"

definition resetToMock :: "(string \<times> jsval) list \<Rightarrow> DataStore \<Rightarrow> string \<Rightarrow> int \<Rightarrow> bool \<times> DataStore"
where
  "resetToMock M ds key now =
     (case map_of M key of
        Some v \<Rightarrow>
          if key \<notin> set USER_REQUIRED_FIELDS
          then (True, ds\<lparr>d_data := AList.update key
                               \<lparr>d_value = v, d_source = Mock, d_timestamp = now\<rparr> (d_data ds),
                           userProvidedKeys := userProvidedKeys ds - {key}\<rparr>)
          else (False, ds)
      | None \<Rightarrow> (False, ds))"

definition ds_clear :: "(string \<times> jsval) list \<Rightarrow> DataStore \<Rightarrow> int \<Rightarrow> DataStore" where
  "ds_clear M ds now = initializeMockData M (ds\<lparr>d_data := [], userProvidedKeys := {}\<rparr>) now"

definition ds_import :: "DataStore \<Rightarrow> (string \<times> DataEntry) list \<Rightarrow> DataStore" where
  "ds_import ds entries =
     fold (\<lambda>(key, e) d.
             d\<lparr>d_data := AList.update key e (d_data d),
               userProvidedKeys := (if d_source e = User then insert key (userProvidedKeys d)
                                    else userProvidedKeys d)\<rparr>)
          entries ds"

text \<open>\<open>getSourceSummary\<close>: the numbers of mock and user entries and of computable fields.\<close>

definition getSourceSummary :: "DataStore \<Rightarrow> nat \<times> nat \<times> nat" where
  "getSourceSummary ds =
     (length (filter (\<lambda>(k, e). d_source e = Mock) (d_data ds)),
      length (filter (\<lambda>(k, e). d_source e = User) (d_data ds)),
      length COMPUTABLE_FIELDS)"

text \<open>
  The stores that the operations of the class build from a new one. \<open>import\<close> copies the
  given entries as they are; the rule for it asks that entries for never-mocked keys are
  user-sourced.
\<close>

inductive reachable :: "(string \<times> jsval) list \<Rightarrow> DataStore \<Rightarrow> bool" for M where
  r_new: "reachable M (new_DataStore M now)"
| r_set: "reachable M ds \<Longrightarrow> reachable M (ds_set ds now key v)"
| r_setMany: "reachable M ds \<Longrightarrow> reachable M (setMany ds now entries)"
| r_delete: "reachable M ds \<Longrightarrow> reachable M (ds_delete ds key)"
| r_reset: "reachable M ds \<Longrightarrow> reachable M (snd (resetToMock M ds key now))"
| r_clear: "reachable M ds \<Longrightarrow> reachable M (ds_clear M ds now)"
| r_import: "reachable M ds \<Longrightarrow>
     list_all (\<lambda>(key, e). key \<in> set USER_REQUIRED_FIELDS \<longrightarrow> d_source e = User) entries \<Longrightarrow>
     reachable M (ds_import ds entries)"

text \<open>A never-mocked key holds no entry, or a user-sourced one.\<close>

definition user_only :: "DataStore \<Rightarrow> string \<Rightarrow> bool" where
  "user_only ds key = (case map_of (d_data ds) key of None \<Rightarrow> True | Some e \<Rightarrow> d_source e = User)"

section \<open>Predictive actions (\<open>src/lib/predictive-actions.ts\<close>)\<close>

record PredictiveAction =
  label :: string
  p_input :: string
  confidence :: rat
  reason :: "string option"

text \<open>The components of a context are objects of the tree, whatever properties they have.\<close>

record PredictionContext =
  currentComponents :: "StoredComponent list"
  lastAction :: string
  pc_hasSalaryData :: bool
  pc_hasExpenseData :: bool
  pc_hasChartData :: bool

text \<open>
  A rule returns a list of suggestions or \<open>null\<close>. Only \<open>expensesRule\<close> can throw (it reads
  \<open>c.props.cards\<close> and calls \<open>toLowerCase\<close> on a card title of unknown type), so every rule
  returns a sum.
\<close>

type_synonym PredictionRule = "PredictionContext \<Rightarrow> error + PredictiveAction list option"

definition salaryComparisonRule :: PredictionRule where
  "salaryComparisonRule context =
     (let hasSalaryCards = list_ex (\<lambda>c. s_id c = Some ''salary-comparison-cards'')
                             (currentComponents context);
          hasChart = list_ex (\<lambda>c. s_id c = Some ''salary-comparison-chart'') (currentComponents context)
      in if hasSalaryCards \<and> hasChart
         then Inr (Some
           [\<lparr>label = ''Export Report'', p_input = ''Export my salary comparison as PDF'',
             confidence = 7 / 10, reason = Some ''User just viewed salary data, may want to save it''\<rparr>,
            \<lparr>label = ''View Expenses'', p_input = ''Show me my expense breakdown'',
             confidence = 6 / 10, reason = Some ''Natural progression from income to expenses''\<rparr>])
         else Inr None)"

definition emptyStateRule :: PredictionRule where
  "emptyStateRule context =
     (if list_ex (\<lambda>c. s_id c = Some ''empty-state'') (currentComponents context)
      then Inr (Some
        [\<lparr>label = ''Compare Salary'', p_input = ''Show me salary comparison'',
          confidence = 8 / 10, reason = Some ''Most common starting point''\<rparr>])
      else Inr None)"

definition afterFormRule :: PredictionRule where
  "afterFormRule context =
     (let justRemovedForm = includes_str (lastAction context) ''salary-data-form'';
          justAddedCards = includes_str (lastAction context) ''salary-comparison-cards''
      in if justRemovedForm \<and> justAddedCards
         then Inr (Some
           [\<lparr>label = ''View Details'', p_input = ''Show more details about my finances'',
             confidence = 6 / 10,
             reason = Some ''User just entered data, may want deeper analysis''\<rparr>])
         else Inr None)"

text \<open>\<open>xs.some(f)\<close> where \<open>f\<close> may throw: stops at the first true result or the first error.\<close>

fun some_err :: "('a \<Rightarrow> error + bool) \<Rightarrow> 'a list \<Rightarrow> error + bool" where
  "some_err f [] = Inr False"
| "some_err f (x # xs) =
     (case f x of Inl e \<Rightarrow> Inl e | Inr True \<Rightarrow> Inr True | Inr False \<Rightarrow> some_err f xs)"

text \<open>
  \<open>card?.title?.toLowerCase().includes("expense")\<close>: a null card or title gives
  \<open>undefined\<close> (falsy); a property read on a primitive gives \<open>undefined\<close>; a title that is
  neither a string nor null has no \<open>toLowerCase\<close> and the call throws.
\<close>

definition card_is_expense :: "jsval \<Rightarrow> error + bool" where
  "card_is_expense crd =
     (case crd of
        JObj flds \<Rightarrow>
          (case map_of flds ''title'' of
             None \<Rightarrow> Inr False
           | Some JNull \<Rightarrow> Inr False
           | Some (JStr t) \<Rightarrow> Inr (includes_str (toLowerCase t) ''expense'')
           | Some _ \<Rightarrow> Inl (TypeError ''card?.title?.toLowerCase is not a function''))
      | _ \<Rightarrow> Inr False)"

text \<open>
  \<open>cards?.some?.(...)\<close> for \<open>cards = c.props.cards\<close>: the read throws on an object without
  props; an array is searched; a missing or null \<open>cards\<close>, and a value without a \<open>some\<close>
  property, give \<open>undefined\<close>; an object whose \<open>some\<close> is not null is called and, not being
  an array method, is taken to throw.
\<close>

definition cards_are_expense :: "StoredComponent \<Rightarrow> error + bool" where
  "cards_are_expense c =
     (case s_props c of
        None \<Rightarrow> Inl (TypeError ''c.props is undefined'')
      | Some props \<Rightarrow>
          (case props ''cards'' of
             Some (JArr cards) \<Rightarrow> some_err card_is_expense cards
           | Some (JObj flds) \<Rightarrow>
               (case map_of flds ''some'' of
                  None \<Rightarrow> Inr False
                | Some JNull \<Rightarrow> Inr False
                | Some _ \<Rightarrow> Inl (TypeError ''cards?.some is not a function''))
           | _ \<Rightarrow> Inr False))"

definition expensesRule :: PredictionRule where
  "expensesRule context =
     (case some_err cards_are_expense (currentComponents context) of
        Inl e \<Rightarrow> Inl e
      | Inr isExpenseContext \<Rightarrow>
          if isExpenseContext
          then Inr (Some
            [\<lparr>label = ''View Income'', p_input = ''Show me my income breakdown'',
              confidence = 7 / 10, reason = Some ''Natural flow from expenses to income''\<rparr>,
             \<lparr>label = ''Calculate Savings Rate'', p_input = ''What is my savings rate?'',
              confidence = 6 / 10,
              reason = Some ''Common financial metric after viewing expenses''\<rparr>])
          else Inr None)"

definition chartRule :: PredictionRule where
  "chartRule context =
     (let hasChart = list_ex (\<lambda>c. s_type c = Some ''ChartView'') (currentComponents context)
      in if hasChart \<and> length (currentComponents context) = 1
         then Inr (Some
           [\<lparr>label = ''Add Summary Cards'', p_input = ''Show me summary metrics'',
             confidence = 6 / 10,
             reason = Some ''Charts are often better with summary numbers''\<rparr>])
         else Inr None)"

definition PREDICTION_RULES :: "PredictionRule list" where
  "PREDICTION_RULES = [emptyStateRule, salaryComparisonRule, afterFormRule, expensesRule, chartRule]"

definition MIN_CONFIDENCE :: rat where
  "MIN_CONFIDENCE = 5 / 10"

definition MAX_SUGGESTIONS :: nat where
  "MAX_SUGGESTIONS = 3"

text \<open>
  The loop that runs the rules in order and pushes what each returns onto the end of
  \<open>allSuggestions\<close>, here the accumulator \<open>acc\<close>.
\<close>

fun run_rules ::
  "PredictionRule list \<Rightarrow> PredictionContext \<Rightarrow> PredictiveAction list \<Rightarrow> error + PredictiveAction list"
where
  "run_rules [] context acc = Inr acc"
| "run_rules (rule # rules) context acc =
     (case rule context of
        Inl e \<Rightarrow> Inl e
      | Inr None \<Rightarrow> run_rules rules context acc
      | Inr (Some suggestions) \<Rightarrow> run_rules rules context (acc @ suggestions))"

text \<open>
  \<open>.filter(...).sort((a, b) => b.confidence - a.confidence).slice(0, MAX_SUGGESTIONS)\<close>;
  \<open>Array.prototype.sort\<close> is stable, as is \<open>sort_key\<close>.
\<close>

definition rank :: "PredictiveAction list \<Rightarrow> PredictiveAction list" where
  "rank allSuggestions =
     take MAX_SUGGESTIONS
       (sort_key (\<lambda>s. - confidence s)
          (filter (\<lambda>s. confidence s \<ge> MIN_CONFIDENCE) allSuggestions))"

definition getPredictiveActions :: "PredictionContext \<Rightarrow> error + PredictiveAction list" where
  "getPredictiveActions context =
     (case run_rules PREDICTION_RULES context [] of
        Inl e \<Rightarrow> Inl e
      | Inr allSuggestions \<Rightarrow> Inr (rank allSuggestions))"

text \<open>
  \<open>buildPredictionContext\<close>: \<open>c.id.includes(...)\<close> throws on an object without an id; the
  three searches run in the order of the object literal.
\<close>

definition id_includes :: "string \<Rightarrow> StoredComponent \<Rightarrow> error + bool" where
  "id_includes p c =
     (case s_id c of
        None \<Rightarrow> Inl (TypeError ''c.id is undefined'')
      | Some i \<Rightarrow> Inr (includes_str i p))"

definition buildPredictionContext :: "StoredComponent list \<Rightarrow> string \<Rightarrow> error + PredictionContext" where
  "buildPredictionContext components lastActionNotes =
     (case some_err (id_includes ''salary'') components of
        Inl e \<Rightarrow> Inl e
      | Inr hasSalary \<Rightarrow>
          (case some_err (id_includes ''expense'') components of
             Inl e \<Rightarrow> Inl e
           | Inr hasExpense \<Rightarrow>
               Inr \<lparr>currentComponents = components, lastAction = lastActionNotes,
                    pc_hasSalaryData = hasSalary, pc_hasExpenseData = hasExpense,
                    pc_hasChartData = list_ex (\<lambda>c. s_type c = Some ''ChartView'') components\<rparr>))"

definition shouldShowPredictions :: "PredictiveAction list \<Rightarrow> bool" where
  "shouldShowPredictions predictions =
     (length predictions > 0 \<and> list_ex (\<lambda>p. confidence p \<ge> 6 / 10) predictions)"

section \<open>Number and string conversions of the JavaScript runtime\<close>

text \<open>
  \<open>numberToString\<close> is \<open>String(n)\<close> on a number. It is exact on integers below \<open>10^21\<close>;
  on other values JavaScript prints the shortest digits that identify the double, for
  which the first 17 digits of the exact expansion stand here. \<open>toFixed1\<close> is
  \<open>n.toFixed(1)\<close> on the exact value. \<open>Number_of_string\<close> is \<open>Number(s)\<close> on plain decimal
  text (\<open>None\<close> is NaN); exponents, hexadecimal text and \<open>Infinity\<close> are not modelled.
\<close>

fun frac_digits :: "nat \<Rightarrow> nat \<Rightarrow> nat \<Rightarrow> string" where
  "frac_digits 0 n d = []"
| "frac_digits (Suc k) n d =
     (if n = 0 then [] else digit_char ((n * 10) div d) # frac_digits k ((n * 10) mod d) d)"

definition numberToString :: "rat \<Rightarrow> string" where
  "numberToString r =
     (case quotient_of r of
        (n, d) \<Rightarrow>
          (if r < 0 then ''-'' else [])
          @ decimal_of_nat (nat \<bar>n\<bar> div nat d)
          @ (if nat \<bar>n\<bar> mod nat d = 0 then []
             else ''.'' @ frac_digits 17 (nat \<bar>n\<bar> mod nat d) (nat d)))"

definition toFixed1 :: "rat \<Rightarrow> string" where
  "toFixed1 r =
     (let n = nat \<lfloor>\<bar>r\<bar> * 10 + 1 / 2\<rfloor>
      in (if r < 0 then ''-'' else []) @ decimal_of_nat (n div 10) @ ''.'' @ [digit_char n])"

definition isDigit :: "char \<Rightarrow> bool" where
  "isDigit c = (c \<in> set ''0123456789'')"

definition digits_value :: "string \<Rightarrow> nat" where
  "digits_value ds = foldl (\<lambda>a c. a * 10 + length (takeWhile (\<lambda>d. d \<noteq> c) ''0123456789'')) 0 ds"

definition unsigned_of_string :: "string \<Rightarrow> rat option" where
  "unsigned_of_string body =
     (let ip = takeWhile isDigit body; rest = drop (length ip) body in
      case rest of
        [] \<Rightarrow> if ip \<noteq> [] then Some (of_nat (digits_value ip)) else None
      | c # fp \<Rightarrow>
          if c = CHR ''.'' \<and> list_all isDigit fp \<and> (ip \<noteq> [] \<or> fp \<noteq> [])
          then Some (of_nat (digits_value ip) + of_nat (digits_value fp) / 10 ^ length fp)
          else None)"

definition Number_of_string :: "string \<Rightarrow> rat option" where
  "Number_of_string s =
     (case trim s of
        [] \<Rightarrow> Some 0
      | c # body \<Rightarrow>
          if c = CHR ''-'' then map_option uminus (unsigned_of_string body)
          else if c = CHR ''+'' then unsigned_of_string body
          else unsigned_of_string (c # body))"

fun join :: "string \<Rightarrow> string list \<Rightarrow> string" where
  "join sep [] = []"
| "join sep [x] = x"
| "join sep (x # y # ys) = x @ sep @ join sep (y # ys)"

text \<open>
  \<open>String(v)\<close>, as a template literal applies it. The text of a function is its source,
  which the model does not have; a fixed text stands for it.
\<close>

fun js_String :: "jsval \<Rightarrow> string" where
  "js_String JNull = ''null''"
| "js_String (JBool b) = (if b then ''true'' else ''false'')"
| "js_String (JNum r) = numberToString r"
| "js_String (JStr s) = s"
| "js_String (JArr xs) = join '','' (map (\<lambda>x. if x = JNull then [] else js_String x) xs)"
| "js_String (JObj flds) = ''[object Object]''"
| "js_String (JFun f) = ''function''"

section \<open>Data store helpers (\<open>src/unnamed/part_003\<close>, module level)\<close>

definition processFormData :: "DataStore \<Rightarrow> int \<Rightarrow> (string \<times> jsval) list \<Rightarrow> DataStore" where
  "processFormData ds now formData =
     fold (\<lambda>(key, v) d.
             ds_set d now key
               (case v of
                  JStr str \<Rightarrow> (case Number_of_string str of Some k \<Rightarrow> JNum k | None \<Rightarrow> v)
                | _ \<Rightarrow> v))
          formData ds"

text \<open>
  \<open>mapping[fieldName] || fieldName\<close> on a plain object: a field named like a member of
  \<open>Object.prototype\<close> finds that member, which the only caller then uses as a property
  key, that is, as text.
\<close>

definition mapFormFieldToDataKey :: "string \<Rightarrow> string" where
  "mapFormFieldToDataKey fieldName =
     (case map_of
        [(''lastMonthSalary'', ''salary.lastMonth''),
         (''currentMonthSalary'', ''salary.currentMonth''),
         (''previousMonthSalary'', ''salary.previousMonth''),
         (''baseSalary'', ''income.baseSalary''),
         (''monthlyRent'', ''expenses.rent''),
         (''monthlyUtilities'', ''expenses.utilities''),
         (''monthlyGroceries'', ''expenses.groceries''),
         (''checkingAccount'', ''accounts.checking''),
         (''savingsAccount'', ''accounts.savings''),
         (''totalExpenses'', ''expenses.total''),
         (''category'', ''expenses.category'')] fieldName of
        Some key \<Rightarrow> key
      | None \<Rightarrow> if inherited fieldName then inherited_text fieldName else fieldName)"

record SalaryComparison =
  sc_lastMonth :: "rat option"
  sc_currentMonth :: "rat option"
  sc_change :: "rat option"
  sc_changePercent :: "rat option"
  sc_trend :: jsval
  sc_hasData :: bool

definition getSalaryComparisonData :: "DataStore \<Rightarrow> SalaryComparison" where
  "getSalaryComparisonData ds =
     \<lparr>sc_lastMonth = getNumber ds ''salary.lastMonth'',
      sc_currentMonth = getNumber ds ''salary.currentMonth'',
      sc_change = getNumber ds ''salary.change'',
      sc_changePercent = getNumber ds ''salary.changePercent'',
      sc_trend = (case ds_get ds ''salary.trend'' of JNull \<Rightarrow> JStr ''neutral'' | t \<Rightarrow> t),
      sc_hasData = (getNumber ds ''salary.lastMonth'' \<noteq> None
                    \<and> getNumber ds ''salary.currentMonth'' \<noteq> None)\<rparr>"

definition getSalaryCardsData :: "DataStore \<Rightarrow> jsval list" where
  "getSalaryCardsData ds =
     (let dat = getSalaryComparisonData ds in
      if \<not> sc_hasData dat then []
      else
        (let lst = orZero (sc_lastMonth dat);
             current = orZero (sc_currentMonth dat);
             change = orZero (sc_change dat);
             percent = (case sc_changePercent dat of Some pc \<Rightarrow> toFixed1 pc | None \<Rightarrow> ''0'')
         in [JObj [(''title'', JStr ''Last Month''), (''value'', JNum lst), (''trend'', JStr ''neutral'')],
             JObj [(''title'', JStr ''Current Month''), (''value'', JNum current),
                   (''trend'', JStr ''neutral'')],
             JObj [(''title'', JStr ''Difference''),
                   (''value'', JStr (if change \<ge> 0 then ''+$'' @ numberToString change
                                     else ''-$'' @ numberToString \<bar>change\<bar>)),
                   (''trend'', sc_trend dat)],
             JObj [(''title'', JStr ''Change %''), (''value'', JStr (percent @ ''%'')),
                   (''trend'', sc_trend dat)]]))"

definition needsSalaryData :: "DataStore \<Rightarrow> bool" where
  "needsSalaryData ds = (\<not> hasSalaryData ds)"

section \<open>UI orchestrator (\<open>src/unnamed/part_006\<close>)\<close>

text \<open>
  The \<open>debug\<close> part of a response and of an action is text for a debug panel that no
  operation reads back; it is left out. \<open>buildContext\<close> only reads, and its result is
  ignored by \<open>simulateAIResponse\<close>; it is left out as well.
\<close>

record OrchestratorResponse =
  o_render :: "UIComponent list"
  o_remove :: "string list"
  o_update :: "(string \<times> (string \<rightharpoonup> jsval)) list"
  o_notes :: string

record OrchestratorAction =
  a_render :: "UIComponent list"
  a_remove :: "string list"
  a_update :: "(string \<times> (string \<rightharpoonup> jsval)) list"

text \<open>A registered handler is an opaque function, named by a number.\<close>

record HandlerRegistry =
  onFormSubmit :: "nat option"
  onModalConfirm :: "nat option"
  onModalCancel :: "nat option"
  onEmptyStateAction :: "nat option"
  onPredictAction :: "nat option"
  onDismissPredictions :: "nat option"
  onToast :: "nat option"

definition no_handlers :: HandlerRegistry where
  "no_handlers =
     \<lparr>onFormSubmit = None, onModalConfirm = None, onModalCancel = None, onEmptyStateAction = None,
      onPredictAction = None, onDismissPredictions = None, onToast = None\<rparr>"

text \<open>
  The module state: the singletons \<open>uiEngine\<close>, \<open>intentMemory\<close> and \<open>dataStore\<close>, the
  variable \<open>handlerRegistry\<close> and the constant table \<open>MOCK_DATA\<close>.
\<close>

record System =
  ui :: UIStateEngine
  memory :: "OrchestratorResponse IntentMemoryEngine"
  store :: DataStore
  handlerRegistry :: HandlerRegistry
  mock_data :: "(string \<times> jsval) list"

definition initial_System :: "string \<Rightarrow> string \<Rightarrow> int \<Rightarrow> System" where
  "initial_System cm lm now =
     \<lparr>ui = new_UIStateEngine, memory = new_IntentMemoryEngine None None,
      store = new_DataStore (MOCK_DATA cm lm) now, handlerRegistry = no_handlers,
      mock_data = MOCK_DATA cm lm\<rparr>"

definition registerHandlers :: "System \<Rightarrow> (HandlerRegistry \<Rightarrow> HandlerRegistry) \<Rightarrow> System" where
  "registerHandlers sys merge = sys\<lparr>handlerRegistry := merge (handlerRegistry sys)\<rparr>"

text \<open>
  The table \<open>componentMap\<close> of \<open>resolveReferences\<close> is a plain object keyed by component
  type. \<open>type_key\<close> is the property key that a type gives (\<open>undefined\<close> becomes the text
  \<open>undefined\<close>). \<open>table_get\<close> is the read \<open>componentMap[key]\<close>: without an own property of
  that name it finds the member inherited from \<open>Object.prototype\<close>, if the key names one.
  Such a member is carried as the text it becomes when it is used as a property key,
  which is the only use that \<open>resolveReferences\<close> makes of a resolved id.
\<close>

definition type_key :: "StoredComponent \<Rightarrow> string" where
  "type_key c = (case s_type c of None \<Rightarrow> ''undefined'' | Some t \<Rightarrow> t)"

definition id_text :: "StoredComponent \<Rightarrow> string" where
  "id_text c = (case s_id c of None \<Rightarrow> ''undefined'' | Some i \<Rightarrow> i)"

definition table_get :: "(string \<rightharpoonup> string) \<Rightarrow> string \<Rightarrow> string option" where
  "table_get table k =
     (case table k of
        Some v \<Rightarrow> Some v
      | None \<Rightarrow> if inherited k then Some (inherited_text k) else None)"

definition componentMap_of :: "(string \<times> StoredComponent) list \<Rightarrow> (string \<rightharpoonup> string)" where
  "componentMap_of own =
     fold (\<lambda>(i, cm) acc. if \<not> truthy_str (table_get acc (type_key cm)) then acc(type_key cm \<mapsto> i)
                          else acc)
          own Map.empty"

text \<open>
  \<open>resolveReferences(userInput)\<close>: the first resolved id is looked up in the copy of the
  tree; what the lookup finds is truthy unless it is \<open>undefined\<close>, and a function of
  \<open>Object.prototype\<close> has neither \<open>type\<close> nor \<open>id\<close>.
\<close>

definition resolveReferences :: "System \<Rightarrow> string \<Rightarrow> string" where
  "resolveReferences sys userInput =
     (let state = getState (ui sys) in
      case resolveReferencesInText (memory sys) userInput (table_get (componentMap_of (t_own state))) of
        [] \<Rightarrow> userInput
      | r # _ \<Rightarrow>
          (case lookup state r of
             Stored referencedComp \<Rightarrow>
               userInput @ '' [referencing: '' @ type_key referencedComp @ '' id:''
                 @ id_text referencedComp @ '']''
           | Inherited \<Rightarrow> userInput @ '' [referencing: undefined id:undefined]''
           | Missing \<Rightarrow> userInput))"

definition attachHandlers :: "UIComponent \<Rightarrow> HandlerRegistry \<Rightarrow> UIComponent" where
  "attachHandlers cm handlers =
     (let p0 = c_props cm;
          p1 = (case onFormSubmit handlers of
                  Some f \<Rightarrow> if c_type cm = ''InputForm'' then p0(''onSubmit'' \<mapsto> JFun (Fn f)) else p0
                | None \<Rightarrow> p0);
          p2 = (if c_type cm = ''GuardrailModal''
                then (let q = (case onModalConfirm handlers of
                                 Some f \<Rightarrow> p1(''onConfirm'' \<mapsto> JFun (ConfirmClosure f (c_id cm)))
                               | None \<Rightarrow> p1)
                      in (case onModalCancel handlers of
                            Some f \<Rightarrow> q(''onCancel'' \<mapsto> JFun (CancelClosure f (c_id cm)))
                          | None \<Rightarrow> q))
                else p1);
          p3 = (case onEmptyStateAction handlers of
                  Some f \<Rightarrow> if c_type cm = ''EmptyState'' then p2(''onAction'' \<mapsto> JFun (Fn f)) else p2
                | None \<Rightarrow> p2);
          p4 = (if c_type cm = ''PredictiveActionBar''
                then (let q = (case onPredictAction handlers of
                                 Some f \<Rightarrow> p3(''onActionClick'' \<mapsto> JFun (Fn f))
                               | None \<Rightarrow> p3)
                      in (case onDismissPredictions handlers of
                            Some f \<Rightarrow> q(''onDismiss'' \<mapsto> JFun (Fn f))
                          | None \<Rightarrow> q))
                else p3);
          p5 = (case onToast handlers of
                  Some f \<Rightarrow> if c_type cm = ''ExportActions'' then p4(''onExport'' \<mapsto> JFun (ExportClosure f))
                            else p4
                | None \<Rightarrow> p4)
      in cm\<lparr>c_props := p5\<rparr>)"

text \<open>A descriptor literal of the source: always visible, with an explicit order.\<close>

definition descriptor :: "string \<Rightarrow> string \<Rightarrow> (string \<times> jsval) list \<Rightarrow> rat \<Rightarrow> UIComponent" where
  "descriptor i t ps k =
     \<lparr>c_id = i, c_type = t, c_props = map_of ps, c_visible = True, c_order = Some k\<rparr>"

definition rupee :: string where
  "rupee = [CHR 0xE2, CHR 0x82, CHR 0xB9]"

definition destructivePatterns :: "string list" where
  "destructivePatterns =
     [''delete all'', ''delete my data'', ''delete everything'', ''erase all'', ''erase everything'',
      ''erase my data'', ''remove all data'', ''remove my data'', ''remove everything'',
      ''destroy all'', ''destroy my data'', ''wipe all'', ''wipe everything'', ''wipe my data'',
      ''clear all data'', ''clear my data'', ''reset everything'', ''reset all data'',
      ''forget everything'', ''forget my data'']"

definition salary_comparison_render :: "DataStore \<Rightarrow> UIComponent list" where
  "salary_comparison_render ds =
     (let salaryData = getSalaryComparisonData ds; cardsData = getSalaryCardsData ds in
      [descriptor ''salary-comparison-cards'' ''SummaryCards'' [(''cards'', JArr cardsData)] 0,
       descriptor ''salary-comparison-chart'' ''ChartView''
         [(''title'', JStr ''Salary Comparison''),
          (''data'', JArr [JNum (orZero (sc_lastMonth salaryData)),
                          JNum (orZero (sc_currentMonth salaryData))]),
          (''labels'', JArr [JStr ''Last Month'', JStr ''Current Month'']),
          (''type'', JStr ''bar'')] 1])"

text \<open>The conditions of the branches of \<open>simulateAIResponse\<close>, on the lower-cased input.\<close>

definition is_salary_request :: "string \<Rightarrow> bool" where
  "is_salary_request lowerInput =
     (includes_str lowerInput ''salary''
      \<and> (includes_str lowerInput ''comparison'' \<or> includes_str lowerInput ''compare''
         \<or> (includes_str lowerInput ''last month'' \<and> includes_str lowerInput ''current month'')))"

text \<open>The form branch returns only when the salary data is there; otherwise control falls through.\<close>

definition is_form_completion :: "string \<Rightarrow> DataStore \<Rightarrow> bool" where
  "is_form_completion lowerInput ds =
     (includes_str lowerInput ''form submitted'' \<and> hasSalaryData ds)"

definition is_export_request :: "string \<Rightarrow> bool" where
  "is_export_request lowerInput =
     (includes_str lowerInput ''export''
      \<and> (includes_str lowerInput ''report'' \<or> includes_str lowerInput ''pdf''
         \<or> includes_str lowerInput ''salary''))"

definition is_expense_request :: "string \<Rightarrow> bool" where
  "is_expense_request lowerInput =
     (includes_str lowerInput ''expense'' \<or> includes_str lowerInput ''expenses'')"

definition is_clear_request :: "string \<Rightarrow> bool" where
  "is_clear_request lowerInput =
     (includes_str lowerInput ''clear'' \<or> includes_str lowerInput ''reset''
      \<or> includes_str lowerInput ''remove all'')"

definition isDestructiveRequest :: "string \<Rightarrow> bool" where
  "isDestructiveRequest lowerInput = list_ex (\<lambda>pattern. includes_str lowerInput pattern) destructivePatterns"

definition is_confirm_request :: "string \<Rightarrow> bool" where
  "is_confirm_request lowerInput =
     (includes_str lowerInput ''confirmed'' \<or> includes_str lowerInput ''confirm clear'')"

text \<open>
  \<open>simulateAIResponse(userInput, context)\<close>; it reads the data store and, in the confirm
  branch, the keys of the tree.
\<close>

definition simulateAIResponse :: "System \<Rightarrow> string \<Rightarrow> OrchestratorResponse" where
  "simulateAIResponse sys userInput =
     (let lowerInput = toLowerCase userInput; ds = store sys in
      if is_salary_request lowerInput then
        (if needsSalaryData ds then
           \<lparr>o_render =
              [descriptor ''salary-data-form'' ''InputForm''
                 [(''fields'', JArr
                     [JObj [(''name'', JStr ''lastMonthSalary''), (''label'', JStr ''Last Month Salary''),
                            (''type'', JStr ''number''),
                            (''placeholder'', JStr ''Enter your last month salary''),
                            (''required'', JBool (\<not> ds_exists ds ''salary.lastMonth''))],
                      JObj [(''name'', JStr ''currentMonthSalary''),
                            (''label'', JStr ''Current Month Salary''), (''type'', JStr ''number''),
                            (''placeholder'', JStr ''Enter your current month salary''),
                            (''required'', JBool (\<not> ds_exists ds ''salary.currentMonth''))]]),
                  (''submitLabel'', JStr ''Compare Salary'')] 0],
            o_remove = [], o_update = [],
            o_notes = ''Collecting missing salary data for comparison''\<rparr>
         else
           \<lparr>o_render = salary_comparison_render ds,
            o_remove = [''empty-state'', ''salary-data-form''], o_update = [],
            o_notes = ''Displayed salary comparison with available data''\<rparr>)
      else if is_form_completion lowerInput ds then
        \<lparr>o_render = salary_comparison_render ds,
         o_remove = [''salary-data-form''], o_update = [],
         o_notes = ''Processed salary data and displayed comparison''\<rparr>
      else if is_export_request lowerInput then
        \<lparr>o_render =
           [descriptor ''export-success'' ''InsightSummary''
              [(''insights'', JArr
                  [JObj [(''title'', JStr ''Report Ready''),
                         (''description'',
                          JStr ''Salary comparison report has been prepared for export.''),
                         (''type'', JStr ''success'')]])] 0,
            descriptor ''export-actions'' ''ExportActions''
              [(''formats'', JArr [JObj [(''id'', JStr ''pdf''), (''label'', JStr ''PDF'')],
                                  JObj [(''id'', JStr ''csv''), (''label'', JStr ''CSV'')]])] 1],
         o_remove = [], o_update = [],
         o_notes = ''Export options displayed for salary comparison''\<rparr>
      else if is_expense_request lowerInput then
        (if \<not> ds_exists ds ''expenses.total'' then
           \<lparr>o_render =
              [descriptor ''expense-data-form'' ''InputForm''
                 [(''title'', JStr ''Expense Information''),
                  (''description'', JStr ''Enter your expense details to see a breakdown''),
                  (''fields'', JArr
                     [JObj [(''name'', JStr ''totalExpenses''),
                            (''label'', JStr ''Total Monthly Expenses''), (''type'', JStr ''number''),
                            (''placeholder'', JStr ''e.g., 35000''), (''required'', JBool True)],
                      JObj [(''name'', JStr ''category''), (''label'', JStr ''Highest Category''),
                            (''type'', JStr ''text''),
                            (''placeholder'', JStr ''e.g., Rent, Food, Transport''),
                            (''required'', JBool True)]]),
                  (''submitLabel'', JStr ''Analyze Expenses'')] 0],
            o_remove = [], o_update = [],
            o_notes = ''Collecting expense data for breakdown''\<rparr>
         else
           (let totalExpenses = (case ds_get ds ''expenses.total'' of JNull \<Rightarrow> JNum 0 | t \<Rightarrow> t);
                category = (case ds_get ds ''expenses.category'' of JNull \<Rightarrow> JStr ''Other'' | t \<Rightarrow> t)
            in
            \<lparr>o_render =
               [descriptor ''expense-summary'' ''SummaryCards''
                  [(''cards'', JArr
                      [JObj [(''title'', JStr ''Total Expenses''),
                             (''value'', JStr (rupee @ js_String totalExpenses)),
                             (''trend'', JStr ''neutral'')],
                       JObj [(''title'', JStr ''Top Category''),
                             (''value'', JStr (js_String category)),
                             (''trend'', JStr ''neutral'')]])] 0,
                descriptor ''expense-breakdown'' ''InsightSummary''
                  [(''insights'', JArr
                      [JObj [(''title'', JStr ''Expense Breakdown''),
                             (''description'',
                              JStr (''Your highest spending category is '' @ js_String category
                                    @ '' at '' @ rupee @ js_String totalExpenses
                                    @ ''. Consider tracking individual categories for better insights.'')),
                             (''type'', JStr ''info'')]])] 1],
             o_remove = [''expense-data-form''], o_update = [],
             o_notes = ''Displayed expense breakdown''\<rparr>))
      else if is_clear_request lowerInput then
        \<lparr>o_render =
           [descriptor ''confirm-clear'' ''GuardrailModal''
              [(''title'', JStr ''Clear All Components''),
               (''message'',
                JStr ''This will remove all components from the screen. This action cannot be undone.''),
               (''confirmLabel'', JStr ''Clear All''), (''cancelLabel'', JStr ''Cancel'')] 0],
         o_remove = [], o_update = [],
         o_notes = ''Awaiting confirmation for destructive action''\<rparr>
      else if isDestructiveRequest lowerInput then
        (case getSourceSummary ds of
           (mockCount, userCount, computedCount) \<Rightarrow>
             \<lparr>o_render =
                [descriptor ''confirm-data-deletion'' ''GuardrailModal''
                   [(''title'', JStr ''Delete All Data?''),
                    (''message'',
                     JStr (''This action will permanently delete your data. ''
                           @ (if userCount > 0
                              then ''You have '' @ decimal_of_nat userCount
                                   @ '' user-provided data entries that will be lost. ''
                              else [])
                           @ (if mockCount > 0
                              then ''Mock data will remain available for new sessions. '' else [])
                           @ ''This action cannot be undone.'')),
                    (''confirmLabel'', JStr ''Delete Everything''),
                    (''cancelLabel'', JStr ''Keep My Data'')] 0],
              o_remove = [], o_update = [],
              o_notes = ''Awaiting confirmation for data deletion''\<rparr>)
      else if is_confirm_request lowerInput then
        \<lparr>o_render =
           [descriptor ''empty-state'' ''EmptyState''
              [(''title'', JStr ''Screen Cleared''),
               (''description'', JStr ''All components have been removed.''),
               (''actionLabel'', JStr ''Start Over'')] 0],
         o_remove = map fst (t_own (getState (ui sys))) @ [''confirm-clear''], o_update = [],
         o_notes = ''Cleared all components after confirmation''\<rparr>
      else
        \<lparr>o_render =
           [descriptor ''empty-state'' ''EmptyState''
              [(''title'', JStr ''What would you like to see?''),
               (''description'', JStr ''Try asking for a salary comparison, chart, or summary.''),
               (''actionLabel'', JStr ''Get Started'')] 0],
         o_remove = [], o_update = [],
         o_notes = ''Displayed empty state for new user''\<rparr>)"

definition predictive_bar :: "PredictiveAction list \<Rightarrow> UIComponent" where
  "predictive_bar predictions =
     descriptor ''predictive-actions'' ''PredictiveActionBar''
       [(''actions'', JArr (map (\<lambda>p. JObj [(''label'', JStr (label p)), (''input'', JStr (p_input p)),
                                             (''confidence'', JNum (confidence p))]) predictions))]
       999"

text \<open>
  \<open>executeOrchestratorActions(response)\<close>. Three statements can throw:
  \<open>buildPredictionContext\<close>, \<open>getPredictiveActions\<close> and \<open>indexComponents\<close>; what was
  dispatched and recorded before the throw stays. \<open>now\<close> is the clock, \<open>rnd\<close> the random
  suffix of the intent id.
\<close>

definition executeOrchestratorActions ::
  "System \<Rightarrow> int \<Rightarrow> string \<Rightarrow> OrchestratorResponse \<Rightarrow> (error + OrchestratorAction) \<times> System" where
  "executeOrchestratorActions sys now rnd response =
     (let rendered = map (\<lambda>cm. attachHandlers cm (handlerRegistry sys)) (o_render response);
          ui1 = dispatch_each (ui sys) (map Remove (o_remove response));
          ui2 = dispatch_each ui1 (map (\<lambda>(i, p). Update i p) (o_update response));
          ui3 = dispatch_each ui2 (map Render rendered);
          visibleComponents = filter is_visible (map snd (t_own (getState ui3)))
      in case buildPredictionContext visibleComponents (o_notes response) of
           Inl e \<Rightarrow> (Inl e, sys\<lparr>ui := ui3\<rparr>)
         | Inr predictionContext \<Rightarrow>
             (case getPredictiveActions predictionContext of
                Inl e \<Rightarrow> (Inl e, sys\<lparr>ui := ui3\<rparr>)
              | Inr predictions \<Rightarrow>
                  (let show_bar = shouldShowPredictions predictions;
                       rendered2 = (if show_bar then rendered @ [predictive_bar predictions]
                                    else rendered);
                       ui4 = (if show_bar then snd (dispatch ui3 (Render (predictive_bar predictions)))
                              else ui3);
                       affectedIds = o_remove response @ map fst (o_update response)
                                     @ map c_id rendered2;
                       mem1 = snd (recordIntent (memory sys) now rnd now
                                     (if o_notes response = [] then ''User request processed''
                                      else o_notes response)
                                     ''ui_orchestration'' affectedIds (Some response))
                   in case indexComponents mem1 now (map snd (t_own (getState ui4))) of
                        (Some e, mem2) \<Rightarrow> (Inl e, sys\<lparr>ui := ui4, memory := mem2\<rparr>)
                      | (None, mem2) \<Rightarrow>
                          (Inr \<lparr>a_render = rendered2, a_remove = o_remove response,
                                a_update = o_update response\<rparr>,
                           sys\<lparr>ui := ui4, memory := mem2\<rparr>))))"

definition error_action :: OrchestratorAction where
  "error_action =
     \<lparr>a_render =
        [descriptor ''error-state'' ''EmptyState''
           [(''title'', JStr ''Something went wrong''), (''description'', JStr ''Please try again.'')] 0],
      a_remove = [], a_update = []\<rparr>"

definition processUserInput :: "System \<Rightarrow> int \<Rightarrow> string \<Rightarrow> string \<Rightarrow> OrchestratorAction \<times> System" where
  "processUserInput sys now rnd userInput =
     (if userInput = [] \<or> length (trim userInput) = 0
      then (\<lparr>a_render = [], a_remove = [], a_update = []\<rparr>, sys)
      else
        (case executeOrchestratorActions sys now rnd
                (simulateAIResponse sys (resolveReferences sys userInput)) of
           (Inr act, sys') \<Rightarrow> (act, sys')
         | (Inl e, sys') \<Rightarrow> (error_action, sys')))"

definition handleFormSubmission ::
  "System \<Rightarrow> int \<Rightarrow> string \<Rightarrow> (string \<times> jsval) list \<Rightarrow> OrchestratorAction \<times> System" where
  "handleFormSubmission sys now rnd formData =
     (let mappedData = fold (\<lambda>(key, v) acc. AList.update (mapFormFieldToDataKey key) v acc) formData [];
          sys1 = sys\<lparr>store := processFormData (store sys) now mappedData\<rparr>;
          formContext = join '', '' (map (\<lambda>(k, v). k @ '': '' @ js_String v) mappedData)
      in processUserInput sys1 now rnd (''Form submitted with '' @ formContext))"

definition confirmDestructiveAction :: "System \<Rightarrow> int \<Rightarrow> string \<Rightarrow> OrchestratorAction \<times> System" where
  "confirmDestructiveAction sys now actionId =
     (let (sys1, removes, renders) =
            (if actionId = ''confirm-clear'' \<or> startsWith actionId ''confirm-'' then
               (sys, map fst (t_own (getState (ui sys))),
                [descriptor ''empty-state'' ''EmptyState''
                   [(''title'', JStr ''Screen Cleared''),
                    (''description'', JStr ''All components have been removed.''),
                    (''actionLabel'', JStr ''Start Over'')] 0])
             else if actionId = ''confirm-data-deletion'' then
               (sys\<lparr>store := ds_clear (mock_data sys) (store sys) now\<rparr>, map fst (t_own (getState (ui sys))),
                [descriptor ''empty-state'' ''EmptyState''
                   [(''title'', JStr ''All Data Deleted''),
                    (''description'',
                     JStr ''Your personal data has been removed. Mock data remains available for demonstration.''),
                    (''actionLabel'', JStr ''Start Over'')] 0])
             else (sys, [], []));
          rendered = map (\<lambda>cm. attachHandlers cm (handlerRegistry sys)) renders;
          ui1 = dispatch_each (ui sys) (map Remove removes);
          ui2 = dispatch_each ui1 (map Render rendered)
      in (\<lparr>a_render = rendered, a_remove = removes, a_update = []\<rparr>, sys1\<lparr>ui := ui2\<rparr>))"

definition cancelDestructiveAction :: "System \<Rightarrow> string \<Rightarrow> OrchestratorAction \<times> System" where
  "cancelDestructiveAction sys actionId =
     (\<lparr>a_render = [], a_remove = [actionId], a_update = []\<rparr>,
      sys\<lparr>ui := snd (dispatch (ui sys) (Remove actionId))\<rparr>)"

section \<open>Definitions used in the statements and proofs\<close>

text \<open>
  \<open>cards_ok c\<close>: the inner function of \<open>expensesRule\<close> does not throw on the object \<open>c\<close>
  (it has props, and its \<open>cards\<close>, when an array, holds cards whose titles are strings or
  absent). \<open>typed_entry\<close>: an own property of the tree holds a component with an id, a
  type, props and a visibility, under its own id; this is what the engine stores for
  every descriptor rendered under an id that names no member of \<open>Object.prototype\<close>.
  \<open>tree_ok\<close>: every own property of the tree is such an entry, and \<open>cards_ok\<close> holds for
  the visible ones, the only ones that the suggestion rules see.
\<close>

definition cards_ok :: "StoredComponent \<Rightarrow> bool" where
  "cards_ok c = (case cards_are_expense c of Inl e \<Rightarrow> False | Inr b \<Rightarrow> True)"

definition typed_entry :: "string \<times> StoredComponent \<Rightarrow> bool" where
  "typed_entry kc =
     (s_id (snd kc) = Some (fst kc) \<and> s_type (snd kc) \<noteq> None \<and> s_props (snd kc) \<noteq> None
      \<and> s_visible (snd kc) \<noteq> None)"

definition entry_ok :: "string \<times> StoredComponent \<Rightarrow> bool" where
  "entry_ok kc = (typed_entry kc \<and> (is_visible (snd kc) \<longrightarrow> cards_ok (snd kc)))"

definition tree_ok :: "System \<Rightarrow> bool" where
  "tree_ok sys = list_all entry_ok (t_own (e_state (ui sys)))"

text \<open>
  The own properties of the tree after the removals and the renders of a response, in a
  tree of typed components when no id names a member of \<open>Object.prototype\<close>.
\<close>

definition edited_tree :: "System \<Rightarrow> OrchestratorResponse \<Rightarrow> (string \<times> StoredComponent) list" where
  "edited_tree sys response =
     foldl (\<lambda>t c. AList.update (c_id c) (as_stored c) t)
       (foldl (\<lambda>t i. AList.delete i t) (t_own (e_state (ui sys))) (o_remove response))
       (map (\<lambda>cm. attachHandlers cm (handlerRegistry sys)) (o_render response))"

text \<open>The suggestions of a rule result: none for \<open>null\<close>.\<close>

definition emitted :: "PredictiveAction list option \<Rightarrow> PredictiveAction list" where
  "emitted r = (case r of None \<Rightarrow> [] | Some xs \<Rightarrow> xs)"

text \<open>The store after the salary form has been submitted with 5000 and 5500.\<close>

definition salary_store :: "DataStore \<Rightarrow> int \<Rightarrow> DataStore" where
  "salary_store ds now =
     ds_set (ds_set ds now ''salary.lastMonth'' (JNum 5000)) now ''salary.currentMonth'' (JNum 5500)"

text \<open>The text that \<open>handleFormSubmission\<close> builds from that form, and what the policy renders for it.\<close>

definition form_text :: string where
  "form_text = ''Form submitted with salary.lastMonth: 5000, salary.currentMonth: 5500''"

definition cards0 :: UIComponent where
  "cards0 = descriptor ''salary-comparison-cards'' ''SummaryCards''
     [(''cards'', JArr
        [JObj [(''title'', JStr ''Last Month''), (''value'', JNum 5000), (''trend'', JStr ''neutral'')],
         JObj [(''title'', JStr ''Current Month''), (''value'', JNum 5500), (''trend'', JStr ''neutral'')],
         JObj [(''title'', JStr ''Difference''), (''value'', JStr ''+$500''), (''trend'', JStr ''up'')],
         JObj [(''title'', JStr ''Change %''), (''value'', JStr ''10.0%''), (''trend'', JStr ''up'')]])] 0"

definition chart0 :: UIComponent where
  "chart0 = descriptor ''salary-comparison-chart'' ''ChartView''
     [(''title'', JStr ''Salary Comparison''), (''data'', JArr [JNum 5000, JNum 5500]),
      (''labels'', JArr [JStr ''Last Month'', JStr ''Current Month'']), (''type'', JStr ''bar'')] 1"

definition salary_suggestions :: "PredictiveAction list" where
  "salary_suggestions =
     [\<lparr>label = ''Export Report'', p_input = ''Export my salary comparison as PDF'',
       confidence = 7 / 10, reason = Some ''User just viewed salary data, may want to save it''\<rparr>,
      \<lparr>label = ''View Expenses'', p_input = ''Show me my expense breakdown'',
       confidence = 6 / 10, reason = Some ''Natural progression from income to expenses''\<rparr>]"

definition expense_suggestions :: "PredictiveAction list" where
  "expense_suggestions =
     [\<lparr>label = ''View Income'', p_input = ''Show me my income breakdown'',
       confidence = 7 / 10, reason = Some ''Natural flow from expenses to income''\<rparr>,
      \<lparr>label = ''Calculate Savings Rate'', p_input = ''What is my savings rate?'',
       confidence = 6 / 10, reason = Some ''Common financial metric after viewing expenses''\<rparr>]"

text \<open>
  A context in which two rules fire: the comparison cards and chart are shown, and one
  card is an expense card.
\<close>

definition demo_context :: PredictionContext where
  "demo_context =
     \<lparr>currentComponents =
        [\<lparr>s_id = Some ''salary-comparison-cards'', s_type = Some ''SummaryCards'',
          s_props = Some [''cards'' \<mapsto> JArr [JObj [(''title'', JStr ''Total Expenses'')]]],
          s_visible = Some True, s_order = Some 0\<rparr>,
         \<lparr>s_id = Some ''salary-comparison-chart'', s_type = Some ''ChartView'',
          s_props = Some Map.empty, s_visible = Some True, s_order = Some 1\<rparr>],
      lastAction = '''', pc_hasSalaryData = True, pc_hasExpenseData = False,
      pc_hasChartData = True\<rparr>"


section \<open>Theorems: UI state engine\<close>




lemma lookup_assign: "lookup (assign st i c) i = Stored c"
  by (simp add: lookup_def assign_def update_conv')

lemma reduce_Render_lookup:
  "\<exists>c'. lookup (r_state (fst (reduce n st (Render d)))) (c_id d) = Stored c'
        \<and> s_props c' = Some (c_props d)"
  by (simp add: lookup_assign empty_result_def as_stored_def split: property.splits option.splits)

lemma dispatch_Render_lookup:
  "\<exists>c'. lookup (e_state (snd (dispatch e (Render d)))) (c_id d) = Stored c'
        \<and> s_props c' = Some (c_props d)"
  using reduce_Render_lookup [of "nextOrder e" "e_state e" d]
  by (auto simp add: dispatch_def split: prod.splits)

lemma map_add_self: "m ++ m = m"
  by (rule ext) (simp add: map_add_def split: option.splits)

lemma reduce_Update_lookup:
  assumes "lookup st i = Stored c" and "s_props c = Some q"
  shows "\<exists>c'. lookup (r_state (fst (reduce n st (Update i p)))) i = Stored c'
             \<and> (s_props c' = Some (q ++ p) \<or> s_props c' = Some p)"
proof (cases "map_of (t_own st) i")
  case None
  with assms(1) have "lookup (copy_of st) i = Inherited"
    by (auto simp add: lookup_def copy_of_def split: if_splits option.splits)
  with assms(1) show ?thesis
    by (simp add: lookup_assign empty_result_def no_fields_def)
next
  case (Some c0)
  with assms(1) have "lookup (copy_of st) i = Stored c"
    by (simp add: lookup_def copy_of_def)
  with assms show ?thesis
    by (simp add: lookup_assign empty_result_def)
qed

lemma dispatch_Update_lookup:
  assumes "lookup (e_state e) i = Stored c" and "s_props c = Some q"
  shows "\<exists>c'. lookup (e_state (snd (dispatch e (Update i p)))) i = Stored c'
             \<and> (s_props c' = Some (q ++ p) \<or> s_props c' = Some p)"
  using reduce_Update_lookup [OF assms, of "nextOrder e" p]
  by (auto simp add: dispatch_def split: prod.splits)

text \<open>
  C6. Render is idempotent on structure. After a descriptor \<open>d\<close> has been rendered once
  (so its id is present, whether or not it was before), rendering \<open>d\<close> a second time and
  updating the id with the props of \<open>d\<close> leave the same props under that id: in both
  cases exactly the props of \<open>d\<close>.
\<close>

theorem C6_render_twice_same_props_as_update:
  "map_option s_props (getComponent (snd (dispatch (snd (dispatch e (Render d))) (Render d))) (c_id d))
     = map_option s_props
         (getComponent (snd (dispatch (snd (dispatch e (Render d))) (Update (c_id d) (c_props d)))) (c_id d))
   \<and> map_option s_props (getComponent (snd (dispatch (snd (dispatch e (Render d))) (Render d))) (c_id d))
     = Some (Some (c_props d))"
proof -
  obtain c1 where c1: "lookup (e_state (snd (dispatch e (Render d)))) (c_id d) = Stored c1"
    and p1: "s_props c1 = Some (c_props d)"
    using dispatch_Render_lookup by blast
  obtain c2 where c2: "lookup (e_state (snd (dispatch (snd (dispatch e (Render d))) (Render d)))) (c_id d)
                        = Stored c2"
    and p2: "s_props c2 = Some (c_props d)"
    using dispatch_Render_lookup by blast
  obtain c3 where c3: "lookup (e_state (snd (dispatch (snd (dispatch e (Render d)))
                          (Update (c_id d) (c_props d))))) (c_id d) = Stored c3"
    and p3: "s_props c3 = Some (c_props d ++ c_props d) \<or> s_props c3 = Some (c_props d)"
    using dispatch_Update_lookup [OF c1 p1] by blast
  from p3 have "s_props c3 = Some (c_props d)" by (simp add: map_add_self)
  then show ?thesis
    using c2 p2 c3 by (simp add: getComponent_def)
qed

text \<open>
  An id is unknown to the reducer when it is no own property of the tree and names no
  member of \<open>Object.prototype\<close>. Update, remove, show and hide on such an id, show on a
  visible component and hide on a component that is not visible return the copy of the
  tree and four empty lists.
\<close>

lemma lookup_Missing:
  "lookup st i = Missing \<longleftrightarrow> map_of (t_own st) i = None \<and> \<not> inherited i"
  by (simp add: lookup_def inherited_def split: option.splits)

lemma edits_on_unknown_id_ignored:
  assumes "map_of (t_own (e_state e)) i = None" and "\<not> inherited i"
    and "a \<in> {Remove i, Update i p, Show i, Hide i}"
  shows "dispatch e a =
           (\<lparr>r_state = copy_of (e_state e), added = [], removed = [], updated = [],
             visibilityChanged = []\<rparr>,
            e\<lparr>e_state := copy_of (e_state e), version := version e + 1\<rparr>)"
proof -
  have "lookup (e_state e) i = Missing" using assms(1,2) by (simp add: lookup_Missing)
  with assms(3) show ?thesis by (auto simp add: dispatch_def empty_result_def)
qed

lemma show_hide_without_change_ignored:
  assumes "map_of (t_own (e_state e)) i = Some c"
  shows "s_visible c = Some True \<Longrightarrow>
         fst (dispatch e (Show i)) =
           \<lparr>r_state = copy_of (e_state e), added = [], removed = [], updated = [],
            visibilityChanged = []\<rparr>"
    and "s_visible c \<noteq> Some True \<Longrightarrow>
         fst (dispatch e (Hide i)) =
           \<lparr>r_state = copy_of (e_state e), added = [], removed = [], updated = [],
            visibilityChanged = []\<rparr>"
  using assms by (simp_all add: dispatch_def empty_result_def lookup_def)

text \<open>
  C8 does not hold of the code for an id that names a member of \<open>Object.prototype\<close>: the
  reducer tests \<open>state[action.id]\<close>, and on a plain object that read finds the inherited
  function. On the empty tree, with the id \<open>constructor\<close>: remove reports the id as
  removed; update reports it as updated and adds an object that has only props; show
  reports a visibility change and adds an object that has only \<open>visible\<close>; hide alone is
  ignored.
\<close>

theorem C8_inherited_member_id_not_ignored:
  "map_of (t_own (e_state new_UIStateEngine)) ''constructor'' = None
   \<and> removed (fst (dispatch new_UIStateEngine (Remove ''constructor''))) = [''constructor'']
   \<and> updated (fst (dispatch new_UIStateEngine (Update ''constructor'' Map.empty))) = [''constructor'']
   \<and> t_own (r_state (fst (dispatch new_UIStateEngine (Update ''constructor'' Map.empty))))
       = [(''constructor'', no_fields\<lparr>s_props := Some Map.empty\<rparr>)]
   \<and> visibilityChanged (fst (dispatch new_UIStateEngine (Show ''constructor''))) = [''constructor'']
   \<and> t_own (r_state (fst (dispatch new_UIStateEngine (Show ''constructor''))))
       = [(''constructor'', no_fields\<lparr>s_visible := Some True\<rparr>)]
   \<and> fst (dispatch new_UIStateEngine (Hide ''constructor''))
       = \<lparr>r_state = empty_tree, added = [], removed = [], updated = [], visibilityChanged = []\<rparr>"
  by (simp add: new_UIStateEngine_def empty_tree_def dispatch_def lookup_def copy_of_def
      assign_def empty_result_def Object_prototype_functions_def)

section \<open>Theorems: intent memory\<close>

lemma toLowerCase_this [simp]: "toLowerCase ''this'' = ''this''"
  by (simp add: toLowerCase_def lower_char_def)

lemma toLowerCase_that [simp]: "toLowerCase ''that'' = ''that''"
  by (simp add: toLowerCase_def lower_char_def)

lemma setReference_fields [simp]:
  "intents (setReference m k c ts d now) = intents m"
  "maxAge (setReference m k c ts d now) = maxAge m"
  "maxIntents (setReference m k c ts d now) = maxIntents m"
  "currentIntentId (setReference m k c ts d now) = currentIntentId m"
  by (simp_all add: setReference_def)

lemma cleanup_fields [simp]:
  "maxAge (cleanup now m) = maxAge m"
  "maxIntents (cleanup now m) = maxIntents m"
  by (simp_all add: cleanup_def Let_def)

lemma resolveReference_setReference_same:
  "resolveReference (setReference m k c ts d now) k = c"
  by (simp add: resolveReference_def setReference_def)

lemma resolveReference_setReference_other:
  "toLowerCase k' \<noteq> toLowerCase k \<Longrightarrow> references m (toLowerCase k') = Some r \<Longrightarrow>
   resolveReference (setReference m k c ts d now) k' = componentId r"
  by (simp add: resolveReference_def setReference_def)





lemma recordIntent_limits [simp]:
  "maxAge (snd (recordIntent m now rnd nowc inp ty ids dat)) = maxAge m"
  "maxIntents (snd (recordIntent m now rnd nowc inp ty ids dat)) = maxIntents m"
  by (simp_all add: recordIntent_def Let_def split: list.splits option.splits)





text \<open>
  C3, as the claim states it, fails: \<open>resolveReference\<close> never reads the clock or a
  timestamp. A reference to \<open>chart\<close> set at time 0 still resolves after another reference
  is set at 3600001 ms, more than \<open>maxAge\<close> later.
\<close>

theorem C3_stale_reference_counterexample:
  "(3600001::int) - 0 > maxAge (new_IntentMemoryEngine None None :: unit IntentMemoryEngine)
   \<and> resolveReference
       (setReference
          (setReference (new_IntentMemoryEngine None None :: unit IntentMemoryEngine)
             ''chart'' (Some ''chart-1'') None None 0)
          ''table'' (Some ''table-1'') None None 3600001)
       ''chart'' = Some ''chart-1''"
  by (simp add: setReference_def resolveReference_def new_IntentMemoryEngine_def
      toLowerCase_def lower_char_def)

text \<open>
  C3, amended. Eviction happens in \<open>cleanup\<close>, which runs at the start of every
  \<open>recordIntent\<close>. When a cleanup runs at a time \<open>nowc\<close> with \<open>nowc - T > maxAge\<close> for a
  reference recorded at \<open>T\<close>, the table has no entry for its key afterwards;
  \<open>resolveReference\<close> then answers not-found unless the scan of the intent log finds an
  affected id that contains the key; and after the whole \<open>recordIntent\<close> the key is still
  absent from the table unless it is \<open>this\<close> or \<open>that\<close>, which the recording rebinds.
\<close>

theorem C3_expired_reference_evicted_by_cleanup:
  assumes "references m (toLowerCase key) = Some r" and "nowc - r_timestamp r > maxAge m"
  shows "references (cleanup nowc m) (toLowerCase key) = None
       \<and> (\<not> list_ex (\<lambda>intent. list_ex (\<lambda>i. includes_str (toLowerCase i) (toLowerCase key))
                                    (componentIds intent)) (intents (cleanup nowc m))
            \<longrightarrow> resolveReference (cleanup nowc m) key = None)
       \<and> (toLowerCase key \<notin> {''this'', ''that''}
            \<longrightarrow> references (snd (recordIntent m now rnd nowc inp ty ids dat)) (toLowerCase key) = None)"
proof -
  have gone: "references (cleanup nowc m) (toLowerCase key) = None"
    using assms by (simp add: cleanup_def Let_def)
  have scan: "resolveReference (cleanup nowc m) key = None"
    if "\<not> list_ex (\<lambda>intent. list_ex (\<lambda>i. includes_str (toLowerCase i) (toLowerCase key))
                                    (componentIds intent)) (intents (cleanup nowc m))"
  proof -
    from that have "find (\<lambda>intent. list_ex (\<lambda>i. includes_str (toLowerCase i) (toLowerCase key))
                                    (componentIds intent)) (intents (cleanup nowc m)) = None"
      by (simp add: find_None_iff list_ex_iff)
    with gone show ?thesis by (simp add: resolveReference_def)
  qed
  have after: "references (snd (recordIntent m now rnd nowc inp ty ids dat)) (toLowerCase key) = None"
    if "toLowerCase key \<notin> {''this'', ''that''}"
    using that gone
    by (simp add: recordIntent_def Let_def setReference_def split: list.splits option.splits)
  from gone scan after show ?thesis by blast
qed

theorem C3_expired_reference_evicted_by_cleanup_witness:
  "references
      (setReference (new_IntentMemoryEngine None None :: unit IntentMemoryEngine)
         ''chart'' (Some ''chart-1'') None None 0) (toLowerCase ''Chart'')
     = Some \<lparr>r_key = ''chart'', componentId = Some ''chart-1'', r_timestamp = 0, description = None\<rparr>
   \<and> (3600001::int) - r_timestamp \<lparr>r_key = ''chart'', componentId = Some ''chart-1'', r_timestamp = 0,
                                   description = None\<rparr>
       > maxAge (setReference (new_IntentMemoryEngine None None :: unit IntentMemoryEngine)
                  ''chart'' (Some ''chart-1'') None None 0)
   \<and> resolveReference
       (cleanup 3600001
          (setReference (new_IntentMemoryEngine None None :: unit IntentMemoryEngine)
             ''chart'' (Some ''chart-1'') None None 0)) ''Chart'' = None
   \<and> references
       (snd (recordIntent
          (setReference (new_IntentMemoryEngine None None :: unit IntentMemoryEngine)
             ''chart'' (Some ''chart-1'') None None 0)
          3600001 ''r1'' 3600001 ''hello'' ''ui_orchestration'' [''empty-state''] None))
       (toLowerCase ''Chart'') = None"
proof -
  let ?m = "setReference (new_IntentMemoryEngine None None :: unit IntentMemoryEngine)
              ''chart'' (Some ''chart-1'') None None 0"
  let ?r = "\<lparr>r_key = ''chart'', componentId = Some ''chart-1'', r_timestamp = 0, description = None\<rparr>"
  have lc: "toLowerCase ''Chart'' = ''chart''" by (simp add: toLowerCase_def lower_char_def)
  have h1: "references ?m (toLowerCase ''Chart'') = Some ?r"
    by (simp add: lc) (simp add: setReference_def toLowerCase_def lower_char_def)
  have h2: "(3600001::int) - r_timestamp ?r > maxAge ?m"
    by (simp add: setReference_def new_IntentMemoryEngine_def)
  have e: "intents (cleanup 3600001 ?m) = []"
    by (simp add: cleanup_def Let_def setReference_def new_IntentMemoryEngine_def)
  show ?thesis
    using h1 h2 e
      C3_expired_reference_evicted_by_cleanup [OF h1 h2,
        of 3600001 "''r1''" "''hello''" "''ui_orchestration''" "[''empty-state'']" None]
    by (simp add: lc)
qed

section \<open>Theorems: data store\<close>

lemma initializeMockData_required:
  "k \<in> set USER_REQUIRED_FIELDS \<Longrightarrow>
   map_of (d_data (initializeMockData M ds now)) k = map_of (d_data ds) k"
  unfolding initializeMockData_def
  by (induction M arbitrary: ds) (auto simp add: update_conv')

lemma new_DataStore_required:
  "k \<in> set USER_REQUIRED_FIELDS \<Longrightarrow> map_of (d_data (new_DataStore M now)) k = None"
  by (simp add: new_DataStore_def initializeMockData_required)

lemma ds_clear_required:
  "k \<in> set USER_REQUIRED_FIELDS \<Longrightarrow> map_of (d_data (ds_clear M ds now)) k = None"
  by (simp add: ds_clear_def initializeMockData_required)

lemma required_not_computable:
  "k \<in> set USER_REQUIRED_FIELDS \<Longrightarrow> map_of COMPUTABLE_FIELDS k = None"
  by (auto simp add: USER_REQUIRED_FIELDS_def COMPUTABLE_FIELDS_def)

lemma ds_get_absent:
  "k \<in> set USER_REQUIRED_FIELDS \<Longrightarrow> map_of (d_data ds) k = None \<Longrightarrow> ds_get ds k = JNull"
  by (simp add: ds_get_def required_not_computable getStored_def)

lemma resetToMock_required:
  "k \<in> set USER_REQUIRED_FIELDS \<Longrightarrow> resetToMock M ds k now = (False, ds)"
  by (simp add: resetToMock_def split: option.splits)

lemma user_only_set: "user_only ds k \<Longrightarrow> user_only (ds_set ds now key v) k"
  by (simp add: user_only_def ds_set_def update_conv')

lemma user_only_setMany: "user_only ds k \<Longrightarrow> user_only (setMany ds now entries) k"
  unfolding setMany_def
  by (induction entries arbitrary: ds) (auto simp add: user_only_set)

lemma user_only_delete: "user_only ds k \<Longrightarrow> user_only (ds_delete ds key) k"
  by (simp add: user_only_def ds_delete_def delete_conv')

lemma user_only_reset:
  "k \<in> set USER_REQUIRED_FIELDS \<Longrightarrow> user_only ds k \<Longrightarrow> user_only (snd (resetToMock M ds key now)) k"
  by (auto simp add: user_only_def resetToMock_def update_conv' split: option.splits)

lemma user_only_import:
  "k \<in> set USER_REQUIRED_FIELDS \<Longrightarrow> user_only ds k \<Longrightarrow>
   list_all (\<lambda>(key, e). key \<in> set USER_REQUIRED_FIELDS \<longrightarrow> d_source e = User) entries \<Longrightarrow>
   user_only (ds_import ds entries) k"
  unfolding ds_import_def
proof (induction entries arbitrary: ds)
  case Nil
  then show ?case by simp
next
  case (Cons x xs)
  obtain key e where x: "x = (key, e)" by (cases x)
  have "user_only (ds\<lparr>d_data := AList.update key e (d_data ds),
               userProvidedKeys := (if d_source e = User then insert key (userProvidedKeys ds)
                                    else userProvidedKeys ds)\<rparr>) k"
    using Cons.prems x by (auto simp add: user_only_def update_conv')
  then show ?case using Cons x by simp
qed

lemma reachable_user_only:
  "reachable M ds \<Longrightarrow> k \<in> set USER_REQUIRED_FIELDS \<Longrightarrow> user_only ds k"
proof (induction rule: reachable.induct)
  case (r_new now)
  then show ?case by (simp add: user_only_def new_DataStore_required)
next
  case (r_clear ds now)
  then show ?case by (simp add: user_only_def ds_clear_required)
qed (simp_all add: user_only_set user_only_setMany user_only_delete user_only_reset user_only_import)

lemma absent_kept:
  assumes "map_of (d_data ds) k = None" "k \<in> set USER_REQUIRED_FIELDS"
  shows "key \<noteq> k \<Longrightarrow> map_of (d_data (ds_set ds now key v)) k = None"
    and "map_of (d_data (ds_delete ds key)) k = None"
    and "map_of (d_data (snd (resetToMock M ds key now))) k = None"
    and "map_of (d_data (ds_clear M ds now)) k = None"
  using assms
  by (auto simp add: ds_set_def ds_delete_def resetToMock_def update_conv' delete_conv'
      ds_clear_required split: option.splits)

lemma initializeMockData_keys [simp]:
  "userProvidedKeys (initializeMockData M ds now) = userProvidedKeys ds"
  unfolding initializeMockData_def
  by (induction M arbitrary: ds) (simp_all add: case_prod_beta)

text \<open>
  C7, as the claim states it, fails: \<open>import\<close> stores the entries it is given as they are.
  Importing a mock-sourced entry for \<open>salary.lastMonth\<close> into a new store makes the key
  present with source mock, without any user-sourced \<open>set\<close>.
\<close>

theorem C7_import_counterexample:
  "''salary.lastMonth'' \<in> set USER_REQUIRED_FIELDS
   \<and> ds_get (ds_import (new_DataStore (MOCK_DATA ''2026-11'' ''2026-10'') 0)
               [(''salary.lastMonth'', \<lparr>d_value = JNum 5000, d_source = Mock, d_timestamp = 0\<rparr>)])
        ''salary.lastMonth'' = JNum 5000
   \<and> map_option d_source
        (map_of (d_data (ds_import (new_DataStore (MOCK_DATA ''2026-11'' ''2026-10'') 0)
               [(''salary.lastMonth'', \<lparr>d_value = JNum 5000, d_source = Mock, d_timestamp = 0\<rparr>)]))
           ''salary.lastMonth'') = Some Mock
   \<and> \<not> isUserProvided (ds_import (new_DataStore (MOCK_DATA ''2026-11'' ''2026-10'') 0)
               [(''salary.lastMonth'', \<lparr>d_value = JNum 5000, d_source = Mock, d_timestamp = 0\<rparr>)])
        ''salary.lastMonth''"
  by (simp add: USER_REQUIRED_FIELDS_def ds_import_def update_conv' ds_get_def getStored_def
      COMPUTABLE_FIELDS_def isUserProvided_def new_DataStore_def)

text \<open>
  C7, amended. For every key \<open>k\<close> of the never-auto-populate set: after construction and
  after every \<open>clear\<close> the key is absent (\<open>get\<close> returns null); \<open>resetToMock\<close> on it returns
  false and leaves the store as it was; in every store built by the operations of the
  class, where \<open>import\<close> is given only user-sourced entries for such keys, the key has no
  entry or a user-sourced one; an absent key stays absent under \<open>set\<close> of another key,
  \<open>delete\<close>, \<open>resetToMock\<close> and \<open>clear\<close>; and \<open>set\<close> on the key stores a user-sourced entry.
  (\<open>import\<close> itself copies whatever entry it is given.)
\<close>

theorem C7_never_mocked_keys:
  assumes "k \<in> set USER_REQUIRED_FIELDS"
  shows "ds_get (new_DataStore M now) k = JNull
       \<and> ds_get (ds_clear M ds now) k = JNull
       \<and> resetToMock M ds k now = (False, ds)
       \<and> (reachable M ds \<longrightarrow> user_only ds k)
       \<and> (map_of (d_data ds) k = None \<longrightarrow>
            (key \<noteq> k \<longrightarrow> map_of (d_data (ds_set ds now key v)) k = None)
            \<and> map_of (d_data (ds_delete ds key)) k = None
            \<and> map_of (d_data (snd (resetToMock M ds key now))) k = None
            \<and> map_of (d_data (ds_clear M ds now)) k = None)
       \<and> map_option d_source (map_of (d_data (ds_set ds now k v)) k) = Some User"
proof -
  have a: "ds_get (new_DataStore M now) k = JNull"
    using assms by (simp add: ds_get_absent new_DataStore_required)
  have b: "ds_get (ds_clear M ds now) k = JNull"
    using assms by (simp add: ds_get_absent ds_clear_required)
  have c: "resetToMock M ds k now = (False, ds)"
    using assms by (rule resetToMock_required)
  have d: "reachable M ds \<longrightarrow> user_only ds k"
    using assms by (simp add: reachable_user_only)
  have e: "map_of (d_data ds) k = None \<longrightarrow>
            (key \<noteq> k \<longrightarrow> map_of (d_data (ds_set ds now key v)) k = None)
            \<and> map_of (d_data (ds_delete ds key)) k = None
            \<and> map_of (d_data (snd (resetToMock M ds key now))) k = None
            \<and> map_of (d_data (ds_clear M ds now)) k = None"
    using assms absent_kept [of ds k] by blast
  have f: "map_option d_source (map_of (d_data (ds_set ds now k v)) k) = Some User"
    by (simp add: ds_set_def update_conv')
  from a b c d e f show ?thesis by blast
qed

theorem C7_never_mocked_keys_witness:
  "''salary.lastMonth'' \<in> set USER_REQUIRED_FIELDS
   \<and> ds_get (new_DataStore (MOCK_DATA ''2026-11'' ''2026-10'') 0) ''salary.lastMonth'' = JNull
   \<and> resetToMock (MOCK_DATA ''2026-11'' ''2026-10'')
        (new_DataStore (MOCK_DATA ''2026-11'' ''2026-10'') 0) ''salary.lastMonth'' 1
      = (False, new_DataStore (MOCK_DATA ''2026-11'' ''2026-10'') 0)
   \<and> reachable (MOCK_DATA ''2026-11'' ''2026-10'')
        (new_DataStore (MOCK_DATA ''2026-11'' ''2026-10'') 0)
   \<and> user_only (new_DataStore (MOCK_DATA ''2026-11'' ''2026-10'') 0) ''salary.lastMonth''
   \<and> map_of (d_data (new_DataStore (MOCK_DATA ''2026-11'' ''2026-10'') 0)) ''salary.lastMonth'' = None
   \<and> ''expenses.rent'' \<noteq> ''salary.lastMonth''
   \<and> map_of (d_data (ds_set (new_DataStore (MOCK_DATA ''2026-11'' ''2026-10'') 0) 1
                        ''expenses.rent'' (JNum 1400))) ''salary.lastMonth'' = None
   \<and> map_of (d_data (ds_clear (MOCK_DATA ''2026-11'' ''2026-10'')
                        (new_DataStore (MOCK_DATA ''2026-11'' ''2026-10'') 0) 1)) ''salary.lastMonth'' = None"
proof -
  have h: "''salary.lastMonth'' \<in> set USER_REQUIRED_FIELDS"
    by (simp add: USER_REQUIRED_FIELDS_def)
  have r: "reachable (MOCK_DATA ''2026-11'' ''2026-10'')
             (new_DataStore (MOCK_DATA ''2026-11'' ''2026-10'') 0)"
    by (rule reachable.r_new)
  have n: "map_of (d_data (new_DataStore (MOCK_DATA ''2026-11'' ''2026-10'') 0)) ''salary.lastMonth'' = None"
    using h by (rule new_DataStore_required)
  show ?thesis
    using h r n
      C7_never_mocked_keys [OF h, where M = "MOCK_DATA ''2026-11'' ''2026-10''" and now = 1
        and ds = "new_DataStore (MOCK_DATA ''2026-11'' ''2026-10'') 0"
        and key = "''expenses.rent''" and v = "JNum 1400"]
      C7_never_mocked_keys [OF h, where M = "MOCK_DATA ''2026-11'' ''2026-10''" and now = 0
        and ds = "new_DataStore (MOCK_DATA ''2026-11'' ''2026-10'') 0"
        and key = "''expenses.rent''" and v = "JNum 1400"]
    by simp
qed

section \<open>Theorems: suggestions\<close>

lemma mset_take_subset: "mset (take n xs) \<subseteq># mset xs"
proof -
  have "mset xs = mset (take n xs) + mset (drop n xs)"
    by (metis append_take_drop_id mset_append)
  then show ?thesis by simp
qed

lemma mset_minus_take: "mset xs - mset (take n xs) = mset (drop n xs)"
proof -
  have "mset xs = mset (take n xs) + mset (drop n xs)"
    by (metis append_take_drop_id mset_append)
  then show ?thesis by simp
qed

lemma prefix_filter_take: "prefix (filter P (take n xs)) (filter P xs)"
proof -
  have "filter P xs = filter P (take n xs) @ filter P (drop n xs)"
    by (metis append_take_drop_id filter_append)
  then show ?thesis by (simp add: prefix_def)
qed

lemma sorted_take_drop_le:
  assumes "sorted (map f xs)" "x \<in> set (drop n xs)" "y \<in> set (take n xs)"
  shows "f y \<le> f x"
proof -
  have "sorted (map f (take n xs) @ map f (drop n xs))"
    using assms(1) by (metis append_take_drop_id map_append)
  then show ?thesis using assms(2,3) by (auto simp add: sorted_append)
qed

text \<open>The loop appends the results of the rules in the order of the list of rules.\<close>

lemma run_rules_concat:
  "map (\<lambda>rule. rule ctx) rules = map Inr outs \<Longrightarrow>
   run_rules rules ctx acc = Inr (acc @ concat (map emitted outs))"
proof (induction rules arbitrary: outs acc)
  case Nil
  then show ?case by simp
next
  case (Cons rule rules)
  then obtain out outs' where o: "outs = out # outs'" and r: "rule ctx = Inr out"
    and rest: "map (\<lambda>rule. rule ctx) rules = map Inr outs'"
    by (cases outs) auto
  show ?case
    using Cons.IH [OF rest] by (cases out) (simp_all add: o r emitted_def)
qed

lemma rank_properties:
  fixes allS :: "PredictiveAction list"
  defines "q \<equiv> filter (\<lambda>s. confidence s \<ge> MIN_CONFIDENCE) allS"
  assumes "length q > MAX_SUGGESTIONS"
  shows "length (rank allS) = MAX_SUGGESTIONS"
    and "sorted_wrt (\<lambda>a b. confidence a \<ge> confidence b) (rank allS)"
    and "mset (rank allS) \<subseteq># mset q"
    and "\<forall>x \<in># mset q - mset (rank allS). \<forall>y \<in> set (rank allS). confidence x \<le> confidence y"
proof -
  let ?f = "\<lambda>s. - confidence s"
  let ?s = "sort_key ?f q"
  have r: "rank allS = take MAX_SUGGESTIONS ?s" by (simp add: rank_def q_def)
  show "length (rank allS) = MAX_SUGGESTIONS" using assms(2) by (simp add: r)
  have srt: "sorted (map ?f ?s)" by simp
  then have "sorted (map ?f (take MAX_SUGGESTIONS ?s))"
    by (metis sorted_wrt_take take_map)
  then show "sorted_wrt (\<lambda>a b. confidence a \<ge> confidence b) (rank allS)"
    by (simp add: r sorted_map)
  have ms: "mset ?s = mset q" by simp
  show "mset (rank allS) \<subseteq># mset q"
    using mset_take_subset [of MAX_SUGGESTIONS ?s] by (simp add: r)
  have rest: "mset q - mset (rank allS) = mset (drop MAX_SUGGESTIONS ?s)"
    using mset_minus_take [of ?s MAX_SUGGESTIONS] by (simp add: r)
  show "\<forall>x \<in># mset q - mset (rank allS). \<forall>y \<in> set (rank allS). confidence x \<le> confidence y"
  proof (intro ballI)
    fix x y
    assume "x \<in># mset q - mset (rank allS)" and y: "y \<in> set (rank allS)"
    then have x: "x \<in> set (drop MAX_SUGGESTIONS ?s)" by (simp add: rest)
    from sorted_take_drop_le [OF srt x] y have "- confidence y \<le> - confidence x" by (simp add: r)
    then show "confidence x \<le> confidence y" by simp
  qed
qed

text \<open>Ties: the sort is stable, so per confidence value the kept ones come first.\<close>

lemma rank_ties:
  "prefix (filter (\<lambda>s. confidence s = c) (rank allS))
          (filter (\<lambda>s. confidence s = c) (filter (\<lambda>s. confidence s \<ge> MIN_CONFIDENCE) allS))"
proof -
  let ?q = "filter (\<lambda>s. confidence s \<ge> MIN_CONFIDENCE) allS"
  let ?s = "sort_key (\<lambda>s. - confidence s) ?q"
  have "filter (\<lambda>y. - confidence y = - c) ?s = filter (\<lambda>y. - confidence y = - c) ?q"
    by (rule sort_key_stable)
  then have st: "filter (\<lambda>s. confidence s = c) ?s = filter (\<lambda>s. confidence s = c) ?q" by simp
  show ?thesis
    using prefix_filter_take [of "\<lambda>s. confidence s = c" MAX_SUGGESTIONS ?s]
    by (simp add: rank_def st)
qed

lemma rank_subset: "set (rank allS) \<subseteq> {s \<in> set allS. confidence s \<ge> MIN_CONFIDENCE}"
proof -
  have "set (rank allS) \<subseteq> set (sort_key (\<lambda>s. - confidence s)
           (filter (\<lambda>s. confidence s \<ge> MIN_CONFIDENCE) allS))"
    unfolding rank_def by (rule set_take_subset)
  then show ?thesis by auto
qed

lemma prefix_distinct_before:
  assumes "prefix P (A @ B)" and "distinct (A @ B)" and "x \<in> set A" and "y \<in> set B"
    and "y \<in> set P"
  shows "x \<in> set P"
proof -
  from assms(1) consider "prefix P A" | us where "P = A @ us"
    by (auto simp add: prefix_append)
  then show ?thesis
  proof cases
    case 1
    then have "set P \<subseteq> set A" by (rule set_mono_prefix)
    with assms(5) have "y \<in> set A" by blast
    with assms(2,4) show ?thesis by auto
  next
    case 2
    with assms(3) show ?thesis by simp
  qed
qed

text \<open>
  When no suggestion is emitted twice: of two suggestions with the same confidence, the
  one that an earlier rule emitted is kept whenever the one of the later rule is kept.
\<close>

lemma rank_earlier_rule_wins:
  assumes d: "distinct (concat (map emitted outs))"
    and ij: "i < j" "j < length outs"
    and x: "x \<in> set (emitted (outs ! i))" and y: "y \<in> set (emitted (outs ! j))"
    and eq: "confidence x = confidence y"
    and kept: "y \<in> set (rank (concat (map emitted outs)))"
  shows "x \<in> set (rank (concat (map emitted outs)))"
proof -
  let ?all = "concat (map emitted outs)"
  let ?A = "concat (map emitted (take j outs))"
  let ?B = "concat (map emitted (drop j outs))"
  let ?ok = "\<lambda>s. confidence s \<ge> MIN_CONFIDENCE"
  let ?c = "\<lambda>s. confidence s = confidence y"
  have split: "?all = ?A @ ?B"
    by (metis append_take_drop_id concat_append map_append)
  have "outs ! i \<in> set (take j outs)"
    using ij by (metis in_set_conv_nth length_take min.absorb2 nth_take order_less_imp_le order_less_trans)
  with x have xa: "x \<in> set ?A" by auto
  have "outs ! j \<in> set (drop j outs)"
    using ij(2) by (metis Cons_nth_drop_Suc list.set_intros(1))
  with y have yb: "y \<in> set ?B" by auto
  from kept rank_subset have oky: "?ok y" by blast
  with eq have okx: "?ok x" by simp
  let ?FA = "filter ?c (filter ?ok ?A)"
  let ?FB = "filter ?c (filter ?ok ?B)"
  have F: "filter ?c (filter ?ok ?all) = ?FA @ ?FB" by (simp add: split)
  have pre: "prefix (filter ?c (rank ?all)) (?FA @ ?FB)"
    using rank_ties [of "confidence y" ?all] by (simp only: F)
  have dist: "distinct (?FA @ ?FB)"
    using d by (simp only: F [symmetric] distinct_filter)
  have "x \<in> set ?FA" using xa okx eq by simp
  moreover have "y \<in> set ?FB" using yb oky by simp
  moreover have "y \<in> set (filter ?c (rank ?all))" using kept by simp
  ultimately have "x \<in> set (filter ?c (rank ?all))"
    using prefix_distinct_before [OF pre dist] by blast
  then show ?thesis by simp
qed

text \<open>
  C9. Let \<open>outs\<close> be the results of the rules on a context, in the order in which the
  rules are registered in \<open>PREDICTION_RULES\<close> (none of them throws), and let the
  suggestions they emit, concatenated in that order, hold more than \<open>MAX_SUGGESTIONS\<close> (3)
  suggestions with confidence at or above \<open>MIN_CONFIDENCE\<close> (0.5). Then
  \<open>getPredictiveActions\<close> returns exactly three of the qualifying suggestions, in
  descending order of confidence; every suggestion left out has a confidence no larger
  than any suggestion kept (the top three); for every confidence value the kept
  suggestions of that value are an initial part of the qualifying suggestions of that
  value in registration order (ties keep their order); and, when no suggestion is emitted
  twice, a suggestion of an earlier-registered rule is kept whenever an equal-confidence
  suggestion of a later rule is kept.
\<close>

theorem C9_top_suggestions:
  assumes "map (\<lambda>rule. rule ctx) PREDICTION_RULES = map Inr outs"
    and "MAX_SUGGESTIONS
           < length (filter (\<lambda>s. confidence s \<ge> MIN_CONFIDENCE) (concat (map emitted outs)))"
  shows "getPredictiveActions ctx = Inr (rank (concat (map emitted outs)))
       \<and> length (rank (concat (map emitted outs))) = MAX_SUGGESTIONS
       \<and> sorted_wrt (\<lambda>a b. confidence a \<ge> confidence b) (rank (concat (map emitted outs)))
       \<and> mset (rank (concat (map emitted outs)))
           \<subseteq># mset (filter (\<lambda>s. confidence s \<ge> MIN_CONFIDENCE) (concat (map emitted outs)))
       \<and> (\<forall>x \<in># mset (filter (\<lambda>s. confidence s \<ge> MIN_CONFIDENCE) (concat (map emitted outs)))
                   - mset (rank (concat (map emitted outs))).
             \<forall>y \<in> set (rank (concat (map emitted outs))). confidence x \<le> confidence y)
       \<and> (\<forall>c. prefix (filter (\<lambda>s. confidence s = c) (rank (concat (map emitted outs))))
                        (filter (\<lambda>s. confidence s = c)
                           (filter (\<lambda>s. confidence s \<ge> MIN_CONFIDENCE) (concat (map emitted outs)))))
       \<and> (distinct (concat (map emitted outs)) \<longrightarrow>
            (\<forall>i j x y. i < j \<and> j < length outs
                \<and> x \<in> set (emitted (outs ! i)) \<and> y \<in> set (emitted (outs ! j))
                \<and> confidence x = confidence y
                \<and> y \<in> set (rank (concat (map emitted outs)))
              \<longrightarrow> x \<in> set (rank (concat (map emitted outs)))))"
proof -
  have g: "getPredictiveActions ctx = Inr (rank (concat (map emitted outs)))"
    using run_rules_concat [OF assms(1), of "[]"] by (simp add: getPredictiveActions_def)
  have t: "\<forall>c. prefix (filter (\<lambda>s. confidence s = c) (rank (concat (map emitted outs))))
                        (filter (\<lambda>s. confidence s = c)
                           (filter (\<lambda>s. confidence s \<ge> MIN_CONFIDENCE) (concat (map emitted outs))))"
    using rank_ties by blast
  have w: "distinct (concat (map emitted outs)) \<longrightarrow>
            (\<forall>i j x y. i < j \<and> j < length outs
                \<and> x \<in> set (emitted (outs ! i)) \<and> y \<in> set (emitted (outs ! j))
                \<and> confidence x = confidence y
                \<and> y \<in> set (rank (concat (map emitted outs)))
              \<longrightarrow> x \<in> set (rank (concat (map emitted outs))))"
    using rank_earlier_rule_wins [of outs] by blast
  from g rank_properties [OF assms(2)] t w show ?thesis by simp
qed

lemma demo_context_rules:
  "map (\<lambda>rule. rule demo_context) PREDICTION_RULES
     = map Inr [None, Some salary_suggestions, None, Some expense_suggestions, None]"
  by (simp add: PREDICTION_RULES_def demo_context_def
      emptyStateRule_def salaryComparisonRule_def afterFormRule_def expensesRule_def chartRule_def
      cards_are_expense_def card_is_expense_def toLowerCase_def lower_char_def
      includes_str_def sublist_code Let_def salary_suggestions_def expense_suggestions_def)

text \<open>
  In the example the cut falls between two suggestions of confidence 0.6: \<open>View Expenses\<close>
  of the second rule is kept and \<open>Calculate Savings Rate\<close> of the fourth is dropped.
\<close>

theorem C9_top_suggestions_witness:
  "map (\<lambda>rule. rule demo_context) PREDICTION_RULES
     = map Inr [None, Some salary_suggestions, None, Some expense_suggestions, None]
   \<and> MAX_SUGGESTIONS < length (filter (\<lambda>s. confidence s \<ge> MIN_CONFIDENCE)
       (concat (map emitted [None, Some salary_suggestions, None, Some expense_suggestions, None])))
   \<and> map confidence
       (concat (map emitted [None, Some salary_suggestions, None, Some expense_suggestions, None]))
       = [7 / 10, 6 / 10, 7 / 10, 6 / 10]
   \<and> map label
       (concat (map emitted [None, Some salary_suggestions, None, Some expense_suggestions, None]))
       = [''Export Report'', ''View Expenses'', ''View Income'', ''Calculate Savings Rate'']
   \<and> (case getPredictiveActions demo_context of
         Inl e \<Rightarrow> []
       | Inr r \<Rightarrow> map label r) = [''Export Report'', ''View Income'', ''View Expenses'']
   \<and> (case getPredictiveActions demo_context of Inl e \<Rightarrow> 0 | Inr r \<Rightarrow> length r) = MAX_SUGGESTIONS"
proof -
  let ?outs = "[None, Some salary_suggestions, None, Some expense_suggestions, None]"
  have h: "MAX_SUGGESTIONS < length (filter (\<lambda>s. confidence s \<ge> MIN_CONFIDENCE)
             (concat (map emitted ?outs)))"
    by (simp add: emitted_def MAX_SUGGESTIONS_def MIN_CONFIDENCE_def salary_suggestions_def
        expense_suggestions_def)
  have c: "map confidence (concat (map emitted ?outs)) = [7 / 10, 6 / 10, 7 / 10, 6 / 10]"
    by (simp add: emitted_def salary_suggestions_def expense_suggestions_def)
  have l: "map label (concat (map emitted ?outs))
           = [''Export Report'', ''View Expenses'', ''View Income'', ''Calculate Savings Rate'']"
    by (simp add: emitted_def salary_suggestions_def expense_suggestions_def)
  have r: "map label (rank (concat (map emitted ?outs)))
           = [''Export Report'', ''View Income'', ''View Expenses'']"
    by (simp add: emitted_def rank_def MAX_SUGGESTIONS_def MIN_CONFIDENCE_def
        salary_suggestions_def expense_suggestions_def)
  from C9_top_suggestions [OF demo_context_rules h]
  have "getPredictiveActions demo_context = Inr (rank (concat (map emitted ?outs)))"
    and "length (rank (concat (map emitted ?outs))) = MAX_SUGGESTIONS" by simp_all
  with demo_context_rules h c l r show ?thesis by simp
qed

section \<open>Theorems: orchestrator\<close>

subsection \<open>Blank input\<close>

lemma strip_leading_None:
  "find (\<lambda>w. w \<noteq> [] \<and> prefix w s) ws = None \<Longrightarrow> strip_leading ws s = s"
  by (simp add: strip_leading.simps)

lemma strip_leading_Some:
  "find (\<lambda>w. w \<noteq> [] \<and> prefix w s) ws = Some w \<Longrightarrow>
   strip_leading ws s = strip_leading ws (drop (length w) s)"
  by (simp add: strip_leading.simps)

lemma strip_leading_Nil: "strip_leading ws [] = []"
  by (rule strip_leading_None) (auto simp add: find_None_iff)

lemma white_space_cases:
  "w \<in> set white_space \<Longrightarrow>
   w = [CHR 0x09] \<or> w = [CHR 0x0A] \<or> w = [CHR 0x0B] \<or> w = [CHR 0x0C] \<or> w = [CHR 0x0D]
   \<or> w = [CHR 0x20] \<or> w = [CHR 0xC2, CHR 0xA0] \<or> w = [CHR 0xE1, CHR 0x9A, CHR 0x80]
   \<or> w = [CHR 0xE2, CHR 0x80, CHR 0x80] \<or> w = [CHR 0xE2, CHR 0x80, CHR 0x81]
   \<or> w = [CHR 0xE2, CHR 0x80, CHR 0x82] \<or> w = [CHR 0xE2, CHR 0x80, CHR 0x83]
   \<or> w = [CHR 0xE2, CHR 0x80, CHR 0x84] \<or> w = [CHR 0xE2, CHR 0x80, CHR 0x85]
   \<or> w = [CHR 0xE2, CHR 0x80, CHR 0x86] \<or> w = [CHR 0xE2, CHR 0x80, CHR 0x87]
   \<or> w = [CHR 0xE2, CHR 0x80, CHR 0x88] \<or> w = [CHR 0xE2, CHR 0x80, CHR 0x89]
   \<or> w = [CHR 0xE2, CHR 0x80, CHR 0x8A] \<or> w = [CHR 0xE2, CHR 0x80, CHR 0xA8]
   \<or> w = [CHR 0xE2, CHR 0x80, CHR 0xA9] \<or> w = [CHR 0xE2, CHR 0x80, CHR 0xAF]
   \<or> w = [CHR 0xE2, CHR 0x81, CHR 0x9F] \<or> w = [CHR 0xE3, CHR 0x80, CHR 0x80]
   \<or> w = [CHR 0xEF, CHR 0xBB, CHR 0xBF]"
  by (simp add: white_space_def)

text \<open>No encoding is an initial part of another, so the first match is the code point itself.\<close>

lemma white_space_found:
  "w \<in> set white_space \<Longrightarrow> find (\<lambda>v. v \<noteq> [] \<and> prefix v (w @ t)) white_space = Some w"
  by (drule white_space_cases, elim disjE) (simp_all add: white_space_def)

lemma strip_white_space:
  "list_all (\<lambda>w. w \<in> set white_space) ws \<Longrightarrow>
   strip_leading white_space (concat ws @ t) = strip_leading white_space t"
proof (induction ws)
  case Nil
  then show ?case by simp
next
  case (Cons w ws)
  then have w: "w \<in> set white_space" and rest: "list_all (\<lambda>w. w \<in> set white_space) ws"
    by simp_all
  have "strip_leading white_space (w @ (concat ws @ t))
        = strip_leading white_space (drop (length w) (w @ (concat ws @ t)))"
    by (rule strip_leading_Some) (rule white_space_found [OF w])
  with Cons.IH [OF rest] show ?case by simp
qed

lemma trim_white_space:
  "list_all (\<lambda>w. w \<in> set white_space) ws \<Longrightarrow> trim (concat ws) = []"
  using strip_white_space [of ws "[]"] by (simp add: trim_def strip_leading_Nil)

text \<open>Text that neither starts nor ends with a byte of a white-space encoding is left as it is.\<close>

lemma trim_unchanged:
  assumes "s \<noteq> []" and "hd s \<notin> set (map hd white_space)" and "last s \<notin> set (map last white_space)"
  shows "trim s = s"
proof -
  have a: "find (\<lambda>w. w \<noteq> [] \<and> prefix w s) white_space = None"
  proof (rule ccontr)
    assume "find (\<lambda>w. w \<noteq> [] \<and> prefix w s) white_space \<noteq> None"
    then obtain w where "w \<in> set white_space" "w \<noteq> []" "prefix w s"
      by (auto simp add: find_None_iff)
    then have "hd s = hd w" and "w \<in> set white_space" by (auto simp add: prefix_def)
    with assms(2) show False by simp
  qed
  have b: "find (\<lambda>w. w \<noteq> [] \<and> prefix w (rev s)) (map rev white_space) = None"
  proof (rule ccontr)
    assume "find (\<lambda>w. w \<noteq> [] \<and> prefix w (rev s)) (map rev white_space) \<noteq> None"
    then obtain w where w: "w \<in> set white_space" "w \<noteq> []" "prefix (rev w) (rev s)"
      by (auto simp add: find_None_iff)
    then have "hd (rev s) = hd (rev w)" by (auto simp add: prefix_def)
    then have "last s = last w" using assms(1) w(2) by (simp add: hd_rev)
    with assms(3) w(1) show False by simp
  qed
  show ?thesis
    by (simp add: trim_def strip_leading_None [OF a] strip_leading_None [OF b])
qed

text \<open>
  C10. For an input that is empty or consists only of white space (any sequence of the
  code points that \<open>trim\<close> strips), \<open>processUserInput\<close> returns an action with empty
  render, remove and update lists and leaves the whole module state as it was: the tree
  and its version, the intent log, the reference table and the data store are unchanged.
\<close>

theorem C10_blank_input_is_noop:
  assumes "list_all (\<lambda>w. w \<in> set white_space) ws"
  shows "processUserInput sys now rnd (concat ws)
         = (\<lparr>a_render = [], a_remove = [], a_update = []\<rparr>, sys)"
  using assms by (simp add: processUserInput_def trim_white_space)

text \<open>
  The example: a space, a no-break space (U+00A0), a tab and an ideographic space
  (U+3000); and the empty input.
\<close>

theorem C10_blank_input_is_noop_witness:
  "list_all (\<lambda>w. w \<in> set white_space)
     [[CHR 0x20], [CHR 0xC2, CHR 0xA0], [CHR 0x09], [CHR 0xE3, CHR 0x80, CHR 0x80]]
   \<and> processUserInput (initial_System ''2026-11'' ''2026-10'' 0) 10 ''r1''
        [CHR 0x20, CHR 0xC2, CHR 0xA0, CHR 0x09, CHR 0xE3, CHR 0x80, CHR 0x80]
       = (\<lparr>a_render = [], a_remove = [], a_update = []\<rparr>, initial_System ''2026-11'' ''2026-10'' 0)
   \<and> list_all (\<lambda>w. w \<in> set white_space) []
   \<and> processUserInput (initial_System ''2026-11'' ''2026-10'' 0) 10 ''r1'' []
       = (\<lparr>a_render = [], a_remove = [], a_update = []\<rparr>, initial_System ''2026-11'' ''2026-10'' 0)"
proof -
  have h: "list_all (\<lambda>w. w \<in> set white_space)
             [[CHR 0x20], [CHR 0xC2, CHR 0xA0], [CHR 0x09], [CHR 0xE3, CHR 0x80, CHR 0x80]]"
    by (simp add: white_space_def)
  have e: "list_all (\<lambda>w. w \<in> set white_space) []" by simp
  show ?thesis
    using h e C10_blank_input_is_noop [OF h, of "initial_System ''2026-11'' ''2026-10'' 0" 10 "''r1''"]
      C10_blank_input_is_noop [OF e, of "initial_System ''2026-11'' ''2026-10'' 0" 10 "''r1''"]
    by simp
qed

subsection \<open>Trees of typed components\<close>

lemma attachHandlers_same [simp]:
  "c_id (attachHandlers c h) = c_id c"
  "c_type (attachHandlers c h) = c_type c"
  "c_visible (attachHandlers c h) = c_visible c"
  "c_order (attachHandlers c h) = c_order c"
  by (simp_all add: attachHandlers_def Let_def)

lemma attachHandlers_props:
  "k \<notin> {''onSubmit'', ''onConfirm'', ''onCancel'', ''onAction'', ''onActionClick'', ''onDismiss'', ''onExport''}
   \<Longrightarrow> c_props (attachHandlers c h) k = c_props c k"
  by (simp add: attachHandlers_def Let_def split: option.splits)

lemma lookup_ordinary:
  "\<not> inherited i \<Longrightarrow>
   lookup st i = (case map_of (t_own st) i of Some c \<Rightarrow> Stored c | None \<Rightarrow> Missing)"
  by (simp add: lookup_def inherited_def split: option.splits)

lemma assign_ordinary:
  "\<not> inherited i \<Longrightarrow> assign st i c = st\<lparr>t_own := AList.update i c (t_own st)\<rparr>"
  by (simp add: assign_def inherited_def)

lemma delete_absent: "map_of al k = None \<Longrightarrow> AList.delete k al = al"
  by (induction al) (auto split: if_splits)

lemma update_absent: "map_of al k = None \<Longrightarrow> AList.update k v al = al @ [(k, v)]"
  by (induction al) (auto split: if_splits)

lemma own_Remove:
  assumes "\<not> inherited i"
  shows "t_own (e_state (snd (dispatch e (Remove i)))) = AList.delete i (t_own (e_state e))"
proof (cases "map_of (t_own (e_state e)) i")
  case None
  then show ?thesis
    using assms by (simp add: dispatch_def lookup_ordinary empty_result_def copy_of_def delete_absent)
next
  case (Some c)
  then show ?thesis
    using assms by (simp add: dispatch_def lookup_ordinary empty_result_def copy_of_def)
qed

lemma typed_entry_as_stored: "typed_entry (c_id c, as_stored c)"
  by (simp add: typed_entry_def as_stored_def)

lemma own_Render:
  assumes "\<not> inherited (c_id c)" and "c_order c = Some k"
    and "list_all typed_entry (t_own (e_state e))"
  shows "t_own (e_state (snd (dispatch e (Render c))))
         = AList.update (c_id c) (as_stored c) (t_own (e_state e))"
proof (cases "map_of (t_own (e_state e)) (c_id c)")
  case None
  then show ?thesis
    using assms(1,2)
    by (simp add: dispatch_def lookup_ordinary assign_ordinary empty_result_def copy_of_def)
next
  case (Some existing)
  then have "(c_id c, existing) \<in> set (t_own (e_state e))" by (rule map_of_SomeD)
  with assms(3) have "typed_entry (c_id c, existing)" by (simp add: list_all_iff)
  then have "s_id existing = Some (c_id c)" by (simp add: typed_entry_def)
  then have "(as_stored c)\<lparr>s_id := s_id existing, s_order := Some k\<rparr> = as_stored c"
    using assms(2) by (simp add: as_stored_def)
  then show ?thesis
    using Some assms(1,2)
    by (simp add: dispatch_def lookup_ordinary assign_ordinary empty_result_def copy_of_def)
qed

lemma set_delete: "set (AList.delete k al) \<subseteq> set al"
  by (induction al) auto

lemma set_update: "set (AList.update k v al) \<subseteq> insert (k, v) (set al)"
  by (induction al) auto

lemma list_all_delete: "list_all P al \<Longrightarrow> list_all P (AList.delete k al)"
  using set_delete [of k al] by (auto simp add: list_all_iff)

lemma list_all_update: "list_all P al \<Longrightarrow> P (k, v) \<Longrightarrow> list_all P (AList.update k v al)"
  using set_update [of k v al] by (auto simp add: list_all_iff)

lemma own_removes:
  "list_all (\<lambda>i. \<not> inherited i) ids \<Longrightarrow>
   t_own (e_state (dispatch_each e (map Remove ids)))
     = foldl (\<lambda>t i. AList.delete i t) (t_own (e_state e)) ids"
  by (induction ids arbitrary: e) (simp_all add: own_Remove)

lemma list_all_removes:
  "list_all P al \<Longrightarrow> list_all P (foldl (\<lambda>t i. AList.delete i t) al ids)"
  by (induction ids arbitrary: al) (simp_all add: list_all_delete)

lemma list_all_renders:
  "list_all P al \<Longrightarrow> list_all (\<lambda>c. P (c_id c, as_stored c)) cs \<Longrightarrow>
   list_all P (foldl (\<lambda>t c. AList.update (c_id c) (as_stored c) t) al cs)"
  by (induction cs arbitrary: al) (simp_all add: list_all_update)

lemma own_renders:
  "list_all (\<lambda>c. \<not> inherited (c_id c) \<and> c_order c \<noteq> None) cs \<Longrightarrow>
   list_all typed_entry (t_own (e_state e)) \<Longrightarrow>
   t_own (e_state (dispatch_each e (map Render cs)))
     = foldl (\<lambda>t c. AList.update (c_id c) (as_stored c) t) (t_own (e_state e)) cs"
proof (induction cs arbitrary: e)
  case Nil
  then show ?case by simp
next
  case (Cons c cs)
  then obtain k where k: "c_order c = Some k" and i: "\<not> inherited (c_id c)"
    and rest: "list_all (\<lambda>c. \<not> inherited (c_id c) \<and> c_order c \<noteq> None) cs" by auto
  have o: "t_own (e_state (snd (dispatch e (Render c))))
           = AList.update (c_id c) (as_stored c) (t_own (e_state e))"
    using i k Cons.prems(2) by (rule own_Render)
  have "list_all typed_entry (t_own (e_state (snd (dispatch e (Render c)))))"
    unfolding o using Cons.prems(2) typed_entry_as_stored by (rule list_all_update)
  from Cons.IH [OF rest this] show ?case by (simp add: o)
qed

subsection \<open>Suggestions on a tree of typed components\<close>

lemma some_err_Inr:
  "(\<forall>x \<in> set xs. \<exists>b. f x = Inr b) \<Longrightarrow> \<exists>b. some_err f xs = Inr b"
  by (induction xs) (auto split: sum.splits bool.splits)

lemma cards_ok_iff: "cards_ok c \<longleftrightarrow> (\<exists>b. cards_are_expense c = Inr b)"
  by (simp add: cards_ok_def split: sum.splits)

lemma cards_ok_attach: "cards_ok (as_stored (attachHandlers c h)) = cards_ok (as_stored c)"
proof -
  have "c_props (attachHandlers c h) ''cards'' = c_props c ''cards''"
    by (simp add: attachHandlers_props)
  then show ?thesis by (simp add: cards_ok_def cards_are_expense_def as_stored_def)
qed

lemma cards_ok_no_cards: "c_props c ''cards'' = None \<Longrightarrow> cards_ok (as_stored c)"
  by (simp add: cards_ok_def cards_are_expense_def as_stored_def)

lemma buildPredictionContext_ok:
  assumes "list_all (\<lambda>c. s_id c \<noteq> None) comps"
  shows "\<exists>ctx. buildPredictionContext comps nt = Inr ctx \<and> currentComponents ctx = comps
               \<and> lastAction ctx = nt"
proof -
  have "\<forall>x \<in> set comps. \<exists>b. id_includes p x = Inr b" for p
    using assms by (auto simp add: list_all_iff id_includes_def)
  then obtain b1 b2 where "some_err (id_includes ''salary'') comps = Inr b1"
    and "some_err (id_includes ''expense'') comps = Inr b2"
    using some_err_Inr by metis
  then show ?thesis by (simp add: buildPredictionContext_def)
qed

text \<open>
  When no card makes \<open>expensesRule\<close> throw, every rule returns, and the second rule
  returns its two suggestions exactly when the comparison cards and chart are shown.
\<close>

lemma rules_ok:
  assumes "list_all cards_ok (currentComponents ctx)"
  shows "\<exists>outs. map (\<lambda>rule. rule ctx) PREDICTION_RULES = map Inr outs
               \<and> getPredictiveActions ctx = Inr (rank (concat (map emitted outs)))
               \<and> length outs = 5
               \<and> outs ! 1 = (if list_ex (\<lambda>c. s_id c = Some ''salary-comparison-cards'')
                                  (currentComponents ctx)
                                \<and> list_ex (\<lambda>c. s_id c = Some ''salary-comparison-chart'')
                                    (currentComponents ctx)
                             then Some salary_suggestions else None)"
proof -
  have "\<forall>x \<in> set (currentComponents ctx). \<exists>b. cards_are_expense x = Inr b"
    using assms by (simp add: list_all_iff cards_ok_iff)
  then obtain b where "some_err cards_are_expense (currentComponents ctx) = Inr b"
    using some_err_Inr by blast
  then have "\<exists>r4. expensesRule ctx = Inr r4"
    by (cases b) (simp_all add: expensesRule_def)
  then obtain r4 where r4: "expensesRule ctx = Inr r4" by blast
  have "\<exists>r1. emptyStateRule ctx = Inr r1" by (simp add: emptyStateRule_def)
  then obtain r1 where r1: "emptyStateRule ctx = Inr r1" by blast
  have "\<exists>r3. afterFormRule ctx = Inr r3" by (simp add: afterFormRule_def Let_def)
  then obtain r3 where r3: "afterFormRule ctx = Inr r3" by blast
  have "\<exists>r5. chartRule ctx = Inr r5" by (simp add: chartRule_def Let_def)
  then obtain r5 where r5: "chartRule ctx = Inr r5" by blast
  let ?r2 = "if list_ex (\<lambda>c. s_id c = Some ''salary-comparison-cards'') (currentComponents ctx)
                \<and> list_ex (\<lambda>c. s_id c = Some ''salary-comparison-chart'') (currentComponents ctx)
             then Some salary_suggestions else None"
  have r2: "salaryComparisonRule ctx = Inr ?r2"
    by (simp add: salaryComparisonRule_def Let_def salary_suggestions_def)
  have m: "map (\<lambda>rule. rule ctx) PREDICTION_RULES = map Inr [r1, ?r2, r3, r4, r5]"
    by (simp add: PREDICTION_RULES_def r1 r2 r3 r4 r5)
  have g: "getPredictiveActions ctx = Inr (rank (concat (map emitted [r1, ?r2, r3, r4, r5])))"
    using run_rules_concat [OF m, of "[]"] by (simp add: getPredictiveActions_def)
  show ?thesis
    by (intro exI [of _ "[r1, ?r2, r3, r4, r5]"] conjI m g) simp_all
qed

lemma rank_top:
  assumes "x \<in> set allS" and "MIN_CONFIDENCE \<le> confidence x"
  shows "rank allS \<noteq> [] \<and> confidence x \<le> confidence (hd (rank allS))"
proof -
  let ?q = "filter (\<lambda>s. confidence s \<ge> MIN_CONFIDENCE) allS"
  let ?s = "sort_key (\<lambda>s. - confidence s) ?q"
  have xs: "x \<in> set ?s" using assms by simp
  then have ne: "?s \<noteq> []" by (metis empty_iff empty_set)
  have r: "rank allS = take MAX_SUGGESTIONS ?s" by (simp add: rank_def)
  have h: "hd (rank allS) = hd ?s" using ne by (simp add: r MAX_SUGGESTIONS_def hd_take)
  have "sorted (map (\<lambda>s. - confidence s) ?s)" by simp
  then have "- confidence (hd ?s) \<le> - confidence x"
    using xs ne by (cases ?s) auto
  with ne show ?thesis by (simp add: h) (simp add: r MAX_SUGGESTIONS_def)
qed

lemma shown_when_salary:
  assumes "x \<in> set allS" and "6 / 10 \<le> confidence x"
  shows "shouldShowPredictions (rank allS)"
proof -
  have "MIN_CONFIDENCE \<le> confidence x" using assms(2) by (simp add: MIN_CONFIDENCE_def)
  from rank_top [OF assms(1) this]
  have ne: "rank allS \<noteq> []" and le: "confidence x \<le> confidence (hd (rank allS))" by simp_all
  from ne have "hd (rank allS) \<in> set (rank allS)" by simp
  moreover from le assms(2) have "6 / 10 \<le> confidence (hd (rank allS))" by simp
  ultimately show ?thesis
    using ne by (auto simp add: shouldShowPredictions_def list_ex_iff)
qed

lemma index_by_type_ok:
  "list_all (\<lambda>c. s_type c \<noteq> None) comps \<Longrightarrow> \<exists>m'. index_by_type m now comps = (None, m')"
  by (induction comps arbitrary: m) auto

lemma indexComponents_ok:
  assumes "list_all (\<lambda>c. s_type c \<noteq> None) comps"
  shows "\<exists>m'. indexComponents m now comps = (None, m')"
proof -
  from index_by_type_ok [OF assms] obtain m1 where "index_by_type m now comps = (None, m1)"
    by blast
  then show ?thesis by (simp add: indexComponents_def Let_def)
qed

subsection \<open>The execution wrapper on a tree of typed components\<close>

lemma executeOrchestratorActions_store:
  "store (snd (executeOrchestratorActions sys now rnd resp)) = store sys"
  by (simp add: executeOrchestratorActions_def Let_def split: sum.splits prod.splits option.splits)

lemma processUserInput_store: "store (snd (processUserInput sys now rnd inp)) = store sys"
proof -
  have "store (snd (executeOrchestratorActions sys now rnd
          (simulateAIResponse sys (resolveReferences sys inp)))) = store sys"
    by (rule executeOrchestratorActions_store)
  then show ?thesis
    by (auto simp add: processUserInput_def split: prod.splits sum.splits)
qed

lemma exec_steps:
  assumes "ui3 = dispatch_each
                   (dispatch_each (dispatch_each (ui sys) (map Remove (o_remove resp)))
                      (map (\<lambda>(i, p). Update i p) (o_update resp)))
                   (map Render (map (\<lambda>cm. attachHandlers cm (handlerRegistry sys)) (o_render resp)))"
    and "buildPredictionContext (filter is_visible (map snd (t_own (e_state ui3)))) (o_notes resp)
           = Inr ctx"
    and "getPredictiveActions ctx = Inr ps"
    and "ui4 = (if shouldShowPredictions ps then snd (dispatch ui3 (Render (predictive_bar ps)))
                else ui3)"
    and "\<And>m :: OrchestratorResponse IntentMemoryEngine.
           \<exists>m'. indexComponents m now (map snd (t_own (e_state ui4))) = (None, m')"
  shows "\<exists>mem2. executeOrchestratorActions sys now rnd resp =
           (Inr \<lparr>a_render = map (\<lambda>cm. attachHandlers cm (handlerRegistry sys)) (o_render resp)
                            @ (if shouldShowPredictions ps then [predictive_bar ps] else []),
                 a_remove = o_remove resp, a_update = o_update resp\<rparr>,
            sys\<lparr>ui := ui4, memory := mem2\<rparr>)"
proof -
  let ?rendered = "map (\<lambda>cm. attachHandlers cm (handlerRegistry sys)) (o_render resp)"
  let ?rendered2 = "?rendered @ (if shouldShowPredictions ps then [predictive_bar ps] else [])"
  let ?mem1 = "snd (recordIntent (memory sys) now rnd now
                  (if o_notes resp = [] then ''User request processed'' else o_notes resp)
                  ''ui_orchestration''
                  (o_remove resp @ map fst (o_update resp) @ map c_id ?rendered2) (Some resp))"
  from assms(5) [of ?mem1] obtain mem2
    where idx: "indexComponents ?mem1 now (map snd (t_own (e_state ui4))) = (None, mem2)"
    by blast
  show ?thesis
  proof (cases "shouldShowPredictions ps")
    case True
    with idx assms(1-4) show ?thesis
      by (intro exI [of _ mem2])
         (simp add: executeOrchestratorActions_def Let_def getState_def copy_of_def)
  next
    case False
    with idx assms(1-4) show ?thesis
      by (intro exI [of _ mem2])
         (simp add: executeOrchestratorActions_def Let_def getState_def copy_of_def)
  qed
qed

lemma entry_ok_values:
  assumes "list_all entry_ok al"
  shows "list_all (\<lambda>c. s_id c \<noteq> None) (filter is_visible (map snd al))"
    and "list_all cards_ok (filter is_visible (map snd al))"
    and "list_all (\<lambda>c. s_type c \<noteq> None) (map snd al)"
    and "list_all typed_entry al"
  using assms by (auto simp add: list_all_iff entry_ok_def typed_entry_def)

lemma entry_ok_descriptor: "cards_ok (as_stored c) \<Longrightarrow> entry_ok (c_id c, as_stored c)"
  by (simp add: entry_ok_def typed_entry_as_stored)

lemma bar_facts:
  "c_id (predictive_bar ps) = ''predictive-actions''"
  "c_type (predictive_bar ps) = ''PredictiveActionBar''"
  "c_order (predictive_bar ps) = Some 999"
  "\<not> inherited ''predictive-actions''"
  "cards_ok (as_stored (predictive_bar ps))"
  by (simp_all add: predictive_bar_def descriptor_def inherited_def Object_prototype_functions_def
      cards_ok_no_cards)

lemma shown_entry:
  assumes "map_of al k = Some v" and "is_visible v" and "s_id v = Some i"
  shows "list_ex (\<lambda>c. s_id c = Some i) (filter is_visible (map snd al))"
proof -
  from assms(1) have "(k, v) \<in> set al" by (rule map_of_SomeD)
  then have "v \<in> set (map snd al)" by force
  with assms(2,3) show ?thesis by (auto simp add: list_ex_iff)
qed

text \<open>
  On a tree of typed components, a response without updates whose ids name no member of
  \<open>Object.prototype\<close> and whose cards do not make the rules throw is executed without an
  exception: the action carries the renders with their handlers, followed by the
  suggestion bar when suggestions are shown, and the removals; the tree stays a tree of
  typed components; the store and the handlers are untouched.
\<close>

lemma executeOrchestratorActions_ok:
  assumes ok: "tree_ok sys" and up: "o_update resp = []"
    and rm: "list_all (\<lambda>i. \<not> inherited i) (o_remove resp)"
    and rn: "list_all (\<lambda>c. \<not> inherited (c_id c) \<and> c_order c \<noteq> None \<and> cards_ok (as_stored c))
               (o_render resp)"
  shows "\<exists>ps sys'.
           executeOrchestratorActions sys now rnd resp =
             (Inr \<lparr>a_render = map (\<lambda>cm. attachHandlers cm (handlerRegistry sys)) (o_render resp)
                              @ (if shouldShowPredictions ps then [predictive_bar ps] else []),
                   a_remove = o_remove resp, a_update = []\<rparr>, sys')
         \<and> (list_ex (\<lambda>c. s_id c = Some ''salary-comparison-cards'')
               (filter is_visible (map snd (edited_tree sys resp)))
            \<and> list_ex (\<lambda>c. s_id c = Some ''salary-comparison-chart'')
                (filter is_visible (map snd (edited_tree sys resp)))
            \<longrightarrow> shouldShowPredictions ps)
         \<and> tree_ok sys' \<and> store sys' = store sys \<and> handlerRegistry sys' = handlerRegistry sys
         \<and> mock_data sys' = mock_data sys
         \<and> t_own (e_state (ui sys'))
             = (if shouldShowPredictions ps
                then AList.update ''predictive-actions'' (as_stored (predictive_bar ps))
                       (edited_tree sys resp)
                else edited_tree sys resp)"
proof -
  let ?h = "handlerRegistry sys"
  let ?rendered = "map (\<lambda>cm. attachHandlers cm ?h) (o_render resp)"
  let ?T = "edited_tree sys resp"
  define ui1 where "ui1 = dispatch_each (ui sys) (map Remove (o_remove resp))"
  define ui3 where "ui3 = dispatch_each
                   (dispatch_each (dispatch_each (ui sys) (map Remove (o_remove resp)))
                      (map (\<lambda>(i, p). Update i p) (o_update resp)))
                   (map Render ?rendered)"
  have ui3: "ui3 = dispatch_each ui1 (map Render ?rendered)"
    by (simp add: ui3_def ui1_def up)
  from ok have ok0: "list_all entry_ok (t_own (e_state (ui sys)))" by (simp add: tree_ok_def)
  have own1: "t_own (e_state ui1) = foldl (\<lambda>t i. AList.delete i t) (t_own (e_state (ui sys))) (o_remove resp)"
    unfolding ui1_def using rm by (rule own_removes)
  have ok1: "list_all entry_ok (t_own (e_state ui1))"
    unfolding own1 using ok0 by (rule list_all_removes)
  have rn1: "list_all (\<lambda>c. \<not> inherited (c_id c) \<and> c_order c \<noteq> None) ?rendered"
    using rn by (simp add: list_all_iff)
  have rn2: "list_all (\<lambda>c. entry_ok (c_id c, as_stored c)) ?rendered"
    using rn by (simp add: list_all_iff entry_ok_def typed_entry_as_stored cards_ok_attach
        del: attachHandlers_same)
  have own3: "t_own (e_state ui3) = ?T"
    unfolding ui3 edited_tree_def own1 [symmetric]
    using rn1 entry_ok_values(4) [OF ok1] by (rule own_renders)
  have ok3: "list_all entry_ok ?T"
    unfolding edited_tree_def own1 [symmetric] using ok1 rn2 by (rule list_all_renders)
  from buildPredictionContext_ok [OF entry_ok_values(1) [OF ok3], of "o_notes resp"]
  obtain ctx where bc: "buildPredictionContext (filter is_visible (map snd ?T)) (o_notes resp) = Inr ctx"
    and cc: "currentComponents ctx = filter is_visible (map snd ?T)" by blast
  have "list_all cards_ok (currentComponents ctx)"
    unfolding cc using ok3 by (rule entry_ok_values(2))
  from rules_ok [OF this]
  obtain outs where gp: "getPredictiveActions ctx = Inr (rank (concat (map emitted outs)))"
    and len: "length outs = 5"
    and o1: "outs ! 1 = (if list_ex (\<lambda>c. s_id c = Some ''salary-comparison-cards'')
                                  (currentComponents ctx)
                                \<and> list_ex (\<lambda>c. s_id c = Some ''salary-comparison-chart'')
                                    (currentComponents ctx)
                             then Some salary_suggestions else None)" by blast
  define ps where "ps = rank (concat (map emitted outs))"
  define ui4 where "ui4 = (if shouldShowPredictions ps
                           then snd (dispatch ui3 (Render (predictive_bar ps))) else ui3)"
  have own4: "t_own (e_state ui4)
              = (if shouldShowPredictions ps
                 then AList.update ''predictive-actions'' (as_stored (predictive_bar ps)) ?T else ?T)"
    using own_Render [of "predictive_bar ps" 999 ui3] entry_ok_values(4) [OF ok3]
    by (simp add: ui4_def own3 bar_facts)
  have ok4: "list_all entry_ok (t_own (e_state ui4))"
    unfolding own4
    using list_all_update [OF ok3, of "''predictive-actions''" "as_stored (predictive_bar ps)"]
      entry_ok_descriptor [of "predictive_bar ps"] ok3
    by (simp add: bar_facts)
  have idx: "\<exists>m'. indexComponents m now (map snd (t_own (e_state ui4))) = (None, m')"
    for m :: "OrchestratorResponse IntentMemoryEngine"
    by (rule indexComponents_ok) (rule entry_ok_values(3) [OF ok4])
  have bc3: "buildPredictionContext (filter is_visible (map snd (t_own (e_state ui3)))) (o_notes resp)
               = Inr ctx"
    by (simp only: own3 bc)
  have gp3: "getPredictiveActions ctx = Inr ps" by (simp only: ps_def gp)
  have "\<exists>mem2. executeOrchestratorActions sys now rnd resp =
           (Inr \<lparr>a_render = ?rendered @ (if shouldShowPredictions ps then [predictive_bar ps] else []),
                 a_remove = o_remove resp, a_update = o_update resp\<rparr>,
            sys\<lparr>ui := ui4, memory := mem2\<rparr>)"
    using ui3_def bc3 gp3 ui4_def idx by (rule exec_steps)
  then obtain mem2 where ex: "executeOrchestratorActions sys now rnd resp =
           (Inr \<lparr>a_render = ?rendered @ (if shouldShowPredictions ps then [predictive_bar ps] else []),
                 a_remove = o_remove resp, a_update = o_update resp\<rparr>,
            sys\<lparr>ui := ui4, memory := mem2\<rparr>)"
    by blast
  have shown: "shouldShowPredictions ps"
    if "list_ex (\<lambda>c. s_id c = Some ''salary-comparison-cards'') (filter is_visible (map snd ?T))
        \<and> list_ex (\<lambda>c. s_id c = Some ''salary-comparison-chart'') (filter is_visible (map snd ?T))"
  proof -
    from that o1 have "outs ! 1 = Some salary_suggestions" by (simp add: cc)
    moreover have "outs ! 1 \<in> set outs" using len by simp
    ultimately have "Some salary_suggestions \<in> set outs" by simp
    then have "set salary_suggestions \<subseteq> set (concat (map emitted outs))"
      by (force simp add: emitted_def)
    then have "\<lparr>label = ''Export Report'', p_input = ''Export my salary comparison as PDF'',
                 confidence = 7 / 10, reason = Some ''User just viewed salary data, may want to save it''\<rparr>
               \<in> set (concat (map emitted outs))"
      by (auto simp add: salary_suggestions_def)
    from shown_when_salary [OF this] show ?thesis by (simp add: ps_def)
  qed
  show ?thesis
    using shown ok4 own4
    by (intro exI [of _ ps] exI [of _ "sys\<lparr>ui := ui4, memory := mem2\<rparr>"])
       (simp add: ex up tree_ok_def)
qed

lemma resolveReferences_no_refs:
  "extractReferences inp = [] \<Longrightarrow> resolveReferences sys inp = inp"
  by (simp add: resolveReferences_def resolveReferencesInText_def uniq_def Let_def)

lemma processUserInput_ok:
  assumes ok: "tree_ok sys" and nb: "trim inp \<noteq> []" and nr: "extractReferences inp = []"
    and up: "o_update (simulateAIResponse sys inp) = []"
    and rm: "list_all (\<lambda>i. \<not> inherited i) (o_remove (simulateAIResponse sys inp))"
    and rn: "list_all (\<lambda>c. \<not> inherited (c_id c) \<and> c_order c \<noteq> None \<and> cards_ok (as_stored c))
               (o_render (simulateAIResponse sys inp))"
  shows "\<exists>ps sys'.
           processUserInput sys now rnd inp =
             (\<lparr>a_render = map (\<lambda>cm. attachHandlers cm (handlerRegistry sys))
                              (o_render (simulateAIResponse sys inp))
                            @ (if shouldShowPredictions ps then [predictive_bar ps] else []),
               a_remove = o_remove (simulateAIResponse sys inp), a_update = []\<rparr>, sys')
         \<and> (list_ex (\<lambda>c. s_id c = Some ''salary-comparison-cards'')
               (filter is_visible (map snd (edited_tree sys (simulateAIResponse sys inp))))
            \<and> list_ex (\<lambda>c. s_id c = Some ''salary-comparison-chart'')
                (filter is_visible (map snd (edited_tree sys (simulateAIResponse sys inp))))
            \<longrightarrow> shouldShowPredictions ps)
         \<and> tree_ok sys' \<and> store sys' = store sys \<and> handlerRegistry sys' = handlerRegistry sys
         \<and> mock_data sys' = mock_data sys
         \<and> t_own (e_state (ui sys'))
             = (if shouldShowPredictions ps
                then AList.update ''predictive-actions'' (as_stored (predictive_bar ps))
                       (edited_tree sys (simulateAIResponse sys inp))
                else edited_tree sys (simulateAIResponse sys inp))"
proof -
  have rr: "resolveReferences sys inp = inp" using nr by (rule resolveReferences_no_refs)
  have ne: "inp \<noteq> []" using nb by (auto simp add: trim_def strip_leading_Nil)
  from executeOrchestratorActions_ok [OF ok up rm rn, of now rnd]
  obtain ps sys' where ex: "executeOrchestratorActions sys now rnd (simulateAIResponse sys inp) =
             (Inr \<lparr>a_render = map (\<lambda>cm. attachHandlers cm (handlerRegistry sys))
                              (o_render (simulateAIResponse sys inp))
                            @ (if shouldShowPredictions ps then [predictive_bar ps] else []),
                   a_remove = o_remove (simulateAIResponse sys inp), a_update = []\<rparr>, sys')"
    and rest: "(list_ex (\<lambda>c. s_id c = Some ''salary-comparison-cards'')
               (filter is_visible (map snd (edited_tree sys (simulateAIResponse sys inp))))
            \<and> list_ex (\<lambda>c. s_id c = Some ''salary-comparison-chart'')
                (filter is_visible (map snd (edited_tree sys (simulateAIResponse sys inp))))
            \<longrightarrow> shouldShowPredictions ps)
         \<and> tree_ok sys' \<and> store sys' = store sys \<and> handlerRegistry sys' = handlerRegistry sys
         \<and> mock_data sys' = mock_data sys
         \<and> t_own (e_state (ui sys'))
             = (if shouldShowPredictions ps
                then AList.update ''predictive-actions'' (as_stored (predictive_bar ps))
                       (edited_tree sys (simulateAIResponse sys inp))
                else edited_tree sys (simulateAIResponse sys inp))"
    by blast
  have "processUserInput sys now rnd inp =
             (\<lparr>a_render = map (\<lambda>cm. attachHandlers cm (handlerRegistry sys))
                              (o_render (simulateAIResponse sys inp))
                            @ (if shouldShowPredictions ps then [predictive_bar ps] else []),
               a_remove = o_remove (simulateAIResponse sys inp), a_update = []\<rparr>, sys')"
    using ne nb by (simp add: processUserInput_def rr ex)
  with rest show ?thesis by blast
qed

subsection \<open>Destructive requests\<close>

lemmas scan_defs = extractReferences_def uniq_def match_word_def match_the_def match_position_def
  prevIsWord_def endBoundary_def isWordChar_def Let_def

lemma extract_show: "extractReferences ''show salary comparison'' = []"
  by (simp add: scan_defs)

lemma extract_form:
  "extractReferences ''Form submitted with salary.lastMonth: 5000, salary.currentMonth: 5500'' = []"
  by (simp add: scan_defs)

lemma extract_delete_show:
  "extractReferences ''delete all my data and show salary comparison'' = []"
  by (simp add: scan_defs)

lemma extract_delete_expenses:
  "extractReferences ''delete all my data including expenses'' = []"
  by (simp add: scan_defs)

lemma ids_not_inherited:
  "\<not> inherited ''salary-data-form''"
  "\<not> inherited ''salary-comparison-cards''"
  "\<not> inherited ''salary-comparison-chart''"
  "\<not> inherited ''expense-data-form''"
  "\<not> inherited ''expense-summary''"
  "\<not> inherited ''expense-breakdown''"
  by (simp_all add: inherited_def Object_prototype_functions_def)

lemma simulate_salary_form:
  assumes "is_salary_request (toLowerCase inp)" and "\<not> hasSalaryData (store sys)"
  shows "o_remove (simulateAIResponse sys inp) = []"
    and "o_update (simulateAIResponse sys inp) = []"
    and "map c_id (o_render (simulateAIResponse sys inp)) = [''salary-data-form'']"
    and "map c_type (o_render (simulateAIResponse sys inp)) = [''InputForm'']"
    and "list_all (\<lambda>c. \<not> inherited (c_id c) \<and> c_order c \<noteq> None \<and> cards_ok (as_stored c))
           (o_render (simulateAIResponse sys inp))"
  using assms
  by (simp_all add: simulateAIResponse_def Let_def needsSalaryData_def descriptor_def
      ids_not_inherited cards_ok_no_cards)

lemma expenses_total_exists: "ds_exists ds ''expenses.total''"
  by (simp add: ds_exists_def ds_has_def ds_get_def COMPUTABLE_FIELDS_def expenses_total_def)

lemma expense_cards_ok:
  "cards_ok (as_stored (descriptor i t
     [(''cards'', JArr [JObj [(''title'', JStr ''Total Expenses''), (''value'', v1), (''trend'', w1)],
                        JObj [(''title'', JStr ''Top Category''), (''value'', v2), (''trend'', w2)]])] k))"
  by (simp add: cards_ok_def cards_are_expense_def as_stored_def descriptor_def card_is_expense_def
      toLowerCase_def lower_char_def includes_str_def sublist_code)

lemma simulate_expenses:
  assumes "\<not> is_salary_request (toLowerCase inp)"
    and "\<not> is_form_completion (toLowerCase inp) (store sys)"
    and "\<not> is_export_request (toLowerCase inp)" and "is_expense_request (toLowerCase inp)"
  shows "o_remove (simulateAIResponse sys inp) = [''expense-data-form'']"
    and "o_update (simulateAIResponse sys inp) = []"
    and "map c_id (o_render (simulateAIResponse sys inp)) = [''expense-summary'', ''expense-breakdown'']"
    and "map c_type (o_render (simulateAIResponse sys inp)) = [''SummaryCards'', ''InsightSummary'']"
    and "list_all (\<lambda>c. \<not> inherited (c_id c) \<and> c_order c \<noteq> None \<and> cards_ok (as_stored c))
           (o_render (simulateAIResponse sys inp))"
proof -
  have r: "simulateAIResponse sys inp =
     (let totalExpenses = (case ds_get (store sys) ''expenses.total'' of JNull \<Rightarrow> JNum 0 | t \<Rightarrow> t);
          category = (case ds_get (store sys) ''expenses.category'' of JNull \<Rightarrow> JStr ''Other'' | t \<Rightarrow> t)
      in
      \<lparr>o_render =
         [descriptor ''expense-summary'' ''SummaryCards''
            [(''cards'', JArr
                [JObj [(''title'', JStr ''Total Expenses''),
                       (''value'', JStr (rupee @ js_String totalExpenses)),
                       (''trend'', JStr ''neutral'')],
                 JObj [(''title'', JStr ''Top Category''),
                       (''value'', JStr (js_String category)),
                       (''trend'', JStr ''neutral'')]])] 0,
          descriptor ''expense-breakdown'' ''InsightSummary''
            [(''insights'', JArr
                [JObj [(''title'', JStr ''Expense Breakdown''),
                       (''description'',
                        JStr (''Your highest spending category is '' @ js_String category
                              @ '' at '' @ rupee @ js_String totalExpenses
                              @ ''. Consider tracking individual categories for better insights.'')),
                       (''type'', JStr ''info'')]])] 1],
       o_remove = [''expense-data-form''], o_update = [],
       o_notes = ''Displayed expense breakdown''\<rparr>)"
    using assms by (simp add: simulateAIResponse_def Let_def expenses_total_exists)
  have b: "cards_ok (as_stored (descriptor ''expense-breakdown'' ''InsightSummary''
            [(''insights'', x)] 1))" for x
    by (rule cards_ok_no_cards) (simp add: descriptor_def)
  show "o_remove (simulateAIResponse sys inp) = [''expense-data-form'']"
    and "o_update (simulateAIResponse sys inp) = []"
    and "map c_id (o_render (simulateAIResponse sys inp)) = [''expense-summary'', ''expense-breakdown'']"
    and "map c_type (o_render (simulateAIResponse sys inp)) = [''SummaryCards'', ''InsightSummary'']"
    by (simp_all add: r Let_def descriptor_def)
  show "list_all (\<lambda>c. \<not> inherited (c_id c) \<and> c_order c \<noteq> None \<and> cards_ok (as_stored c))
           (o_render (simulateAIResponse sys inp))"
    unfolding r Let_def
    by (simp add: expense_cards_ok b) (simp add: descriptor_def ids_not_inherited)
qed

lemma show_request:
  "is_salary_request (toLowerCase ''show salary comparison'')"
  "trim ''show salary comparison'' \<noteq> []"
proof -
  show "is_salary_request (toLowerCase ''show salary comparison'')"
    by (simp add: toLowerCase_def lower_char_def is_salary_request_def includes_str_def sublist_code)
  have "trim ''show salary comparison'' = ''show salary comparison''"
    by (rule trim_unchanged) (simp_all add: white_space_def)
  then show "trim ''show salary comparison'' \<noteq> []" by simp
qed

lemma delete_show_request:
  "is_salary_request (toLowerCase ''delete all my data and show salary comparison'')"
  "trim ''delete all my data and show salary comparison'' \<noteq> []"
  "includes_str (toLowerCase ''delete all my data and show salary comparison'') ''delete all my data''"
proof -
  show "is_salary_request (toLowerCase ''delete all my data and show salary comparison'')"
    "includes_str (toLowerCase ''delete all my data and show salary comparison'') ''delete all my data''"
    by (simp_all add: toLowerCase_def lower_char_def is_salary_request_def includes_str_def
        sublist_code)
  have "trim ''delete all my data and show salary comparison''
        = ''delete all my data and show salary comparison''"
    by (rule trim_unchanged) (simp_all add: white_space_def)
  then show "trim ''delete all my data and show salary comparison'' \<noteq> []" by simp
qed

lemma delete_expenses_request:
  "toLowerCase ''delete all my data including expenses'' = ''delete all my data including expenses''"
  "includes_str ''delete all my data including expenses'' ''delete all my data''"
  "\<not> is_salary_request ''delete all my data including expenses''"
  "\<not> is_form_completion ''delete all my data including expenses'' ds"
  "\<not> is_export_request ''delete all my data including expenses''"
  "is_expense_request ''delete all my data including expenses''"
  "trim ''delete all my data including expenses'' \<noteq> []"
proof -
  show "toLowerCase ''delete all my data including expenses'' = ''delete all my data including expenses''"
    "includes_str ''delete all my data including expenses'' ''delete all my data''"
    "\<not> is_salary_request ''delete all my data including expenses''"
    "\<not> is_form_completion ''delete all my data including expenses'' ds"
    "\<not> is_export_request ''delete all my data including expenses''"
    "is_expense_request ''delete all my data including expenses''"
    by (simp_all add: toLowerCase_def lower_char_def is_salary_request_def is_form_completion_def
        is_export_request_def is_expense_request_def includes_str_def sublist_code)
  have "trim ''delete all my data including expenses'' = ''delete all my data including expenses''"
    by (rule trim_unchanged) (simp_all add: white_space_def)
  then show "trim ''delete all my data including expenses'' \<noteq> []" by simp
qed

lemma initial_System_facts:
  "tree_ok (initial_System cm lm t)"
  "\<not> hasSalaryData (store (initial_System cm lm t))"
proof -
  have "''salary.lastMonth'' \<in> set USER_REQUIRED_FIELDS" by (simp add: USER_REQUIRED_FIELDS_def)
  then have "ds_get (new_DataStore (MOCK_DATA cm lm) t) ''salary.lastMonth'' = JNull"
    by (simp add: ds_get_absent new_DataStore_required)
  then show "\<not> hasSalaryData (store (initial_System cm lm t))"
    by (simp add: initial_System_def hasSalaryData_def getNumber_def numOf_def)
qed (simp add: initial_System_def new_UIStateEngine_def empty_tree_def tree_ok_def)

lemma singleton_by_id:
  assumes "map c_id xs = [i]" and "map c_type xs = [t]"
  shows "\<exists>c. xs = [c] \<and> c_id c = i \<and> c_type c = t"
  using assms by (cases xs) auto

text \<open>
  A salary request on a store without the salary facts, on any tree of typed components:
  the action renders the form, followed at most by the suggestion bar, and removes
  nothing.
\<close>

lemma salary_form_step:
  assumes "tree_ok sys" and "\<not> hasSalaryData (store sys)"
    and "extractReferences inp = []" and "is_salary_request (toLowerCase inp)"
    and "trim inp \<noteq> []"
  shows "\<exists>c ps sys'. processUserInput sys now rnd inp
              = (\<lparr>a_render = [c] @ (if shouldShowPredictions ps then [predictive_bar ps] else []),
                  a_remove = [], a_update = []\<rparr>, sys')
           \<and> c_id c = ''salary-data-form'' \<and> c_type c = ''InputForm''
           \<and> tree_ok sys' \<and> store sys' = store sys"
proof -
  let ?resp = "simulateAIResponse sys inp"
  note s = simulate_salary_form [OF assms(4) assms(2)]
  have rm: "list_all (\<lambda>i. \<not> inherited i) (o_remove ?resp)" by (simp add: s(1))
  from processUserInput_ok [OF assms(1) assms(5) assms(3) s(2) rm s(5), of now rnd]
  obtain ps sys' where p: "processUserInput sys now rnd inp =
             (\<lparr>a_render = map (\<lambda>cm. attachHandlers cm (handlerRegistry sys)) (o_render ?resp)
                            @ (if shouldShowPredictions ps then [predictive_bar ps] else []),
               a_remove = o_remove ?resp, a_update = []\<rparr>, sys')"
    and t: "tree_ok sys'" and st: "store sys' = store sys" by blast
  from singleton_by_id [OF s(3) s(4)] obtain c0 where c0: "o_render ?resp = [c0]"
    and i0: "c_id c0 = ''salary-data-form''" and t0: "c_type c0 = ''InputForm''" by blast
  show ?thesis
    using t st i0 t0
    by (intro exI [of _ "attachHandlers c0 (handlerRegistry sys)"] exI [of _ ps] exI [of _ sys'])
       (simp add: p c0 s(1))
qed

lemma expense_step:
  assumes "tree_ok sys" and "extractReferences inp = []" and "trim inp \<noteq> []"
    and "\<not> is_salary_request (toLowerCase inp)"
    and "\<not> is_form_completion (toLowerCase inp) (store sys)"
    and "\<not> is_export_request (toLowerCase inp)" and "is_expense_request (toLowerCase inp)"
  shows "\<exists>s b ps. fst (processUserInput sys now rnd inp)
              = \<lparr>a_render = [s, b] @ (if shouldShowPredictions ps then [predictive_bar ps] else []),
                 a_remove = [''expense-data-form''], a_update = []\<rparr>
           \<and> c_type s = ''SummaryCards'' \<and> c_type b = ''InsightSummary''"
proof -
  let ?resp = "simulateAIResponse sys inp"
  note s = simulate_expenses [OF assms(4-7)]
  have rm: "list_all (\<lambda>i. \<not> inherited i) (o_remove ?resp)" by (simp add: s(1) ids_not_inherited)
  from processUserInput_ok [OF assms(1) assms(3) assms(2) s(2) rm s(5), of now rnd]
  obtain ps sys' where p: "processUserInput sys now rnd inp =
             (\<lparr>a_render = map (\<lambda>cm. attachHandlers cm (handlerRegistry sys)) (o_render ?resp)
                            @ (if shouldShowPredictions ps then [predictive_bar ps] else []),
               a_remove = o_remove ?resp, a_update = []\<rparr>, sys')" by blast
  from s(4) obtain c1 c2 where c: "o_render ?resp = [c1, c2]"
    and t1: "c_type c1 = ''SummaryCards''" and t2: "c_type c2 = ''InsightSummary''"
    by (cases "o_render ?resp"; cases "tl (o_render ?resp)") auto
  show ?thesis
    using t1 t2
    by (intro exI [of _ "attachHandlers c1 (handlerRegistry sys)"]
          exI [of _ "attachHandlers c2 (handlerRegistry sys)"] exI [of _ ps])
       (simp add: p c s(1))
qed

text \<open>
  The confirm call for the data-deletion dialog does not write to the store either: its
  id starts with \<open>confirm-\<close>, so the first branch of \<open>confirmDestructiveAction\<close> is taken
  and the branch that calls \<open>clear\<close> is never reached.
\<close>

lemma confirm_data_deletion_keeps_store:
  "store (snd (confirmDestructiveAction sys now ''confirm-data-deletion'')) = store sys"
  by (simp add: confirmDestructiveAction_def startsWith_def Let_def)

lemma cancel_keeps_store: "store (snd (cancelDestructiveAction sys actionId)) = store sys"
  by (simp add: cancelDestructiveAction_def)

text \<open>
  C1 does not hold of the code. The policy tries its branches in order, and the test for
  destructive requests (under the comment ``never execute directly, always show
  guardrail'') comes after the branches for salary comparison, form completion, export,
  expenses and clear, each of which returns. On a new system, the input
  \<open>delete all my data and show salary comparison\<close> is answered with the salary form and
  no dialog, and the input \<open>delete all my data including expenses\<close> is answered with the
  expense breakdown, no dialog, and an immediate removal of \<open>expense-data-form\<close>.
\<close>

theorem C1_destructive_request_not_guarded:
  "includes_str (toLowerCase ''delete all my data and show salary comparison'') ''delete all my data''
   \<and> filter (\<lambda>c. c_type c = ''GuardrailModal'')
        (a_render (fst (processUserInput (initial_System ''2026-11'' ''2026-10'' 0) 10 ''r1''
          ''delete all my data and show salary comparison''))) = []
   \<and> map c_id (filter (\<lambda>c. c_type c = ''InputForm'')
        (a_render (fst (processUserInput (initial_System ''2026-11'' ''2026-10'' 0) 10 ''r1''
          ''delete all my data and show salary comparison'')))) = [''salary-data-form'']
   \<and> includes_str (toLowerCase ''delete all my data including expenses'') ''delete all my data''
   \<and> filter (\<lambda>c. c_type c = ''GuardrailModal'')
        (a_render (fst (processUserInput (initial_System ''2026-11'' ''2026-10'' 0) 10 ''r1''
          ''delete all my data including expenses''))) = []
   \<and> take 2 (map c_type
        (a_render (fst (processUserInput (initial_System ''2026-11'' ''2026-10'' 0) 10 ''r1''
          ''delete all my data including expenses'')))) = [''SummaryCards'', ''InsightSummary'']
   \<and> a_remove (fst (processUserInput (initial_System ''2026-11'' ''2026-10'' 0) 10 ''r1''
          ''delete all my data including expenses'')) = [''expense-data-form'']"
proof -
  let ?S = "initial_System ''2026-11'' ''2026-10'' 0"
  have bar: "c_type (predictive_bar ps) = ''PredictiveActionBar''" for ps
    by (rule bar_facts)
  note f = initial_System_facts [of "''2026-11''" "''2026-10''" 0]
  from salary_form_step [OF f extract_delete_show delete_show_request(1,2),
      where now = 10 and rnd = "''r1''"]
  obtain c ps where "fst (processUserInput ?S 10 ''r1'' ''delete all my data and show salary comparison'')
        = \<lparr>a_render = [c] @ (if shouldShowPredictions ps then [predictive_bar ps] else []),
           a_remove = [], a_update = []\<rparr>"
    and "c_id c = ''salary-data-form''" and "c_type c = ''InputForm''" by force
  then have a: "filter (\<lambda>c. c_type c = ''GuardrailModal'')
        (a_render (fst (processUserInput ?S 10 ''r1''
          ''delete all my data and show salary comparison''))) = []
   \<and> map c_id (filter (\<lambda>c. c_type c = ''InputForm'')
        (a_render (fst (processUserInput ?S 10 ''r1''
          ''delete all my data and show salary comparison'')))) = [''salary-data-form'']"
    by (simp add: bar)
  have e: "extractReferences ''delete all my data including expenses'' = []"
    by (rule extract_delete_expenses)
  from expense_step [OF f(1) e delete_expenses_request(7),
      where now = 10 and rnd = "''r1''"]
  obtain s b ps' where "fst (processUserInput ?S 10 ''r1'' ''delete all my data including expenses'')
              = \<lparr>a_render = [s, b] @ (if shouldShowPredictions ps' then [predictive_bar ps'] else []),
                 a_remove = [''expense-data-form''], a_update = []\<rparr>"
    and "c_type s = ''SummaryCards''" and "c_type b = ''InsightSummary''"
    by (auto simp add: delete_expenses_request)
  then have b: "filter (\<lambda>c. c_type c = ''GuardrailModal'')
        (a_render (fst (processUserInput ?S 10 ''r1'' ''delete all my data including expenses''))) = []
   \<and> take 2 (map c_type
        (a_render (fst (processUserInput ?S 10 ''r1'' ''delete all my data including expenses''))))
       = [''SummaryCards'', ''InsightSummary'']
   \<and> a_remove (fst (processUserInput ?S 10 ''r1'' ''delete all my data including expenses''))
       = [''expense-data-form'']"
    by (simp add: bar)
  from a b delete_show_request(3) delete_expenses_request(1,2) show ?thesis by simp
qed

subsection \<open>The salary comparison, end to end\<close>

lemma salary_store_stored:
  "getStored (salary_store ds now) ''salary.lastMonth'' = JNum 5000"
  "getStored (salary_store ds now) ''salary.currentMonth'' = JNum 5500"
  by (simp_all add: salary_store_def ds_set_def getStored_def update_conv')

lemma salary_store_numbers:
  "getNumber (salary_store ds now) ''salary.lastMonth'' = Some 5000"
  "getNumber (salary_store ds now) ''salary.currentMonth'' = Some 5500"
  "getNumber (salary_store ds now) ''salary.change'' = Some 500"
  "getNumber (salary_store ds now) ''salary.changePercent'' = Some 10"
  "ds_get (salary_store ds now) ''salary.trend'' = JStr ''up''"
  by (simp_all add: getNumber_def ds_get_def COMPUTABLE_FIELDS_def salary_store_stored numOf_def
      salary_change_def salary_changePercent_def salary_trend_def)

lemma salary_store_has: "hasSalaryData (salary_store ds now)"
  by (simp add: hasSalaryData_def salary_store_numbers)

lemma str_500: "numberToString 500 = ''500''"
  by (simp add: numberToString_def decimal_of_nat.simps digit_char_def)

lemma str_5000: "numberToString 5000 = ''5000''"
  by (simp add: numberToString_def decimal_of_nat.simps digit_char_def)

lemma str_5500: "numberToString 5500 = ''5500''"
  by (simp add: numberToString_def decimal_of_nat.simps digit_char_def)

lemma fixed_10: "toFixed1 10 = ''10.0''"
proof -
  have "\<lfloor>\<bar>10::rat\<bar> * 10 + 1 / 2\<rfloor> = 100" by (simp add: floor_eq_iff)
  then show ?thesis
    by (simp add: toFixed1_def Let_def decimal_of_nat.simps digit_char_def)
qed

lemma salary_cards:
  "getSalaryCardsData (salary_store ds now) =
     [JObj [(''title'', JStr ''Last Month''), (''value'', JNum 5000), (''trend'', JStr ''neutral'')],
      JObj [(''title'', JStr ''Current Month''), (''value'', JNum 5500), (''trend'', JStr ''neutral'')],
      JObj [(''title'', JStr ''Difference''), (''value'', JStr ''+$500''), (''trend'', JStr ''up'')],
      JObj [(''title'', JStr ''Change %''), (''value'', JStr ''10.0%''), (''trend'', JStr ''up'')]]"
  by (simp add: getSalaryCardsData_def getSalaryComparisonData_def salary_store_numbers Let_def
      orZero_def str_500 fixed_10)

lemma formData_mapped:
  "fold (\<lambda>(key, v) acc. AList.update (mapFormFieldToDataKey key) v acc)
     [(''lastMonthSalary'', JNum 5000), (''currentMonthSalary'', JNum 5500)] []
   = [(''salary.lastMonth'', JNum 5000), (''salary.currentMonth'', JNum 5500)]"
  by (simp add: mapFormFieldToDataKey_def)

lemma formData_stored:
  "processFormData ds now [(''salary.lastMonth'', JNum 5000), (''salary.currentMonth'', JNum 5500)]
   = salary_store ds now"
  by (simp add: processFormData_def salary_store_def)

lemma formData_context:
  "''Form submitted with '' @ join '', '' (map (\<lambda>(k, v). k @ '': '' @ js_String v)
       [(''salary.lastMonth'', JNum 5000), (''salary.currentMonth'', JNum 5500)])
   = ''Form submitted with salary.lastMonth: 5000, salary.currentMonth: 5500''"
  by (simp add: str_5000 str_5500)

lemma handleFormSubmission_salary:
  "handleFormSubmission sys now rnd [(''lastMonthSalary'', JNum 5000), (''currentMonthSalary'', JNum 5500)]
   = processUserInput (sys\<lparr>store := salary_store (store sys) now\<rparr>) now rnd
       ''Form submitted with salary.lastMonth: 5000, salary.currentMonth: 5500''"
  unfolding handleFormSubmission_def formData_mapped Let_def formData_stored formData_context ..

lemma lower_form:
  "toLowerCase form_text = ''form submitted with salary.lastmonth: 5000, salary.currentmonth: 5500''"
  by (simp add: form_text_def toLowerCase_def lower_char_def)

lemma form_not_salary: "\<not> is_salary_request (toLowerCase form_text)"
  unfolding lower_form by (simp add: is_salary_request_def includes_str_def sublist_code)

lemma form_is_completion: "is_form_completion (toLowerCase form_text) (salary_store ds now)"
  unfolding lower_form
  by (simp add: is_form_completion_def includes_str_def sublist_code salary_store_has)


lemma form_not_blank: "trim form_text \<noteq> []"
proof -
  have "trim form_text = form_text"
    unfolding form_text_def by (rule trim_unchanged) (simp_all add: white_space_def)
  then show ?thesis by (simp add: form_text_def)
qed

lemma salary_render: "salary_comparison_render (salary_store ds now) = [cards0, chart0]"
  by (simp add: salary_comparison_render_def Let_def salary_cards getSalaryComparisonData_def
      salary_store_numbers orZero_def cards0_def chart0_def)

lemma simulate_form:
  "simulateAIResponse (sys\<lparr>store := salary_store ds now\<rparr>) form_text =
     \<lparr>o_render = [cards0, chart0], o_remove = [''salary-data-form''], o_update = [],
      o_notes = ''Processed salary data and displayed comparison''\<rparr>"
  using form_not_salary form_is_completion [of ds now]
  by (simp add: simulateAIResponse_def Let_def salary_render)

lemma cards0_ok: "cards_ok (as_stored cards0)"
  by (simp add: cards_ok_def cards_are_expense_def as_stored_def cards0_def descriptor_def
      card_is_expense_def toLowerCase_def lower_char_def includes_str_def sublist_code)

lemma chart0_ok: "cards_ok (as_stored chart0)"
  by (rule cards_ok_no_cards) (simp add: chart0_def descriptor_def)

lemma comparison_facts:
  "c_id cards0 = ''salary-comparison-cards''" "c_type cards0 = ''SummaryCards''"
  "c_order cards0 = Some 0" "c_visible cards0"
  "c_id chart0 = ''salary-comparison-chart''" "c_type chart0 = ''ChartView''"
  "c_order chart0 = Some 1" "c_visible chart0"
  "c_props chart0 ''data'' = Some (JArr [JNum 5000, JNum 5500])"
  by (simp_all add: cards0_def chart0_def descriptor_def)

lemma tree_ok_store [simp]: "tree_ok (sys\<lparr>store := s\<rparr>) = tree_ok sys"
  by (simp add: tree_ok_def)

text \<open>
  Submitting the form with 5000 and 5500 on any tree of typed components: the action
  removes the form and renders the cards, the chart and the suggestion bar, and the tree
  is the old one without the form and with these three components.
\<close>

lemma salary_submit_step:
  assumes "tree_ok sys"
  shows "\<exists>ps sys'.
           handleFormSubmission sys now rnd
               [(''lastMonthSalary'', JNum 5000), (''currentMonthSalary'', JNum 5500)]
             = (\<lparr>a_render = [attachHandlers cards0 (handlerRegistry sys),
                             attachHandlers chart0 (handlerRegistry sys), predictive_bar ps],
                 a_remove = [''salary-data-form''], a_update = []\<rparr>, sys')
         \<and> t_own (e_state (ui sys'))
             = AList.update ''predictive-actions'' (as_stored (predictive_bar ps))
                 (AList.update ''salary-comparison-chart''
                    (as_stored (attachHandlers chart0 (handlerRegistry sys)))
                    (AList.update ''salary-comparison-cards''
                       (as_stored (attachHandlers cards0 (handlerRegistry sys)))
                       (AList.delete ''salary-data-form'' (t_own (e_state (ui sys))))))"
proof -
  let ?S = "sys\<lparr>store := salary_store (store sys) now\<rparr>"
  let ?h = "handlerRegistry sys"
  let ?cards = "as_stored (attachHandlers cards0 ?h)"
  let ?chart = "as_stored (attachHandlers chart0 ?h)"
  let ?T = "AList.update ''salary-comparison-chart'' ?chart
              (AList.update ''salary-comparison-cards'' ?cards
                 (AList.delete ''salary-data-form'' (t_own (e_state (ui sys)))))"
  have resp: "simulateAIResponse ?S form_text =
     \<lparr>o_render = [cards0, chart0], o_remove = [''salary-data-form''], o_update = [],
      o_notes = ''Processed salary data and displayed comparison''\<rparr>"
    using simulate_form [where sys = sys and ds = "store sys" and now = now] by simp
  have ok: "tree_ok ?S" using assms by simp
  have nr: "extractReferences form_text = []" by (simp add: form_text_def extract_form)
  have up: "o_update (simulateAIResponse ?S form_text) = []" by (simp add: resp)
  have rm: "list_all (\<lambda>i. \<not> inherited i) (o_remove (simulateAIResponse ?S form_text))"
    by (simp add: resp ids_not_inherited)
  have rn: "list_all (\<lambda>c. \<not> inherited (c_id c) \<and> c_order c \<noteq> None \<and> cards_ok (as_stored c))
               (o_render (simulateAIResponse ?S form_text))"
    by (simp add: resp comparison_facts ids_not_inherited cards0_ok chart0_ok)
  have et: "edited_tree ?S (simulateAIResponse ?S form_text) = ?T"
    by (simp add: edited_tree_def resp comparison_facts)
  have l1: "list_ex (\<lambda>c. s_id c = Some ''salary-comparison-cards'') (filter is_visible (map snd ?T))"
    by (rule shown_entry [of _ "''salary-comparison-cards''" ?cards])
       (simp_all add: update_conv' is_visible_def as_stored_def comparison_facts)
  have l2: "list_ex (\<lambda>c. s_id c = Some ''salary-comparison-chart'') (filter is_visible (map snd ?T))"
    by (rule shown_entry [of _ "''salary-comparison-chart''" ?chart])
       (simp_all add: update_conv' is_visible_def as_stored_def comparison_facts)
  from processUserInput_ok [OF ok form_not_blank nr up rm rn, of now rnd]
  obtain ps sys' where p: "processUserInput ?S now rnd form_text =
             (\<lparr>a_render = map (\<lambda>cm. attachHandlers cm (handlerRegistry ?S))
                              (o_render (simulateAIResponse ?S form_text))
                            @ (if shouldShowPredictions ps then [predictive_bar ps] else []),
               a_remove = o_remove (simulateAIResponse ?S form_text), a_update = []\<rparr>, sys')"
    and sh: "list_ex (\<lambda>c. s_id c = Some ''salary-comparison-cards'')
               (filter is_visible (map snd (edited_tree ?S (simulateAIResponse ?S form_text))))
            \<and> list_ex (\<lambda>c. s_id c = Some ''salary-comparison-chart'')
                (filter is_visible (map snd (edited_tree ?S (simulateAIResponse ?S form_text))))
            \<longrightarrow> shouldShowPredictions ps"
    and tr: "t_own (e_state (ui sys'))
             = (if shouldShowPredictions ps
                then AList.update ''predictive-actions'' (as_stored (predictive_bar ps))
                       (edited_tree ?S (simulateAIResponse ?S form_text))
                else edited_tree ?S (simulateAIResponse ?S form_text))"
    by blast
  from sh l1 l2 have shown: "shouldShowPredictions ps" by (simp only: et)
  have "handleFormSubmission sys now rnd
               [(''lastMonthSalary'', JNum 5000), (''currentMonthSalary'', JNum 5500)]
             = (\<lparr>a_render = [attachHandlers cards0 ?h, attachHandlers chart0 ?h, predictive_bar ps],
                 a_remove = [''salary-data-form''], a_update = []\<rparr>, sys')"
    using shown by (simp add: handleFormSubmission_salary form_text_def [symmetric] p resp)
  moreover have "t_own (e_state (ui sys')) = AList.update ''predictive-actions''
                    (as_stored (predictive_bar ps)) ?T"
    using shown by (simp only: tr et if_True)
  ultimately show ?thesis by blast
qed

lemma salary_scenario:
  assumes "tree_ok sys" and "\<not> hasSalaryData (store sys)"
  shows "map c_id (filter (\<lambda>c. c_type c = ''InputForm'')
            (a_render (fst (processUserInput sys n1 r1 ''show salary comparison''))))
           = [''salary-data-form'']
       \<and> map c_type (a_render (fst (processUserInput sys n1 r1 ''show salary comparison'')))
           \<in> {[''InputForm''], [''InputForm'', ''PredictiveActionBar'']}
       \<and> a_remove (fst (processUserInput sys n1 r1 ''show salary comparison'')) = []
       \<and> a_update (fst (processUserInput sys n1 r1 ''show salary comparison'')) = []
       \<and> a_remove (fst (handleFormSubmission (snd (processUserInput sys n1 r1 ''show salary comparison''))
              n2 r2 [(''lastMonthSalary'', JNum 5000), (''currentMonthSalary'', JNum 5500)]))
           = [''salary-data-form'']
       \<and> map c_type (a_render (fst (handleFormSubmission
              (snd (processUserInput sys n1 r1 ''show salary comparison''))
              n2 r2 [(''lastMonthSalary'', JNum 5000), (''currentMonthSalary'', JNum 5500)])))
           = [''SummaryCards'', ''ChartView'', ''PredictiveActionBar'']
       \<and> map (\<lambda>c. c_props c ''data'')
            (filter (\<lambda>c. c_type c = ''ChartView'')
               (a_render (fst (handleFormSubmission
                  (snd (processUserInput sys n1 r1 ''show salary comparison''))
                  n2 r2 [(''lastMonthSalary'', JNum 5000), (''currentMonthSalary'', JNum 5500)]))))
           = [Some (JArr [JNum 5000, JNum 5500])]
       \<and> map (\<lambda>i. map_option s_type
                  (map_of (t_own (getState (ui (snd (handleFormSubmission
                     (snd (processUserInput sys n1 r1 ''show salary comparison''))
                     n2 r2 [(''lastMonthSalary'', JNum 5000), (''currentMonthSalary'', JNum 5500)])))))
                     i))
            [''salary-data-form'', ''salary-comparison-cards'', ''salary-comparison-chart'',
             ''predictive-actions'']
           = [None, Some (Some ''SummaryCards''), Some (Some ''ChartView''),
              Some (Some ''PredictiveActionBar'')]"
proof -
  let ?st1 = "processUserInput sys n1 r1 ''show salary comparison''"
  from salary_form_step [OF assms extract_show show_request, where now = n1 and rnd = r1]
  obtain c ps sys1 where a1: "?st1 =
        (\<lparr>a_render = [c] @ (if shouldShowPredictions ps then [predictive_bar ps] else []),
          a_remove = [], a_update = []\<rparr>, sys1)"
    and ci: "c_id c = ''salary-data-form''" and ct: "c_type c = ''InputForm''"
    and t1: "tree_ok sys1" by blast
  have bar: "c_type (predictive_bar q) = ''PredictiveActionBar''" for q by (rule bar_facts)
  from salary_submit_step [OF t1, of n2 r2]
  obtain qs sys2 where a2: "handleFormSubmission sys1 n2 r2
               [(''lastMonthSalary'', JNum 5000), (''currentMonthSalary'', JNum 5500)]
             = (\<lparr>a_render = [attachHandlers cards0 (handlerRegistry sys1),
                             attachHandlers chart0 (handlerRegistry sys1), predictive_bar qs],
                 a_remove = [''salary-data-form''], a_update = []\<rparr>, sys2)"
    and tr: "t_own (e_state (ui sys2))
             = AList.update ''predictive-actions'' (as_stored (predictive_bar qs))
                 (AList.update ''salary-comparison-chart''
                    (as_stored (attachHandlers chart0 (handlerRegistry sys1)))
                    (AList.update ''salary-comparison-cards''
                       (as_stored (attachHandlers cards0 (handlerRegistry sys1)))
                       (AList.delete ''salary-data-form'' (t_own (e_state (ui sys1))))))"
    by blast
  have dat: "c_props (attachHandlers chart0 h) ''data'' = Some (JArr [JNum 5000, JNum 5500])" for h
    by (simp add: attachHandlers_props comparison_facts)
  have step1: "map c_id (filter (\<lambda>c. c_type c = ''InputForm'') (a_render (fst ?st1)))
                 = [''salary-data-form'']
       \<and> map c_type (a_render (fst ?st1)) \<in> {[''InputForm''], [''InputForm'', ''PredictiveActionBar'']}
       \<and> a_remove (fst ?st1) = [] \<and> a_update (fst ?st1) = []"
    by (simp add: a1 ci ct bar)
  have step2: "a_remove (fst (handleFormSubmission (snd ?st1) n2 r2
              [(''lastMonthSalary'', JNum 5000), (''currentMonthSalary'', JNum 5500)]))
           = [''salary-data-form'']
       \<and> map c_type (a_render (fst (handleFormSubmission (snd ?st1) n2 r2
              [(''lastMonthSalary'', JNum 5000), (''currentMonthSalary'', JNum 5500)])))
           = [''SummaryCards'', ''ChartView'', ''PredictiveActionBar'']
       \<and> map (\<lambda>c. c_props c ''data'')
            (filter (\<lambda>c. c_type c = ''ChartView'')
               (a_render (fst (handleFormSubmission (snd ?st1) n2 r2
                  [(''lastMonthSalary'', JNum 5000), (''currentMonthSalary'', JNum 5500)]))))
           = [Some (JArr [JNum 5000, JNum 5500])]"
    by (simp add: a1 a2 comparison_facts bar dat)
  have step3: "map (\<lambda>i. map_option s_type
                  (map_of (t_own (getState (ui (snd (handleFormSubmission (snd ?st1) n2 r2
                     [(''lastMonthSalary'', JNum 5000), (''currentMonthSalary'', JNum 5500)])))))
                     i))
            [''salary-data-form'', ''salary-comparison-cards'', ''salary-comparison-chart'',
             ''predictive-actions'']
           = [None, Some (Some ''SummaryCards''), Some (Some ''ChartView''),
              Some (Some ''PredictiveActionBar'')]"
    by (simp add: a1 a2 getState_def copy_of_def tr update_conv' delete_conv' as_stored_def
        comparison_facts bar)
  from step1 step2 step3 show ?thesis by blast
qed

text \<open>
  C2, as the claim states it, fails in its last part: the action returned after the form
  is submitted renders three descriptors, not two. The execution wrapper appends the
  suggestion bar (\<open>PredictiveActionBar\<close>) to the render list of the action, and after a
  salary comparison the suggestion rules always fire.
\<close>

theorem C2_three_descriptors_counterexample:
  "map c_type (a_render (fst (handleFormSubmission
       (snd (processUserInput (initial_System ''2026-11'' ''2026-10'' 0) 10 ''r1'' ''show salary comparison''))
       20 ''r2'' [(''lastMonthSalary'', JNum 5000), (''currentMonthSalary'', JNum 5500)])))
     = [''SummaryCards'', ''ChartView'', ''PredictiveActionBar'']
   \<and> length (a_render (fst (handleFormSubmission
       (snd (processUserInput (initial_System ''2026-11'' ''2026-10'' 0) 10 ''r1'' ''show salary comparison''))
       20 ''r2'' [(''lastMonthSalary'', JNum 5000), (''currentMonthSalary'', JNum 5500)]))) \<noteq> 2"
proof -
  from salary_scenario [OF initial_System_facts [of "''2026-11''" "''2026-10''" 0],
      where ?n1.0 = 10 and ?r1.0 = "''r1''" and ?n2.0 = 20 and ?r2.0 = "''r2''"]
  have t: "map c_type (a_render (fst (handleFormSubmission
       (snd (processUserInput (initial_System ''2026-11'' ''2026-10'' 0) 10 ''r1'' ''show salary comparison''))
       20 ''r2'' [(''lastMonthSalary'', JNum 5000), (''currentMonthSalary'', JNum 5500)])))
     = [''SummaryCards'', ''ChartView'', ''PredictiveActionBar'']" by blast
  from arg_cong [OF t, of length]
  have len: "length (a_render (fst (handleFormSubmission
       (snd (processUserInput (initial_System ''2026-11'' ''2026-10'' 0) 10 ''r1'' ''show salary comparison''))
       20 ''r2'' [(''lastMonthSalary'', JNum 5000), (''currentMonthSalary'', JNum 5500)]))) = 3"
    by simp
  show ?thesis
    by (rule conjI [OF t]) (simp add: len)
qed

text \<open>
  C2, amended. On every tree of typed components (\<open>tree_ok\<close>) and every store that lacks
  the salary facts, submitting \<open>show salary comparison\<close> yields an action whose render
  list holds exactly one data-collection form (\<open>InputForm\<close>, with the id
  \<open>salary-data-form\<close>), followed at most by the suggestion bar, and which removes and
  updates nothing. Submitting the form with 5000 and 5500 then yields an action that
  removes the form and renders exactly three descriptors: one of type \<open>SummaryCards\<close>, one
  of type \<open>ChartView\<close> whose data points are [5000, 5500], and the \<open>PredictiveActionBar\<close>
  that the execution wrapper appends; the tree then holds these three components under
  their ids and no form.
\<close>

theorem C2_salary_comparison_end_to_end:
  assumes "tree_ok sys" and "\<not> hasSalaryData (store sys)"
  shows "map c_id (filter (\<lambda>c. c_type c = ''InputForm'')
            (a_render (fst (processUserInput sys n1 r1 ''show salary comparison''))))
           = [''salary-data-form'']
       \<and> map c_type (a_render (fst (processUserInput sys n1 r1 ''show salary comparison'')))
           \<in> {[''InputForm''], [''InputForm'', ''PredictiveActionBar'']}
       \<and> a_remove (fst (processUserInput sys n1 r1 ''show salary comparison'')) = []
       \<and> a_update (fst (processUserInput sys n1 r1 ''show salary comparison'')) = []
       \<and> a_remove (fst (handleFormSubmission (snd (processUserInput sys n1 r1 ''show salary comparison''))
              n2 r2 [(''lastMonthSalary'', JNum 5000), (''currentMonthSalary'', JNum 5500)]))
           = [''salary-data-form'']
       \<and> map c_type (a_render (fst (handleFormSubmission
              (snd (processUserInput sys n1 r1 ''show salary comparison''))
              n2 r2 [(''lastMonthSalary'', JNum 5000), (''currentMonthSalary'', JNum 5500)])))
           = [''SummaryCards'', ''ChartView'', ''PredictiveActionBar'']
       \<and> map (\<lambda>c. c_props c ''data'')
            (filter (\<lambda>c. c_type c = ''ChartView'')
               (a_render (fst (handleFormSubmission
                  (snd (processUserInput sys n1 r1 ''show salary comparison''))
                  n2 r2 [(''lastMonthSalary'', JNum 5000), (''currentMonthSalary'', JNum 5500)]))))
           = [Some (JArr [JNum 5000, JNum 5500])]
       \<and> map (\<lambda>i. map_option s_type
                  (map_of (t_own (getState (ui (snd (handleFormSubmission
                     (snd (processUserInput sys n1 r1 ''show salary comparison''))
                     n2 r2 [(''lastMonthSalary'', JNum 5000), (''currentMonthSalary'', JNum 5500)])))))
                     i))
            [''salary-data-form'', ''salary-comparison-cards'', ''salary-comparison-chart'',
             ''predictive-actions'']
           = [None, Some (Some ''SummaryCards''), Some (Some ''ChartView''),
              Some (Some ''PredictiveActionBar'')]"
  using assms by (rule salary_scenario)

text \<open>
  The system after the input \<open>hello\<close> on a new system: its tree is not empty (it holds the
  empty-state component), and it is a tree of typed components.
\<close>

lemma hello_response:
  "simulateAIResponse sys ''hello'' =
     \<lparr>o_render =
        [descriptor ''empty-state'' ''EmptyState''
           [(''title'', JStr ''What would you like to see?''),
            (''description'', JStr ''Try asking for a salary comparison, chart, or summary.''),
            (''actionLabel'', JStr ''Get Started'')] 0],
      o_remove = [], o_update = [], o_notes = ''Displayed empty state for new user''\<rparr>"
  by (simp add: simulateAIResponse_def Let_def toLowerCase_def lower_char_def is_salary_request_def
      is_form_completion_def is_export_request_def is_expense_request_def is_clear_request_def
      isDestructiveRequest_def destructivePatterns_def is_confirm_request_def includes_str_def
      sublist_code)

lemma hello_step:
  assumes "tree_ok sys"
  shows "tree_ok (snd (processUserInput sys now rnd ''hello''))
       \<and> store (snd (processUserInput sys now rnd ''hello'')) = store sys
       \<and> map_of (t_own (getState (ui (snd (processUserInput sys now rnd ''hello''))))) ''empty-state''
           \<noteq> None"
proof -
  have nb: "trim ''hello'' \<noteq> []"
  proof -
    have "trim ''hello'' = ''hello''" by (rule trim_unchanged) (simp_all add: white_space_def)
    then show ?thesis by simp
  qed
  have nr: "extractReferences ''hello'' = []" by (simp add: scan_defs)
  have i: "\<not> inherited ''empty-state''"
    by (simp add: inherited_def Object_prototype_functions_def)
  have up: "o_update (simulateAIResponse sys ''hello'') = []" by (simp add: hello_response)
  have rm: "list_all (\<lambda>i. \<not> inherited i) (o_remove (simulateAIResponse sys ''hello''))"
    by (simp add: hello_response)
  have rn: "list_all (\<lambda>c. \<not> inherited (c_id c) \<and> c_order c \<noteq> None \<and> cards_ok (as_stored c))
               (o_render (simulateAIResponse sys ''hello''))"
    by (simp add: hello_response cards_ok_no_cards descriptor_def i)
  have et: "map_of (edited_tree sys (simulateAIResponse sys ''hello'')) ''empty-state'' \<noteq> None"
    by (simp add: edited_tree_def hello_response update_conv' descriptor_def)
  from processUserInput_ok [OF assms nb nr up rm rn, of now rnd]
  obtain ps sys' where p: "snd (processUserInput sys now rnd ''hello'') = sys'"
    and t: "tree_ok sys'" and st: "store sys' = store sys"
    and tr: "t_own (e_state (ui sys'))
             = (if shouldShowPredictions ps
                then AList.update ''predictive-actions'' (as_stored (predictive_bar ps))
                       (edited_tree sys (simulateAIResponse sys ''hello''))
                else edited_tree sys (simulateAIResponse sys ''hello''))"
    by force
  show ?thesis
    using t st et by (simp add: p getState_def copy_of_def tr update_conv')
qed

text \<open>
  Two examples: a new system, and the system after the input \<open>hello\<close>, whose tree holds
  the empty-state component.
\<close>

theorem C2_salary_comparison_end_to_end_witness:
  "tree_ok (initial_System ''2026-11'' ''2026-10'' 0)
   \<and> \<not> hasSalaryData (store (initial_System ''2026-11'' ''2026-10'' 0))
   \<and> map c_id (filter (\<lambda>c. c_type c = ''InputForm'')
        (a_render (fst (processUserInput (initial_System ''2026-11'' ''2026-10'' 0) 10 ''r1''
          ''show salary comparison'')))) = [''salary-data-form'']
   \<and> a_remove (fst (handleFormSubmission
          (snd (processUserInput (initial_System ''2026-11'' ''2026-10'' 0) 10 ''r1'' ''show salary comparison''))
          20 ''r2'' [(''lastMonthSalary'', JNum 5000), (''currentMonthSalary'', JNum 5500)]))
       = [''salary-data-form'']
   \<and> map (\<lambda>c. c_props c ''data'')
        (filter (\<lambda>c. c_type c = ''ChartView'')
           (a_render (fst (handleFormSubmission
              (snd (processUserInput (initial_System ''2026-11'' ''2026-10'' 0) 10 ''r1''
                 ''show salary comparison''))
              20 ''r2'' [(''lastMonthSalary'', JNum 5000), (''currentMonthSalary'', JNum 5500)]))))
       = [Some (JArr [JNum 5000, JNum 5500])]
   \<and> tree_ok (snd (processUserInput (initial_System ''2026-11'' ''2026-10'' 0) 5 ''r0'' ''hello''))
   \<and> \<not> hasSalaryData
         (store (snd (processUserInput (initial_System ''2026-11'' ''2026-10'' 0) 5 ''r0'' ''hello'')))
   \<and> map_of (t_own (getState (ui (snd (processUserInput (initial_System ''2026-11'' ''2026-10'' 0)
                                            5 ''r0'' ''hello''))))) ''empty-state'' \<noteq> None
   \<and> map c_id (filter (\<lambda>c. c_type c = ''InputForm'')
        (a_render (fst (processUserInput
           (snd (processUserInput (initial_System ''2026-11'' ''2026-10'' 0) 5 ''r0'' ''hello''))
           10 ''r1'' ''show salary comparison'')))) = [''salary-data-form'']
   \<and> map c_type (a_render (fst (handleFormSubmission
          (snd (processUserInput
             (snd (processUserInput (initial_System ''2026-11'' ''2026-10'' 0) 5 ''r0'' ''hello''))
             10 ''r1'' ''show salary comparison''))
          20 ''r2'' [(''lastMonthSalary'', JNum 5000), (''currentMonthSalary'', JNum 5500)])))
       = [''SummaryCards'', ''ChartView'', ''PredictiveActionBar'']"
proof -
  let ?S = "initial_System ''2026-11'' ''2026-10'' 0"
  let ?H = "snd (processUserInput ?S 5 ''r0'' ''hello'')"
  note f = initial_System_facts [of "''2026-11''" "''2026-10''" 0]
  from hello_step [OF f(1), of 5 "''r0''"]
  have h1: "tree_ok ?H" and hs: "store ?H = store ?S"
    and h3: "map_of (t_own (getState (ui ?H))) ''empty-state'' \<noteq> None" by simp_all
  from f(2) hs have h2: "\<not> hasSalaryData (store ?H)" by simp
  show ?thesis
    using f h1 h2 h3
      C2_salary_comparison_end_to_end [OF f,
        where ?n1.0 = 10 and ?r1.0 = "''r1''" and ?n2.0 = 20 and ?r2.0 = "''r2''"]
      C2_salary_comparison_end_to_end [OF h1 h2,
        where ?n1.0 = 10 and ?r1.0 = "''r1''" and ?n2.0 = 20 and ?r2.0 = "''r2''"]
    by blast
qed

end
